theory Spec2Isabelle
  imports Main
begin

section \<open>Python values used by build.py\<close>

text \<open>
  The exceptions that build.py raises or lets escape. \<open>SystemExit n\<close> is what
  \<^verbatim>\<open>exit(n)\<close> raises; it is not an \<^verbatim>\<open>Exception\<close>, so no handler of the script
  catches it.
\<close>

datatype error =
    KeyError string
  | ValueError string
  | IndexError
  | NameError string
  | OSError string
  | SystemExit nat

fun bind_e :: "error + 'a \<Rightarrow> ('a \<Rightarrow> error + 'b) \<Rightarrow> error + 'b" where
  "bind_e (Inl e) f = Inl e"
| "bind_e (Inr a) f = f a"

text \<open>\<^verbatim>\<open>"v" in s\<close> for a one-character needle.\<close>

definition contains_char :: "char \<Rightarrow> string \<Rightarrow> bool" where
  "contains_char c s = (c \<in> set s)"

text \<open>\<^verbatim>\<open>s.replace(c, "")\<close> for a one-character \<open>c\<close>: every occurrence is dropped.\<close>

definition replace_char :: "char \<Rightarrow> string \<Rightarrow> string" where
  "replace_char c s = filter (\<lambda>x. x \<noteq> c) s"

text \<open>\<^verbatim>\<open>sep.join(xs)\<close>.\<close>

fun join :: "string \<Rightarrow> string list \<Rightarrow> string" where
  "join sep [] = []"
| "join sep [x] = x"
| "join sep (x # y # ys) = x @ sep @ join sep (y # ys)"

text \<open>An optional command-line argument inside an f-string: \<^verbatim>\<open>None\<close> prints as its name.\<close>

definition fmt :: "string option \<Rightarrow> string" where
  "fmt x = (case x of None \<Rightarrow> ''None'' | Some s \<Rightarrow> s)"

text \<open>A string between single quotes, as \<^verbatim>\<open>f"'{s}'"\<close> writes it.\<close>

definition quoted :: "string \<Rightarrow> string" where
  "quoted s = [CHR 0x27] @ s @ [CHR 0x27]"

text \<open>
  \<^verbatim>\<open>repr\<close> of a string. The string is written between single quotes, or between
  double quotes when it holds a single quote and no double quote. Inside, the chosen
  quote and the backslash are preceded by a backslash, and a control character is
  written as its escape: a backslash and \<^verbatim>\<open>t\<close>, \<^verbatim>\<open>n\<close> or \<^verbatim>\<open>r\<close> for a tab, a line feed or a
  carriage return, a backslash, \<^verbatim>\<open>x\<close> and two lower-case hexadecimal digits for the
  others below 0x20 and for 0x7f. Every other character is copied; for a character
  outside ASCII this is what Python does when the character is printable.
\<close>

definition escapes :: "(char \<times> string) list" where
  "escapes =
    [(CHR 0x00, CHR 0x5C # ''x00''), (CHR 0x01, CHR 0x5C # ''x01''), (CHR 0x02, CHR 0x5C # ''x02''),
     (CHR 0x03, CHR 0x5C # ''x03''), (CHR 0x04, CHR 0x5C # ''x04''), (CHR 0x05, CHR 0x5C # ''x05''),
     (CHR 0x06, CHR 0x5C # ''x06''), (CHR 0x07, CHR 0x5C # ''x07''), (CHR 0x08, CHR 0x5C # ''x08''),
     (CHR 0x09, CHR 0x5C # ''t''), (CHR 0x0A, CHR 0x5C # ''n''), (CHR 0x0B, CHR 0x5C # ''x0b''),
     (CHR 0x0C, CHR 0x5C # ''x0c''), (CHR 0x0D, CHR 0x5C # ''r''), (CHR 0x0E, CHR 0x5C # ''x0e''),
     (CHR 0x0F, CHR 0x5C # ''x0f''), (CHR 0x10, CHR 0x5C # ''x10''), (CHR 0x11, CHR 0x5C # ''x11''),
     (CHR 0x12, CHR 0x5C # ''x12''), (CHR 0x13, CHR 0x5C # ''x13''), (CHR 0x14, CHR 0x5C # ''x14''),
     (CHR 0x15, CHR 0x5C # ''x15''), (CHR 0x16, CHR 0x5C # ''x16''), (CHR 0x17, CHR 0x5C # ''x17''),
     (CHR 0x18, CHR 0x5C # ''x18''), (CHR 0x19, CHR 0x5C # ''x19''), (CHR 0x1A, CHR 0x5C # ''x1a''),
     (CHR 0x1B, CHR 0x5C # ''x1b''), (CHR 0x1C, CHR 0x5C # ''x1c''), (CHR 0x1D, CHR 0x5C # ''x1d''),
     (CHR 0x1E, CHR 0x5C # ''x1e''), (CHR 0x1F, CHR 0x5C # ''x1f''), (CHR 0x7F, CHR 0x5C # ''x7f'')]"

definition repr_char :: "char \<Rightarrow> char \<Rightarrow> string" where
  "repr_char q c =
     (if c = q \<or> c = CHR 0x5C then [CHR 0x5C, c]
      else case map_of escapes c of Some e \<Rightarrow> e | None \<Rightarrow> [c])"

definition repr_quote :: "string \<Rightarrow> char" where
  "repr_quote s =
     (if CHR 0x22 \<in> set s then CHR 0x27
      else if CHR 0x27 \<in> set s then CHR 0x22
      else CHR 0x27)"

definition repr :: "string \<Rightarrow> string" where
  "repr s = (let q = repr_quote s in [q] @ concat (map (repr_char q) s) @ [q])"

text \<open>The way a \<^verbatim>\<open>dict_keys\<close> view of strings prints.\<close>

definition dict_keys :: "string list \<Rightarrow> string" where
  "dict_keys ks = ''dict_keys(['' @ join '', '' (map repr ks) @ ''])''"

text \<open>\<^verbatim>\<open>str(e)\<close> of the exceptions the \<^verbatim>\<open>except Exception as e\<close> handlers print.\<close>

fun str_of_error :: "error \<Rightarrow> string" where
  "str_of_error (KeyError k) = repr k"
| "str_of_error (ValueError m) = m"
| "str_of_error IndexError = ''list index out of range''"
| "str_of_error (NameError n) = ''name '' @ quoted n @ '' is not defined''"
| "str_of_error (OSError m) = m"
| "str_of_error (SystemExit n) = []"

section \<open>The configuration read from build.yaml\<close>

text \<open>
  \<^verbatim>\<open>configurations\<close> is a dict keyed by build type. Every entry is a dict whose keys may
  be absent (a subscript then raises \<^verbatim>\<open>KeyError\<close>); dicts are association lists in
  document order, since \<^verbatim>\<open>keys()\<close> is iterated and printed in that order.
  The keys and the scalar values of the document are strings, as in the build.yaml of
  the repository; a document that gives a number or a null where build.py calls a
  string method or tests \<^verbatim>\<open>is None\<close> is not a value of these types.
\<close>

record build_conf =
  cfg_build_function :: "string option"
  cfg_dockerfile :: "string option"
  cfg_imagename :: "string option"
  cfg_archivetypes :: "string option"
  cfg_archmaps :: "(string \<times> (string \<times> string) list) list option"
  cfg_releases :: "(string \<times> string) list option"
  cfg_cross_gcc :: "(string \<times> string) list option"

type_synonym configurations = "(string \<times> build_conf) list"

definition keys :: "(string \<times> 'v) list \<Rightarrow> string list" where
  "keys d = map fst d"

definition getitem :: "(string \<times> 'v) list \<Rightarrow> string \<Rightarrow> error + 'v" where
  "getitem d k = (case map_of d k of None \<Rightarrow> Inl (KeyError k) | Some v \<Rightarrow> Inr v)"

definition getfield :: "string \<Rightarrow> 'v option \<Rightarrow> error + 'v" where
  "getfield k x = (case x of None \<Rightarrow> Inl (KeyError k) | Some v \<Rightarrow> Inr v)"

text \<open>\<^verbatim>\<open>configurations[build_type][k]\<close> for a key \<open>k\<close> read by the selector \<open>sel\<close>.\<close>

definition conf :: "configurations \<Rightarrow> string \<Rightarrow> string \<Rightarrow> (build_conf \<Rightarrow> 'v option) \<Rightarrow> error + 'v" where
  "conf configurations build_type k sel =
     bind_e (getitem configurations build_type) (\<lambda>c. getfield k (sel c))"

text \<open>\<^verbatim>\<open>configurations[build_type]["archmaps"][build_arch][k]\<close>.\<close>

definition archmap :: "configurations \<Rightarrow> string \<Rightarrow> string \<Rightarrow> string \<Rightarrow> error + string" where
  "archmap configurations build_type build_arch k =
     bind_e (conf configurations build_type ''archmaps'' cfg_archmaps)
       (\<lambda>m. bind_e (getitem m build_arch) (\<lambda>a. getitem a k))"

section \<open>Effects: the log and the container engine\<close>

text \<open>
  What a run does to the outside: lines printed by \<^verbatim>\<open>log\<close>, commands given to
  \<^verbatim>\<open>os.system\<close>, and the changelog file written. The world is the list of these events
  in the order they happened. \<^verbatim>\<open>os.system\<close> returns the command's exit status, which the
  engine decides from the history and the command.
\<close>

datatype event = Log string | System string | WriteFile string string

type_synonym world = "event list"

type_synonym engine = "event list \<Rightarrow> string \<Rightarrow> int"

definition log :: "string \<Rightarrow> world \<Rightarrow> world" where
  "log message w = w @ [Log message]"

definition os_system :: "engine \<Rightarrow> string \<Rightarrow> world \<Rightarrow> int \<times> world" where
  "os_system eng command w = (eng w command, w @ [System command])"

definition docker_build_cmd :: string where
  "docker_build_cmd = ''docker build --progress=plain --no-cache''"

definition docker_run_cmd :: string where
  "docker_run_cmd = ''docker run --rm''"

text \<open>
  What the script reads from its surroundings: the engine behind \<^verbatim>\<open>os.system\<close>, the
  repository root printed by git, the three readings of the clock
  (\<^verbatim>\<open>strftime("%Y%m%d%H")\<close> at the top level, \<^verbatim>\<open>strftime("%Y%m%d-%H%M%S")\<close> in
  \<^verbatim>\<open>build_docker\<close>, \<^verbatim>\<open>format_datetime(localtime())\<close> in \<^verbatim>\<open>build_package_deb\<close>), the
  text of debian/changelog.in (or the error of opening it) and the library's
  \<^verbatim>\<open>str.format\<close> with keyword arguments.
\<close>

record env =
  engine :: engine
  repo_root_dir :: string
  now_hour :: string
  now_second :: string
  now_rfc2822 :: string
  changelog_in :: "error + string"
  str_format :: "string \<Rightarrow> (string \<times> string) list \<Rightarrow> error + string"

section \<open>build\_docker\<close>

text \<open>
  Lines 291 to 301: the three flags are set from \<^verbatim>\<open>"v" in jellyfin_version\<close> on the
  version as passed in, and only then is the version replaced by
  \<^verbatim>\<open>jellyfin_version.replace("v", "")\<close>.
\<close>

record docker_flags =
  is_latest :: bool
  is_unstable :: bool
  version_suffix :: bool

definition classify :: "string \<Rightarrow> docker_flags" where
  "classify jellyfin_version =
     (if contains_char CHR ''v'' jellyfin_version
      then \<lparr>is_latest = True, is_unstable = False, version_suffix = True\<rparr>
      else \<lparr>is_latest = False, is_unstable = True, version_suffix = False\<rparr>)"

definition strip_version :: "string \<Rightarrow> string" where
  "strip_version jellyfin_version = replace_char CHR ''v'' jellyfin_version"

text \<open>Lines 319 to 322: the image name, dated when \<^verbatim>\<open>version_suffix\<close> is set.\<close>

definition image_name :: "string \<Rightarrow> docker_flags \<Rightarrow> string \<Rightarrow> string \<Rightarrow> string \<Rightarrow> string" where
  "image_name name flags jellyfin_version date arch =
     (if version_suffix flags
      then name @ '':'' @ jellyfin_version @ ''-'' @ arch @ ''.'' @ date
      else name @ '':'' @ jellyfin_version @ ''-'' @ arch)"

text \<open>Lines 313 to 322: the four architecture variables and the image name of one architecture.\<close>

definition docker_image_vars ::
  "configurations \<Rightarrow> docker_flags \<Rightarrow> string \<Rightarrow> string \<Rightarrow> string
     \<Rightarrow> error + (string \<times> string \<times> string \<times> string \<times> string)" where
  "docker_image_vars configurations flags jellyfin_version date arch =
     bind_e (archmap configurations ''docker'' arch ''PACKAGE_ARCH'') (\<lambda>PACKAGE_ARCH.
     bind_e (archmap configurations ''docker'' arch ''DOTNET_ARCH'') (\<lambda>DOTNET_ARCH.
     bind_e (archmap configurations ''docker'' arch ''QEMU_ARCH'') (\<lambda>QEMU_ARCH.
     bind_e (archmap configurations ''docker'' arch ''IMAGE_ARCH'') (\<lambda>IMAGE_ARCH.
     bind_e (conf configurations ''docker'' ''imagename'' cfg_imagename) (\<lambda>name.
       Inr (PACKAGE_ARCH, DOTNET_ARCH, QEMU_ARCH, IMAGE_ARCH,
            image_name name flags jellyfin_version date arch))))))"

definition qemu_reset_cmd :: string where
  "qemu_reset_cmd = docker_run_cmd @ '' --privileged multiarch/qemu-user-static:register --reset''"

definition docker_image_build_cmd ::
  "string \<Rightarrow> string \<Rightarrow> string \<Rightarrow> string \<times> string \<times> string \<times> string \<times> string \<Rightarrow> string" where
  "docker_image_build_cmd root dockerfile jellyfin_version vars =
     (case vars of (PACKAGE_ARCH, DOTNET_ARCH, QEMU_ARCH, IMAGE_ARCH, imagename) \<Rightarrow>
        docker_build_cmd @ '' --build-arg PACKAGE_ARCH='' @ PACKAGE_ARCH
          @ '' --build-arg DOTNET_ARCH='' @ DOTNET_ARCH
          @ '' --build-arg QEMU_ARCH='' @ QEMU_ARCH
          @ '' --build-arg IMAGE_ARCH='' @ IMAGE_ARCH
          @ '' --build-arg JELLYFIN_VERSION='' @ jellyfin_version
          @ '' --file '' @ root @ ''/'' @ dockerfile
          @ '' --tag '' @ imagename @ '' '' @ root)"

text \<open>
  Lines 309 to 345, the body of the loop over the architectures: on a missing key the
  \<^verbatim>\<open>KeyError\<close> escapes after the two log lines; otherwise the body returns the image name
  it appended to \<^verbatim>\<open>images\<close> (and, prefixed by the second registry, to \<^verbatim>\<open>images_ghcr\<close>).
  No exit status of \<^verbatim>\<open>os.system\<close> is kept.
\<close>

definition build_image ::
  "env \<Rightarrow> configurations \<Rightarrow> string \<Rightarrow> docker_flags \<Rightarrow> string \<Rightarrow> string \<Rightarrow> string \<Rightarrow> world
     \<Rightarrow> (error + string) \<times> world" where
  "build_image E configurations dockerfile flags jellyfin_version date arch w0 =
     (let w1 = log (''>> Building Docker image for '' @ arch @ ''...'') w0;
          w2 = log [] w1
      in case docker_image_vars configurations flags jellyfin_version date arch of
           Inl e \<Rightarrow> (Inl e, w2)
         | Inr vars \<Rightarrow>
             (let imagename = snd (snd (snd (snd vars)));
                  w3 = log (''>>> '' @ qemu_reset_cmd) w2;
                  w4 = snd (os_system (engine E) qemu_reset_cmd w3);
                  w5 = log [] w4;
                  cmd = docker_image_build_cmd (repo_root_dir E) dockerfile jellyfin_version vars;
                  w6 = log (''>>> '' @ cmd) w5;
                  w7 = snd (os_system (engine E) cmd w6);
                  w8 = snd (os_system (engine E)
                         (''docker image tag '' @ imagename @ '' ghcr.io/'' @ imagename) w7);
                  w9 = log [] w8
              in (Inr imagename, w9)))"

fun build_images ::
  "(string \<Rightarrow> world \<Rightarrow> (error + string) \<times> world) \<Rightarrow> string list \<Rightarrow> string list \<Rightarrow> string list
     \<Rightarrow> world \<Rightarrow> (error + string list \<times> string list) \<times> world" where
  "build_images body [] images images_ghcr w = (Inr (images, images_ghcr), w)"
| "build_images body (arch # architectures) images images_ghcr w =
     (case body arch w of
        (Inl e, w') \<Rightarrow> (Inl e, w')
      | (Inr imagename, w') \<Rightarrow>
          build_images body architectures
            (images @ [imagename]) (images_ghcr @ [''ghcr.io/'' @ imagename]) w')"

text \<open>Lines 351 to 354 and 357 to 360: one push loop, \<open>registry\<close> being the name logged.\<close>

fun push_images :: "engine \<Rightarrow> string \<Rightarrow> string list \<Rightarrow> world \<Rightarrow> world" where
  "push_images eng registry [] w = w"
| "push_images eng registry (img # rest) w0 =
     (let w1 = log (''>>> Pushing image '' @ img @ '' to '' @ registry) w0;
          w2 = log (''>>>> docker push '' @ img @ '' 2>&1'') w1;
          w3 = snd (os_system eng (''docker push '' @ img @ '' 2>&1'') w2)
      in push_images eng registry rest w3)"

text \<open>
  The names that hold a list of image references when line 357 runs: the two lists
  filled by the build loop (\<^verbatim>\<open>manifests\<close> is bound only at line 364). A name is looked
  up among them; \<open>module_names\<close> are the names bound at module level, none of which is
  a list.
\<close>

definition docker_frame :: "string list \<Rightarrow> string list \<Rightarrow> (string \<times> string list) list" where
  "docker_frame images images_ghcr = [(''images'', images), (''images_ghcr'', images_ghcr)]"

definition module_names :: "string list" where
  "module_names =
     [''datetime'', ''format_datetime'', ''localtime'', ''os'', ''run'', ''PIPE'', ''sys'',
      ''load'', ''SafeLoader'', ''revparse'', ''repo_root_dir'', ''docker_build_cmd'',
      ''docker_run_cmd'', ''log'', ''fh'', ''configurations'', ''build_package_deb'',
      ''build_package_rpm'', ''build_linux'', ''build_windows'', ''build_macos'',
      ''build_portable'', ''build_docker'', ''usage'', ''function_definitions'',
      ''jellyfin_version'', ''build_type'', ''build_arch'', ''build_version'']"

definition load_name :: "(string \<times> string list) list \<Rightarrow> string \<Rightarrow> error + string list" where
  "load_name frame n = (case map_of frame n of Some xs \<Rightarrow> Inr xs | None \<Rightarrow> Inl (NameError n))"

text \<open>
  Lines 366 to 416 build up to three manifests with the same four statements each: a log
  line, the logged command, \<^verbatim>\<open>docker manifest create\<close> against docker.io with \<^verbatim>\<open>images\<close>
  and against ghcr.io with \<^verbatim>\<open>images_ghcr\<close>, and the tag appended to \<^verbatim>\<open>manifests\<close>.
  \<open>label\<close> is the word logged and \<open>tag\<close> the part after the colon.
\<close>

definition create_manifest ::
  "engine \<Rightarrow> configurations \<Rightarrow> string \<Rightarrow> string \<Rightarrow> string list \<Rightarrow> string list \<Rightarrow> string list
     \<Rightarrow> world \<Rightarrow> (error + string list) \<times> world" where
  "create_manifest eng configurations label tag images images_ghcr manifests w0 =
     (let w1 = log (''>>> Building '' @ label @ '' manifest...'') w0
      in case conf configurations ''docker'' ''imagename'' cfg_imagename of
           Inl e \<Rightarrow> (Inl e, w1)
         | Inr name \<Rightarrow>
             (let w2 = log (''>>>> docker manifest create '' @ name @ '':'' @ tag @ '' ''
                            @ join '' '' images) w1;
                  w3 = snd (os_system eng (''docker manifest create docker.io/'' @ name @ '':''
                            @ tag @ '' '' @ join '' '' images) w2);
                  w4 = snd (os_system eng (''docker manifest create ghcr.io/'' @ name @ '':''
                            @ tag @ '' '' @ join '' '' images_ghcr) w3)
              in (Inr (manifests @ [name @ '':'' @ tag]), w4)))"

definition build_manifests ::
  "engine \<Rightarrow> configurations \<Rightarrow> docker_flags \<Rightarrow> string \<Rightarrow> string \<Rightarrow> string list \<Rightarrow> string list
     \<Rightarrow> world \<Rightarrow> (error + string list) \<times> world" where
  "build_manifests eng configurations flags jellyfin_version date images images_ghcr w0 =
     (let w1 = log ''>> Building Docker manifests...'' w0
      in case (if version_suffix flags
               then create_manifest eng configurations ''dated version''
                      (jellyfin_version @ ''.'' @ date) images images_ghcr [] w1
               else (Inr [], w1)) of
           (Inl e, w2) \<Rightarrow> (Inl e, w2)
         | (Inr manifests1, w2) \<Rightarrow>
             (case create_manifest eng configurations ''version'' jellyfin_version
                     images images_ghcr manifests1 w2 of
                (Inl e, w3) \<Rightarrow> (Inl e, w3)
              | (Inr manifests2, w3) \<Rightarrow>
                  (if is_latest flags
                   then create_manifest eng configurations ''latest'' ''latest''
                          images images_ghcr manifests2 w3
                   else if is_unstable flags
                   then create_manifest eng configurations ''unstable'' ''unstable''
                          images images_ghcr manifests2 w3
                   else (Inr manifests2, w3))))"

text \<open>Lines 419 to 422 and 425 to 428: one loop, over \<^verbatim>\<open>manifests\<close>, for each registry.\<close>

fun push_manifests :: "engine \<Rightarrow> string \<Rightarrow> string \<Rightarrow> string list \<Rightarrow> world \<Rightarrow> world" where
  "push_manifests eng registry host [] w = w"
| "push_manifests eng registry host (manifest # rest) w0 =
     (let w1 = log (''>>> Pushing manifest '' @ manifest @ '' to '' @ registry) w0;
          w2 = log (''>>>> docker manifest push --purge '' @ host @ ''/'' @ manifest @ '' 2>&1'') w1;
          w3 = snd (os_system eng
                 (''docker manifest push --purge '' @ host @ ''/'' @ manifest @ '' 2>&1'') w2)
      in push_manifests eng registry host rest w3)"

text \<open>
  Lines 347 to 428, after the build loop. The second push loop iterates over the name
  \<^verbatim>\<open>ghcr_images\<close>; the name is resolved first, and what follows runs only if that
  succeeds.
\<close>

definition publish ::
  "engine \<Rightarrow> configurations \<Rightarrow> docker_flags \<Rightarrow> string \<Rightarrow> string \<Rightarrow> string list \<Rightarrow> string list
     \<Rightarrow> world \<Rightarrow> (error + unit) \<times> world" where
  "publish eng configurations flags jellyfin_version date images images_ghcr w0 =
     (let w1 = snd (os_system eng ''docker login 2>&1'' w0);
          w2 = push_images eng ''DockerHub'' images w1
      in case load_name (docker_frame images images_ghcr) ''ghcr_images'' of
           Inl e \<Rightarrow> (Inl e, w2)
         | Inr ghcr_images \<Rightarrow>
             (let w3 = push_images eng ''GHCR'' ghcr_images w2
              in case build_manifests eng configurations flags jellyfin_version date
                        images images_ghcr w3 of
                   (Inl e, w4) \<Rightarrow> (Inl e, w4)
                 | (Inr manifests, w4) \<Rightarrow>
                     (let w5 = push_manifests eng ''DockerHub'' ''docker.io'' manifests w4;
                          w6 = push_manifests eng ''GHCR'' ''ghcr.io'' manifests w5
                      in (Inr (), w6))))"

text \<open>
  \<^verbatim>\<open>build_docker(jellyfin_version, build_type, _build_arch, _build_version)\<close>. The two
  last parameters are never read: the loop variable rebinds \<^verbatim>\<open>_build_arch\<close>.
\<close>

definition build_docker ::
  "env \<Rightarrow> configurations \<Rightarrow> string \<Rightarrow> string \<Rightarrow> string option \<Rightarrow> string option \<Rightarrow> world
     \<Rightarrow> (error + unit) \<times> world" where
  "build_docker E configurations jellyfin_version build_type build_arch' build_version' w0 =
     (let w1 = log ''> Building Docker images...'' w0;
          w2 = log [] w1
      in case conf configurations ''docker'' ''archmaps'' cfg_archmaps of
           Inl e \<Rightarrow> (Inl e, w2)
         | Inr archmaps \<Rightarrow>
         (case conf configurations build_type ''dockerfile'' cfg_dockerfile of
           Inl e \<Rightarrow> (Inl e, w2)
         | Inr dockerfile \<Rightarrow>
             (let architectures = keys archmaps;
                  flags = classify jellyfin_version;
                  jellyfin_version = strip_version jellyfin_version;
                  date = now_second E
              in case build_images
                        (build_image E configurations dockerfile flags jellyfin_version date)
                        architectures [] [] w2 of
                   (Inl e, w3) \<Rightarrow> (Inl e, w3)
                 | (Inr (images, images_ghcr), w3) \<Rightarrow>
                     publish (engine E) configurations flags jellyfin_version date
                       images images_ghcr w3)))"

section \<open>The single-target build functions\<close>

text \<open>
  A parameter the source writes with a leading underscore (\<^verbatim>\<open>_build_arch\<close>) is written
  with a trailing prime here. \<^verbatim>\<open>d[k] if k in d.keys() else None\<close>, for a \<open>k\<close> that may be
  \<^verbatim>\<open>None\<close>, is \<open>lookup\<close>.
\<close>

definition lookup :: "(string \<times> 'v) list \<Rightarrow> string option \<Rightarrow> 'v option" where
  "lookup d k = (case k of None \<Rightarrow> None | Some x \<Rightarrow> map_of d x)"

text \<open>
  What every \<^verbatim>\<open>except Exception as e\<close> handler of the build functions does: one log line
  and \<^verbatim>\<open>exit(1)\<close>.
\<close>

definition invalid_arguments :: "error \<Rightarrow> world \<Rightarrow> (error + 'a) \<times> world" where
  "invalid_arguments e w =
     (Inl (SystemExit 1), log (''Invalid/unsupported arguments: '' @ str_of_error e) w)"

subsection \<open>build\_package\_deb\<close>

text \<open>
  Lines 44 to 67, the body of the \<^verbatim>\<open>try\<close>: the build type, then the OS version in
  \<^verbatim>\<open>releases\<close>, then the architecture in \<^verbatim>\<open>archmaps\<close>. The result is
  \<^verbatim>\<open>(os_type, os_version, PACKAGE_ARCH)\<close>.
\<close>

definition deb_arguments ::
  "configurations \<Rightarrow> string \<Rightarrow> string option \<Rightarrow> string option
     \<Rightarrow> error + (string \<times> string \<times> string)" where
  "deb_arguments configurations build_type build_arch build_version =
     (if build_type \<notin> set (keys configurations)
      then Inl (ValueError (build_type @ '' is not a valid OS type in ''
                  @ dict_keys (keys configurations)))
      else
        bind_e (conf configurations build_type ''releases'' cfg_releases) (\<lambda>releases.
          case lookup releases build_version of
            None \<Rightarrow>
              Inl (ValueError (fmt build_version @ '' is not a valid '' @ build_type
                     @ '' version in '' @ dict_keys (keys releases)))
          | Some os_version \<Rightarrow>
              bind_e (conf configurations build_type ''archmaps'' cfg_archmaps) (\<lambda>archmaps.
                case lookup archmaps build_arch of
                  None \<Rightarrow>
                    Inl (ValueError (fmt build_arch @ '' is not a valid '' @ build_type @ '' ''
                           @ fmt build_version @ '' architecture in ''
                           @ dict_keys (keys archmaps)))
                | Some a \<Rightarrow>
                    bind_e (getitem a ''PACKAGE_ARCH'') (\<lambda>PACKAGE_ARCH.
                      Inr (build_type, os_version, PACKAGE_ARCH)))))"

text \<open>Lines 85 to 88: the changelog comment, chosen on the version as passed in.\<close>

definition release_comment :: "string \<Rightarrow> string" where
  "release_comment jellyfin_version =
     (if contains_char CHR ''v'' jellyfin_version
      then ''Jellyfin release '' @ jellyfin_version
             @ '', see https://github.com/jellyfin/jellyfin/releases/'' @ jellyfin_version
             @ '' for details.''
      else ''Jellyin unstable release '' @ jellyfin_version @ ''.'')"

text \<open>
  Lines 72 to 102, between the validation and the two commands: the lookups, the
  changelog read, formatted and written, and the image name. The result is
  \<^verbatim>\<open>(dockerfile, crossgccvers, jellyfin_version, imagename)\<close>, the version as replaced.
  Opening the changelog for writing is taken to succeed.
\<close>

definition deb_prepare ::
  "env \<Rightarrow> configurations \<Rightarrow> string \<Rightarrow> string \<Rightarrow> string option \<Rightarrow> string option \<Rightarrow> string
     \<Rightarrow> world \<Rightarrow> (error + (string \<times> string \<times> string \<times> string)) \<times> world" where
  "deb_prepare E configurations jellyfin_version build_type build_arch build_version os_version w =
     (case bind_e (conf configurations build_type ''dockerfile'' cfg_dockerfile) (\<lambda>dockerfile.
           bind_e (conf configurations build_type ''cross-gcc'' cfg_cross_gcc) (\<lambda>cross.
           bind_e (getitem cross (fmt build_version)) (\<lambda>crossgccvers.
           bind_e (changelog_in E) (\<lambda>changelog.
           bind_e (str_format E changelog
                    [(''package_version'', strip_version jellyfin_version),
                     (''package_build'', take 3 build_type @ replace_char CHR ''.'' os_version),
                     (''release_comment'', release_comment jellyfin_version),
                     (''release_date'', now_rfc2822 E)]) (\<lambda>changelog.
             Inr (dockerfile, crossgccvers, changelog)))))) of
        Inl e \<Rightarrow> (Inl e, w)
      | Inr (dockerfile, crossgccvers, changelog) \<Rightarrow>
          (let w1 = w @ [WriteFile (repo_root_dir E @ ''/debian/changelog'') changelog];
               jellyfin_version = strip_version jellyfin_version
           in case conf configurations build_type ''imagename'' cfg_imagename of
                Inl e \<Rightarrow> (Inl e, w1)
              | Inr name \<Rightarrow>
                  (Inr (dockerfile, crossgccvers, jellyfin_version,
                        name @ ''-'' @ jellyfin_version @ ''_'' @ fmt build_arch @ ''-''
                          @ build_type @ ''-'' @ fmt build_version), w1)))"

definition build_package_deb ::
  "env \<Rightarrow> configurations \<Rightarrow> string \<Rightarrow> string \<Rightarrow> string option \<Rightarrow> string option \<Rightarrow> world
     \<Rightarrow> (error + unit) \<times> world" where
  "build_package_deb E configurations jellyfin_version build_type build_arch build_version w0 =
     (let w1 = log (''> Building an '' @ fmt build_arch @ '' '' @ build_type
                     @ '' .deb package...'') w0;
          w2 = log [] w1
      in case deb_arguments configurations build_type build_arch build_version of
           Inl e \<Rightarrow> invalid_arguments e w2
         | Inr (os_type, os_version, PACKAGE_ARCH) \<Rightarrow>
             (case deb_prepare E configurations jellyfin_version build_type build_arch
                     build_version os_version w2 of
                (Inl e, w3) \<Rightarrow> (Inl e, w3)
              | (Inr (dockerfile, crossgccvers, jellyfin_version, imagename), w3) \<Rightarrow>
                  (let root = repo_root_dir E;
                       w4 = snd (os_system (engine E)
                              (docker_build_cmd @ '' --build-arg PACKAGE_TYPE='' @ os_type
                                 @ '' --build-arg PACKAGE_VERSION='' @ os_version
                                 @ '' --build-arg PACKAGE_ARCH='' @ PACKAGE_ARCH
                                 @ '' --build-arg GCC_VERSION='' @ crossgccvers
                                 @ '' --file '' @ root @ ''/'' @ dockerfile
                                 @ '' --tag '' @ imagename @ '' '' @ root) w3);
                       w5 = snd (os_system (engine E)
                              (docker_run_cmd @ '' --volume '' @ root @ '':/jellyfin''
                                 @ '' --volume '' @ root @ ''/out/'' @ build_type @ '':/dist''
                                 @ '' --env JELLYFIN_VERSION='' @ jellyfin_version
                                 @ '' --name '' @ imagename @ '' '' @ imagename) w4)
                   in (Inr (), w5))))"

subsection \<open>build\_package\_rpm\<close>

text \<open>Lines 113 to 120: two log lines and \<^verbatim>\<open>pass\<close>.\<close>

definition build_package_rpm ::
  "env \<Rightarrow> configurations \<Rightarrow> string \<Rightarrow> string \<Rightarrow> string option \<Rightarrow> string option \<Rightarrow> world
     \<Rightarrow> (error + unit) \<times> world" where
  "build_package_rpm E configurations jellyfin_version build_type build_arch build_version w0 =
     (let w1 = log (''> Building an '' @ fmt build_arch @ '' '' @ build_type
                     @ '' .rpm package...'') w0;
          w2 = log [] w1
      in (Inr (), w2))"

subsection \<open>build\_linux, build\_windows, build\_macos\<close>

text \<open>
  The names \<^verbatim>\<open>build_arch\<close> and \<^verbatim>\<open>build_version\<close> bound at module level (lines 489 to
  497). A build function whose parameter is spelled \<^verbatim>\<open>_build_arch\<close> or
  \<^verbatim>\<open>_build_version\<close> and whose body says \<^verbatim>\<open>build_arch\<close> or \<^verbatim>\<open>build_version\<close> reads
  these.
\<close>

record globals =
  glob_build_arch :: "string option"
  glob_build_version :: "string option"

text \<open>
  The three functions have one body, up to the word logged (\<open>label\<close>), the value of
  \<^verbatim>\<open>DOTNET_TYPE\<close> (\<open>dotnet_type\<close>) and where \<^verbatim>\<open>build_arch\<close> and \<^verbatim>\<open>build_version\<close> come
  from. First the body of the \<^verbatim>\<open>try\<close>, whose result is \<^verbatim>\<open>(PACKAGE_ARCH, DOTNET_ARCH)\<close>.
\<close>

definition archive_arguments ::
  "configurations \<Rightarrow> string \<Rightarrow> string option \<Rightarrow> string option \<Rightarrow> error + (string \<times> string)" where
  "archive_arguments configurations build_type build_arch build_version =
     bind_e (conf configurations build_type ''archmaps'' cfg_archmaps) (\<lambda>archmaps.
       case lookup archmaps build_arch of
         None \<Rightarrow>
           Inl (ValueError (fmt build_arch @ '' is not a valid '' @ build_type @ '' ''
                  @ fmt build_version @ '' architecture in '' @ dict_keys (keys archmaps)))
       | Some a \<Rightarrow>
           bind_e (getitem a ''PACKAGE_ARCH'') (\<lambda>PACKAGE_ARCH.
           bind_e (getitem a ''DOTNET_ARCH'') (\<lambda>DOTNET_ARCH.
             Inr (PACKAGE_ARCH, DOTNET_ARCH))))"

definition build_archive ::
  "string \<Rightarrow> string \<Rightarrow> env \<Rightarrow> configurations \<Rightarrow> string \<Rightarrow> string \<Rightarrow> string option \<Rightarrow> string option
     \<Rightarrow> world \<Rightarrow> (error + unit) \<times> world" where
  "build_archive label dotnet_type E configurations jellyfin_version build_type build_arch
       build_version w0 =
     (let w1 = log (''> Building a portable '' @ fmt build_arch @ '' '' @ label
                     @ '' archive...'') w0;
          w2 = log [] w1
      in case archive_arguments configurations build_type build_arch build_version of
           Inl e \<Rightarrow> invalid_arguments e w2
         | Inr (PACKAGE_ARCH, DOTNET_ARCH) \<Rightarrow>
             (let jellyfin_version = strip_version jellyfin_version
              in case bind_e (conf configurations build_type ''dockerfile'' cfg_dockerfile)
                        (\<lambda>dockerfile.
                      bind_e (conf configurations build_type ''imagename'' cfg_imagename)
                        (\<lambda>name.
                      bind_e (conf configurations build_type ''archivetypes'' cfg_archivetypes)
                        (\<lambda>archivetypes. Inr (dockerfile, name, archivetypes)))) of
                   Inl e \<Rightarrow> (Inl e, w2)
                 | Inr (dockerfile, name, archivetypes) \<Rightarrow>
                     (let root = repo_root_dir E;
                          imagename = name @ ''-'' @ jellyfin_version @ ''_'' @ fmt build_arch
                                        @ ''-'' @ build_type;
                          w3 = snd (os_system (engine E)
                                 (docker_build_cmd @ '' --file '' @ root @ ''/'' @ dockerfile
                                    @ '' --tag '' @ imagename @ '' '' @ root) w2);
                          w4 = snd (os_system (engine E)
                                 (docker_run_cmd @ '' --volume '' @ root @ '':/jellyfin''
                                    @ '' --volume '' @ root @ ''/out/'' @ build_type @ '':/dist''
                                    @ '' --env JELLYFIN_VERSION='' @ jellyfin_version
                                    @ '' --env BUILD_TYPE='' @ build_type
                                    @ '' --env PACKAGE_ARCH='' @ PACKAGE_ARCH
                                    @ '' --env DOTNET_TYPE='' @ dotnet_type
                                    @ '' --env DOTNET_ARCH='' @ DOTNET_ARCH
                                    @ '' --env ARCHIVE_TYPES='' @ archivetypes
                                    @ '' --name '' @ imagename @ '' '' @ imagename) w3)
                      in (Inr (), w4))))"

text \<open>
  \<^verbatim>\<open>build_linux(jellyfin_version, build_type, build_arch, _build_version)\<close> and
  \<^verbatim>\<open>build_macos\<close>, with the same parameters, read the module's \<^verbatim>\<open>build_version\<close>;
  \<^verbatim>\<open>build_windows(jellyfin_version, build_type, _build_arch, _build_version)\<close> reads the
  module's \<^verbatim>\<open>build_arch\<close> as well.
\<close>

definition build_linux ::
  "globals \<Rightarrow> env \<Rightarrow> configurations \<Rightarrow> string \<Rightarrow> string \<Rightarrow> string option \<Rightarrow> string option \<Rightarrow> world
     \<Rightarrow> (error + unit) \<times> world" where
  "build_linux G E configurations jellyfin_version build_type build_arch build_version' =
     build_archive ''Linux'' ''linux'' E configurations jellyfin_version build_type
       build_arch (glob_build_version G)"

definition build_windows ::
  "globals \<Rightarrow> env \<Rightarrow> configurations \<Rightarrow> string \<Rightarrow> string \<Rightarrow> string option \<Rightarrow> string option \<Rightarrow> world
     \<Rightarrow> (error + unit) \<times> world" where
  "build_windows G E configurations jellyfin_version build_type build_arch' build_version' =
     build_archive ''Windows'' ''win'' E configurations jellyfin_version build_type
       (glob_build_arch G) (glob_build_version G)"

definition build_macos ::
  "globals \<Rightarrow> env \<Rightarrow> configurations \<Rightarrow> string \<Rightarrow> string \<Rightarrow> string option \<Rightarrow> string option \<Rightarrow> world
     \<Rightarrow> (error + unit) \<times> world" where
  "build_macos G E configurations jellyfin_version build_type build_arch build_version' =
     build_archive ''MacOS'' ''osx'' E configurations jellyfin_version build_type
       build_arch (glob_build_version G)"

subsection \<open>build\_portable\<close>

definition build_portable ::
  "env \<Rightarrow> configurations \<Rightarrow> string \<Rightarrow> string \<Rightarrow> string option \<Rightarrow> string option \<Rightarrow> world
     \<Rightarrow> (error + unit) \<times> world" where
  "build_portable E configurations jellyfin_version build_type build_arch' build_version' w0 =
     (let w1 = log ''> Building a portable .NET archive...'' w0;
          w2 = log [] w1;
          jellyfin_version = strip_version jellyfin_version
      in case bind_e (conf configurations build_type ''dockerfile'' cfg_dockerfile)
                (\<lambda>dockerfile.
              bind_e (conf configurations build_type ''imagename'' cfg_imagename)
                (\<lambda>name.
              bind_e (conf configurations build_type ''archivetypes'' cfg_archivetypes)
                (\<lambda>archivetypes. Inr (dockerfile, name, archivetypes)))) of
           Inl e \<Rightarrow> (Inl e, w2)
         | Inr (dockerfile, name, archivetypes) \<Rightarrow>
             (let root = repo_root_dir E;
                  imagename = name @ ''-'' @ jellyfin_version @ ''_'' @ build_type;
                  w3 = snd (os_system (engine E)
                         (docker_build_cmd @ '' --file '' @ root @ ''/'' @ dockerfile
                            @ '' --tag '' @ imagename @ '' '' @ root) w2);
                  w4 = snd (os_system (engine E)
                         (docker_run_cmd @ '' --volume '' @ root @ '':/jellyfin''
                            @ '' --volume '' @ root @ ''/out/'' @ build_type @ '':/dist''
                            @ '' --env JELLYFIN_VERSION='' @ jellyfin_version
                            @ '' --env BUILD_TYPE='' @ build_type
                            @ '' --env ARCHIVE_TYPES='' @ archivetypes
                            @ '' --name '' @ imagename @ '' '' @ imagename) w3)
              in (Inr (), w4)))"

section \<open>The top level of the script\<close>

text \<open>
  \<^verbatim>\<open>function_definitions\<close>, lines 449 to 458. The dict display names
  \<^verbatim>\<open>"build_portable"\<close> twice, with the same function; a dict keeps one entry for it.
\<close>

datatype build_function =
    Build_package_deb
  | Build_package_rpm
  | Build_portable
  | Build_linux
  | Build_windows
  | Build_macos
  | Build_docker

definition function_definitions :: "(string \<times> build_function) list" where
  "function_definitions =
     [(''build_package_deb'', Build_package_deb),
      (''build_package_rpm'', Build_package_rpm),
      (''build_portable'', Build_portable),
      (''build_linux'', Build_linux),
      (''build_windows'', Build_windows),
      (''build_macos'', Build_macos),
      (''build_docker'', Build_docker)]"

fun call ::
  "build_function \<Rightarrow> globals \<Rightarrow> env \<Rightarrow> configurations \<Rightarrow> string \<Rightarrow> string \<Rightarrow> string option
     \<Rightarrow> string option \<Rightarrow> world \<Rightarrow> (error + unit) \<times> world" where
  "call Build_package_deb G = build_package_deb"
| "call Build_package_rpm G = build_package_rpm"
| "call Build_portable G = build_portable"
| "call Build_linux G = build_linux G"
| "call Build_windows G = build_windows G"
| "call Build_macos G = build_macos G"
| "call Build_docker G = build_docker"

text \<open>\<^verbatim>\<open>usage()\<close>, lines 431 to 445; \<open>argv0\<close> is \<^verbatim>\<open>sys.argv[0]\<close>.\<close>

definition usage :: "string \<Rightarrow> configurations \<Rightarrow> world \<Rightarrow> world" where
  "usage argv0 configurations w =
     w @ map Log
       [argv0 @ '' JELLYFIN_VERSION BUILD_TYPE [BUILD_ARCH] [BUILD_VERSION]'',
        ''  JELLYFIN_VERSION: The Jellyfin version being built'',
        ''    * Stable releases should be tag names with a 'v' e.g. v10.9.0'',
        ''    * Unstable releases should be 'master' or a date-to-the-hour version e.g. 2024021600'',
        ''  BUILD_TYPE: The type of build to execute'',
        ''    * Valid options are: '' @ join '', '' (keys configurations),
        ''  BUILD_ARCH: The CPU architecture of the build'',
        ''    * Valid options are: <empty> [portable/docker only], amd64, arm64, armhf'',
        ''  BUILD_VERSION: A valid OS distribution version (.deb/.rpm build types only)'']"

text \<open>\<^verbatim>\<open>sys.argv[i]\<close> for the arguments after the script's name, \<open>args = sys.argv[1:]\<close>.\<close>

definition argv :: "string list \<Rightarrow> nat \<Rightarrow> error + string" where
  "argv args i = (if 1 \<le> i \<and> i \<le> length args then Inr (args ! (i - 1)) else Inl IndexError)"

definition optional_argv :: "string list \<Rightarrow> nat \<Rightarrow> string option" where
  "optional_argv args i = (case argv args i of Inl e \<Rightarrow> None | Inr a \<Rightarrow> Some a)"

text \<open>
  Lines 475 to 478: the build function named by the build type's entry, if the entry
  has the key and \<^verbatim>\<open>function_definitions\<close> has the name.
\<close>

definition configured_function :: "configurations \<Rightarrow> string \<Rightarrow> build_function option" where
  "configured_function configurations build_type =
     (case conf configurations build_type ''build_function'' cfg_build_function of
        Inl e \<Rightarrow> None
      | Inr name \<Rightarrow> map_of function_definitions name)"

text \<open>
  The script from the configuration loader (lines 29 to 34) to the call of the build
  function (lines 460 to 507). \<open>yaml\<close> is the parsed build.yaml or the exception of
  reading it.
\<close>

definition script ::
  "env \<Rightarrow> error + configurations \<Rightarrow> string \<Rightarrow> string list \<Rightarrow> world \<Rightarrow> (error + unit) \<times> world" where
  "script E yaml argv0 args w0 =
     (case yaml of
        Inl e \<Rightarrow>
          (Inl (SystemExit 1),
           log (''Error: Failed to find 'build.yaml' configuration: '' @ str_of_error e) w0)
      | Inr configurations \<Rightarrow>
          (case bind_e (argv args 1) (\<lambda>v. bind_e (argv args 2) (\<lambda>t. Inr (v, t))) of
             Inl e \<Rightarrow>
               (Inl (SystemExit 1),
                usage argv0 configurations
                  (log []
                    (log ''Error: Missing required arguments ('JELLYFIN_VERSION' and/or 'BUILD_TYPE')''
                       w0)))
           | Inr (jellyfin_version, build_type) \<Rightarrow>
               if build_type \<notin> set (keys configurations)
               then (Inl (SystemExit 1),
                     usage argv0 configurations
                       (log []
                         (log (''Error: The specified build type '' @ quoted build_type
                                 @ '' is not valid'') w0)))
               else
                 (case configured_function configurations build_type of
                    None \<Rightarrow>
                      (Inl (SystemExit 1),
                       log ''This is a misconfiguration of the YAML or the build script; please report a bug!''
                         (log (''Error: The specified valid build type '' @ quoted build_type
                                 @ '' does not define a valid build function'') w0))
                  | Some f \<Rightarrow>
                      (let build_arch = optional_argv args 3;
                           build_version = optional_argv args 4;
                           G = \<lparr>glob_build_arch = build_arch, glob_build_version = build_version\<rparr>
                       in if jellyfin_version = ''master''
                          then call f G E configurations (now_hour E) build_type build_arch
                                 build_version
                                 (log (''NOTE: Autocorrecting 'master' version to '' @ now_hour E) w0)
                          else call f G E configurations jellyfin_version build_type build_arch
                                 build_version w0))))"

text \<open>
  The status the process ends with: 0 when the script runs to its end, the argument of
  \<^verbatim>\<open>exit\<close>, and 1 when another exception escapes.
\<close>

fun exit_status :: "error + unit \<Rightarrow> nat" where
  "exit_status (Inr u) = 0"
| "exit_status (Inl (SystemExit n)) = n"
| "exit_status (Inl e) = 1"

section \<open>A configuration and surroundings to run the script on\<close>

text \<open>
  A build.yaml with a Debian package type, an RPM type bound to the stubbed
  \<^verbatim>\<open>build_package_rpm\<close>, a Linux archive, the portable archive and the container
  images for two architectures.
\<close>

definition no_conf :: build_conf where
  "no_conf = \<lparr>cfg_build_function = None, cfg_dockerfile = None, cfg_imagename = None,
     cfg_archivetypes = None, cfg_archmaps = None, cfg_releases = None, cfg_cross_gcc = None\<rparr>"

definition example_configurations :: configurations where
  "example_configurations =
     [(''debian'', no_conf\<lparr>
         cfg_build_function := Some ''build_package_deb'',
         cfg_dockerfile := Some ''debian/docker/Dockerfile'',
         cfg_imagename := Some ''jellyfin-builder-debian'',
         cfg_archmaps := Some [(''amd64'', [(''PACKAGE_ARCH'', ''amd64'')]),
                               (''arm64'', [(''PACKAGE_ARCH'', ''arm64'')])],
         cfg_releases := Some [(''bullseye'', ''11''), (''bookworm'', ''12'')],
         cfg_cross_gcc := Some [(''bullseye'', ''10''), (''bookworm'', ''12'')]\<rparr>),
      (''fedora'', no_conf\<lparr>
         cfg_build_function := Some ''build_package_rpm''\<rparr>),
      (''linux'', no_conf\<lparr>
         cfg_build_function := Some ''build_linux'',
         cfg_dockerfile := Some ''portable/Dockerfile'',
         cfg_imagename := Some ''jellyfin-builder-linux'',
         cfg_archivetypes := Some ''targz'',
         cfg_archmaps := Some [(''amd64'', [(''DOTNET_ARCH'', ''x64''),
                                            (''PACKAGE_ARCH'', ''amd64'')])]\<rparr>),
      (''portable'', no_conf\<lparr>
         cfg_build_function := Some ''build_portable'',
         cfg_dockerfile := Some ''portable/Dockerfile'',
         cfg_imagename := Some ''jellyfin-builder-portable'',
         cfg_archivetypes := Some ''targz,zip''\<rparr>),
      (''docker'', no_conf\<lparr>
         cfg_build_function := Some ''build_docker'',
         cfg_dockerfile := Some ''docker/Dockerfile'',
         cfg_imagename := Some ''jellyfin/jellyfin'',
         cfg_archmaps := Some
           [(''amd64'', [(''DOTNET_ARCH'', ''x64''), (''IMAGE_ARCH'', ''amd64''),
                         (''PACKAGE_ARCH'', ''amd64''), (''QEMU_ARCH'', ''x86_64'')]),
            (''arm64'', [(''DOTNET_ARCH'', ''arm64''), (''IMAGE_ARCH'', ''arm64v8''),
                         (''PACKAGE_ARCH'', ''arm64''), (''QEMU_ARCH'', ''aarch64'')])]\<rparr>)]"

text \<open>The example with one more build type, bound to a function the script does not have.\<close>

definition misconfigured_configurations :: configurations where
  "misconfigured_configurations =
     (''snap'', no_conf\<lparr>cfg_build_function := Some ''build_snap''\<rparr>) # example_configurations"

text \<open>An engine under which every command fails, and one under which every command succeeds.\<close>

definition failing :: engine where
  "failing w command = 1"

definition succeeding :: engine where
  "succeeding w command = 0"

definition example_env :: "engine \<Rightarrow> env" where
  "example_env eng =
     \<lparr>engine = eng, repo_root_dir = ''/src'', now_hour = ''2024021600'',
      now_second = ''20240216-093000'', now_rfc2822 = ''Fri, 16 Feb 2024 09:30:00 +0000'',
      changelog_in = Inr ''jellyfin'', str_format = (\<lambda>template arguments. Inr template)\<rparr>"

text \<open>
  A \<^verbatim>\<open>str.format\<close> for the template that is the one field \<open>k\<close> in braces: the value of
  the keyword \<open>k\<close>. The example surroundings with such a changelog template, whose
  formatted text is the release comment.
\<close>

definition format_field :: "string \<Rightarrow> string \<Rightarrow> (string \<times> string) list \<Rightarrow> error + string" where
  "format_field k template arguments =
     (case map_of arguments k of None \<Rightarrow> Inl (KeyError k) | Some x \<Rightarrow> Inr x)"

definition changelog_env :: "engine \<Rightarrow> env" where
  "changelog_env eng =
     (example_env eng)\<lparr>changelog_in := Inr ''{release_comment}'',
                        str_format := format_field ''release_comment''\<rparr>"

text \<open>An entry of an architecture map with the four keys \<^verbatim>\<open>build_docker\<close> reads.\<close>

definition arch_complete :: "(string \<times> string) list \<Rightarrow> bool" where
  "arch_complete a =
     list_all (\<lambda>k. k \<in> set (keys a))
       [''PACKAGE_ARCH'', ''DOTNET_ARCH'', ''QEMU_ARCH'', ''IMAGE_ARCH'']"

text \<open>The commands of a world, in order.\<close>

fun commands :: "world \<Rightarrow> string list" where
  "commands [] = []"
| "commands (System c # w) = c # commands w"
| "commands (e # w) = commands w"

text \<open>
  The commands that create or push a manifest list all start with
  \<^verbatim>\<open>docker manifest\<close>; \<open>manifest_commands\<close> are those of a world.
\<close>

definition is_manifest_command :: "string \<Rightarrow> bool" where
  "is_manifest_command c = (take 15 c = ''docker manifest'')"

definition manifest_commands :: "world \<Rightarrow> string list" where
  "manifest_commands w = filter is_manifest_command (commands w)"

section \<open>The exit status of a command is never read\<close>

lemma snd_os_system [simp]: "snd (os_system eng c w) = w @ [System c]"
  by (simp add: os_system_def)

lemma push_images_engine: "push_images eng = push_images eng'"
proof (intro ext)
  fix r xs w show "push_images eng r xs w = push_images eng' r xs w"
    by (induction xs arbitrary: w) (simp_all add: Let_def)
qed

lemma push_manifests_engine: "push_manifests eng = push_manifests eng'"
proof (intro ext)
  fix r h xs w show "push_manifests eng r h xs w = push_manifests eng' r h xs w"
    by (induction xs arbitrary: w) (simp_all add: Let_def)
qed

lemma create_manifest_engine: "create_manifest eng = create_manifest eng'"
  by (intro ext, unfold create_manifest_def Let_def snd_os_system) (rule refl)

lemma build_manifests_engine: "build_manifests eng = build_manifests eng'"
  by (intro ext, unfold build_manifests_def create_manifest_engine [where eng = eng and eng' = eng'])
    (rule refl)

lemma publish_engine: "publish eng = publish eng'"
  by (intro ext, unfold publish_def Let_def snd_os_system
      build_manifests_engine [where eng = eng and eng' = eng']
      push_images_engine [where eng = eng and eng' = eng']
      push_manifests_engine [where eng = eng and eng' = eng'])
    (rule refl)

lemma build_image_engine:
  "build_image (E\<lparr>engine := eng\<rparr>) = build_image (E\<lparr>engine := eng'\<rparr>)"
  by (intro ext, unfold build_image_def Let_def snd_os_system)
    (simp cong: sum.case_cong prod.case_cong)

lemma build_docker_engine:
  "build_docker (E\<lparr>engine := eng\<rparr>) = build_docker (E\<lparr>engine := eng'\<rparr>)"
  by (intro ext, unfold build_docker_def Let_def
      build_image_engine [where E = E and eng = eng and eng' = eng'])
    (simp add: publish_engine [where eng = eng and eng' = eng']
      cong: sum.case_cong prod.case_cong)

lemma build_portable_engine:
  "build_portable (E\<lparr>engine := eng\<rparr>) = build_portable (E\<lparr>engine := eng'\<rparr>)"
  by (intro ext, unfold build_portable_def Let_def snd_os_system)
    (simp cong: sum.case_cong prod.case_cong)

lemma build_archive_engine:
  "build_archive l t (E\<lparr>engine := eng\<rparr>) = build_archive l t (E\<lparr>engine := eng'\<rparr>)"
  by (intro ext, unfold build_archive_def Let_def snd_os_system)
    (simp cong: sum.case_cong prod.case_cong)

lemma deb_prepare_engine:
  "deb_prepare (E\<lparr>engine := eng\<rparr>) = deb_prepare (E\<lparr>engine := eng'\<rparr>)"
  by (intro ext, unfold deb_prepare_def Let_def) (simp cong: sum.case_cong prod.case_cong)

lemma build_package_deb_engine:
  "build_package_deb (E\<lparr>engine := eng\<rparr>) = build_package_deb (E\<lparr>engine := eng'\<rparr>)"
  by (intro ext, unfold build_package_deb_def Let_def snd_os_system
      deb_prepare_engine [where E = E and eng = eng and eng' = eng'])
    (simp cong: sum.case_cong prod.case_cong)

lemma call_engine:
  "call f G (E\<lparr>engine := eng\<rparr>) = call f G (E\<lparr>engine := eng'\<rparr>)"
  by (cases f; intro ext)
    (simp_all add: build_package_deb_engine [where E = E and eng = eng and eng' = eng']
      build_docker_engine [where E = E and eng = eng and eng' = eng']
      build_portable_engine [where E = E and eng = eng and eng' = eng']
      build_archive_engine [where E = E and eng = eng and eng' = eng']
      build_linux_def build_windows_def build_macos_def build_package_rpm_def)

lemma script_engine:
  "script (E\<lparr>engine := eng\<rparr>) = script (E\<lparr>engine := eng'\<rparr>)"
  by (intro ext, unfold script_def Let_def call_engine [where E = E and eng = eng and eng' = eng'])
    (simp cong: sum.case_cong prod.case_cong option.case_cong if_cong)

section \<open>The version: classification and normalization\<close>

text \<open>
  C9, as stated, fails: an interior \<open>v\<close> is removed as well. \<^verbatim>\<open>v10.9.0-dev\<close> becomes
  \<^verbatim>\<open>10.9.0-de\<close>, not \<^verbatim>\<open>10.9.0-dev\<close>.
\<close>

theorem interior_marker_removed_counterexample:
  "strip_version ''v10.9.0-dev'' = ''10.9.0-de''
   \<and> strip_version ''v10.9.0-dev'' \<noteq> ''10.9.0-dev''"
  by (simp add: strip_version_def replace_char_def)

section \<open>build\_docker: the second push loop\<close>

lemma publish_raises:
  "publish eng cfg fl v d images images_ghcr w =
     (Inl (NameError ''ghcr_images''),
      push_images eng ''DockerHub'' images (w @ [System ''docker login 2>&1'']))"
  by (simp add: publish_def load_name_def docker_frame_def Let_def)

lemma build_docker_never_returns: "fst (build_docker E cfg v bt a bv w) \<noteq> Inr ()"
  unfolding build_docker_def Let_def publish_raises
  by (simp split: sum.splits prod.splits)

text \<open>
  C3. The loop that pushes the images to the second registry iterates over
  \<^verbatim>\<open>ghcr_images\<close>. No such name is bound in the function or in the module: the list the
  build loop fills is \<^verbatim>\<open>images_ghcr\<close>. So after the login and the pushes of \<^verbatim>\<open>images\<close>
  the run ends in \<^verbatim>\<open>NameError\<close>; the references in \<^verbatim>\<open>images_ghcr\<close> are not pushed, and
  \<^verbatim>\<open>build_docker\<close> never returns normally.
\<close>

theorem ghcr_push_loop_reads_unbound_name:
  "load_name (docker_frame images images_ghcr) ''ghcr_images'' = Inl (NameError ''ghcr_images'')
   \<and> load_name (docker_frame images images_ghcr) ''images_ghcr'' = Inr images_ghcr
   \<and> ''ghcr_images'' \<notin> set module_names
   \<and> publish eng configurations flags jellyfin_version date images images_ghcr w =
       (Inl (NameError ''ghcr_images''),
        push_images eng ''DockerHub'' images (w @ [System ''docker login 2>&1'']))
   \<and> fst (build_docker E configurations raw build_type build_arch build_version w) \<noteq> Inr ()"
  using publish_raises build_docker_never_returns
  by (simp add: load_name_def docker_frame_def module_names_def)

section \<open>build\_docker: the architectures built\<close>

lemma commands_append [simp]: "commands (w @ w') = commands w @ commands w'"
  by (induction w rule: commands.induct) simp_all

lemma commands_log [simp]: "commands (log m w) = commands w"
  by (simp add: log_def)

lemma commands_push_images:
  "commands (push_images eng r xs w) =
     commands w @ map (\<lambda>i. ''docker push '' @ i @ '' 2>&1'') xs"
  by (induction xs arbitrary: w) (simp_all add: Let_def)

lemma getitem_complete:
  "k \<in> set (keys a) \<Longrightarrow> \<exists>v. getitem a k = Inr v"
  by (cases "map_of a k") (auto simp: getitem_def keys_def map_of_eq_None_iff)

lemma docker_image_vars_ready:
  assumes am: "conf cfg ''docker'' ''archmaps'' cfg_archmaps = Inr am"
    and name: "conf cfg ''docker'' ''imagename'' cfg_imagename = Inr name"
    and all: "list_all (\<lambda>(arch, a). arch_complete a) am"
    and arch: "arch \<in> set (keys am)"
  shows "\<exists>P D Q I. docker_image_vars cfg fl v d arch = Inr (P, D, Q, I, image_name name fl v d arch)"
proof -
  from arch obtain a where a: "map_of am arch = Some a"
    by (cases "map_of am arch") (auto simp: keys_def map_of_eq_None_iff)
  then have "(arch, a) \<in> set am" by (rule map_of_SomeD)
  with all have c: "arch_complete a" by (auto simp: list_all_iff)
  from c obtain P where P: "getitem a ''PACKAGE_ARCH'' = Inr P"
    using getitem_complete [of "''PACKAGE_ARCH''" a] by (auto simp: arch_complete_def)
  from c obtain D where D: "getitem a ''DOTNET_ARCH'' = Inr D"
    using getitem_complete [of "''DOTNET_ARCH''" a] by (auto simp: arch_complete_def)
  from c obtain Q where Q: "getitem a ''QEMU_ARCH'' = Inr Q"
    using getitem_complete [of "''QEMU_ARCH''" a] by (auto simp: arch_complete_def)
  from c obtain I where I: "getitem a ''IMAGE_ARCH'' = Inr I"
    using getitem_complete [of "''IMAGE_ARCH''" a] by (auto simp: arch_complete_def)
  have g: "getitem am arch = Inr a" using a by (simp add: getitem_def)
  show ?thesis
    by (simp add: docker_image_vars_def archmap_def am name g P D Q I)
qed

lemma build_image_ok:
  assumes "docker_image_vars cfg fl v d arch = Inr (P, D, Q, I, img)"
  shows "fst (build_image E cfg df fl v d arch w) = Inr img
    \<and> commands (snd (build_image E cfg df fl v d arch w)) =
        commands w @ [qemu_reset_cmd,
          docker_image_build_cmd (repo_root_dir E) df v (P, D, Q, I, img),
          ''docker image tag '' @ img @ '' ghcr.io/'' @ img]"
  using assms by (simp add: build_image_def Let_def)

lemma build_images_ready:
  assumes "\<forall>arch \<in> set archs. \<exists>P D Q I.
             docker_image_vars cfg fl v d arch = Inr (P, D, Q, I, image_name name fl v d arch)"
  shows "\<exists>w'. build_images (build_image E cfg df fl v d) archs images images_ghcr w =
           (Inr (images @ map (image_name name fl v d) archs,
                 images_ghcr @ map (\<lambda>arch. ''ghcr.io/'' @ image_name name fl v d arch) archs), w')
         \<and> commands w' = commands w @
             concat (map (\<lambda>arch. commands (snd (build_image E cfg df fl v d arch []))) archs)"
  using assms
proof (induction archs arbitrary: images images_ghcr w)
  case Nil
  then show ?case by simp
next
  case (Cons arch archs)
  from Cons.prems obtain P D Q I where
    vars: "docker_image_vars cfg fl v d arch = Inr (P, D, Q, I, image_name name fl v d arch)"
    by auto
  obtain r w1 where step: "build_image E cfg df fl v d arch w = (r, w1)"
    by (cases "build_image E cfg df fl v d arch w")
  from build_image_ok [OF vars, of E df w] step
  have r: "r = Inr (image_name name fl v d arch)"
    and c1: "commands w1 = commands w @ commands (snd (build_image E cfg df fl v d arch []))"
    using build_image_ok [OF vars, of E df "[]"] by simp_all
  from Cons.prems have rest: "\<forall>arch \<in> set archs. \<exists>P D Q I.
      docker_image_vars cfg fl v d arch = Inr (P, D, Q, I, image_name name fl v d arch)"
    by simp
  from Cons.IH [OF rest, of "images @ [image_name name fl v d arch]"
      "images_ghcr @ [''ghcr.io/'' @ image_name name fl v d arch]" w1]
  show ?case using step r c1 by auto
qed

lemma build_portable_ignores:
  "build_portable E cfg raw bt a1 o1 = build_portable E cfg raw bt a2 o2"
  by (intro ext) (simp add: build_portable_def)

lemma build_docker_ignores:
  "build_docker E cfg raw bt a1 o1 = build_docker E cfg raw bt a2 o2"
  by (intro ext) (simp add: build_docker_def)

lemma script_ignores:
  assumes "configured_function cfg bt = Some Build_portable
           \<or> configured_function cfg bt = Some Build_docker"
  shows "script E (Inr cfg) argv0 (raw # bt # rest) w = script E (Inr cfg) argv0 [raw, bt] w"
  using assms
  by (auto simp: script_def argv_def Let_def build_portable_def build_docker_def)

lemma build_docker_commands:
  assumes am: "conf cfg ''docker'' ''archmaps'' cfg_archmaps = Inr am"
    and df: "conf cfg bt ''dockerfile'' cfg_dockerfile = Inr df"
    and name: "conf cfg ''docker'' ''imagename'' cfg_imagename = Inr name"
    and all: "list_all (\<lambda>(arch, a). arch_complete a) am"
  shows "commands (snd (build_docker E cfg raw bt a b w)) =
           commands w
           @ concat (map (\<lambda>arch. commands (snd (build_image E cfg df (classify raw)
                 (strip_version raw) (now_second E) arch []))) (keys am))
           @ ''docker login 2>&1''
           # map (\<lambda>arch. ''docker push ''
                 @ image_name name (classify raw) (strip_version raw) (now_second E) arch
                 @ '' 2>&1'') (keys am)"
proof -
  let ?fl = "classify raw" and ?v = "strip_version raw" and ?d = "now_second E"
  have vars: "\<forall>arch \<in> set (keys am). \<exists>P D Q I.
      docker_image_vars cfg ?fl ?v ?d arch = Inr (P, D, Q, I, image_name name ?fl ?v ?d arch)"
    using docker_image_vars_ready [OF am name all] by blast
  from build_images_ready [OF vars, of E df "[]" "[]" "log [] (log ''> Building Docker images...'' w)"]
  obtain w' where
    loop: "build_images (build_image E cfg df ?fl ?v ?d) (keys am) [] []
             (log [] (log ''> Building Docker images...'' w)) =
           (Inr (map (image_name name ?fl ?v ?d) (keys am),
                 map (\<lambda>arch. ''ghcr.io/'' @ image_name name ?fl ?v ?d arch) (keys am)), w')"
    and cw: "commands w' = commands w @
        concat (map (\<lambda>arch. commands (snd (build_image E cfg df ?fl ?v ?d arch []))) (keys am))"
    by auto
  show ?thesis
    by (simp add: build_docker_def Let_def am df loop publish_raises commands_push_images cw
        comp_def)
qed

text \<open>
  C10. \<^verbatim>\<open>build_portable\<close> and \<^verbatim>\<open>build_docker\<close> never read their architecture and
  OS-version arguments: two calls that differ only there do the same, and so do two runs
  of the script for a build type bound to one of the two functions, whatever follows
  the build type on the command line. When the configuration holds every key
  \<^verbatim>\<open>build_docker\<close> reads, the commands it issues are, for each architecture of the
  \<^verbatim>\<open>docker\<close> architecture map in map order, the emulation reset, the image build and the
  tag for the second registry, then the login and one push per architecture.
\<close>

theorem arch_and_os_version_ignored:
  "build_portable E cfg raw bt a1 o1 w = build_portable E cfg raw bt a2 o2 w
   \<and> build_docker E cfg raw bt a1 o1 w = build_docker E cfg raw bt a2 o2 w
   \<and> (configured_function cfg bt = Some Build_portable
        \<or> configured_function cfg bt = Some Build_docker \<longrightarrow>
      script E (Inr cfg) argv0 (raw # bt # rest) w = script E (Inr cfg) argv0 [raw, bt] w)
   \<and> (conf cfg ''docker'' ''archmaps'' cfg_archmaps = Inr am
        \<and> conf cfg bt ''dockerfile'' cfg_dockerfile = Inr df
        \<and> conf cfg ''docker'' ''imagename'' cfg_imagename = Inr name
        \<and> list_all (\<lambda>(arch, a). arch_complete a) am \<longrightarrow>
      commands (snd (build_docker E cfg raw bt a1 o1 w)) =
        commands w
        @ concat (map (\<lambda>arch. commands (snd (build_image E cfg df (classify raw)
              (strip_version raw) (now_second E) arch []))) (keys am))
        @ ''docker login 2>&1''
        # map (\<lambda>arch. ''docker push ''
              @ image_name name (classify raw) (strip_version raw) (now_second E) arch
              @ '' 2>&1'') (keys am)
      \<and> (\<forall>arch \<in> set (keys am). \<exists>P D Q I.
            commands (snd (build_image E cfg df (classify raw) (strip_version raw)
                (now_second E) arch [])) =
              [qemu_reset_cmd,
               docker_image_build_cmd (repo_root_dir E) df (strip_version raw)
                 (P, D, Q, I,
                  image_name name (classify raw) (strip_version raw) (now_second E) arch),
               ''docker image tag ''
                 @ image_name name (classify raw) (strip_version raw) (now_second E) arch
                 @ '' ghcr.io/''
                 @ image_name name (classify raw) (strip_version raw) (now_second E) arch]))"
proof (intro conjI impI)
  show "build_portable E cfg raw bt a1 o1 w = build_portable E cfg raw bt a2 o2 w"
    by (simp add: build_portable_ignores [of E cfg raw bt a1 o1 a2 o2])
  show "build_docker E cfg raw bt a1 o1 w = build_docker E cfg raw bt a2 o2 w"
    by (simp add: build_docker_ignores [of E cfg raw bt a1 o1 a2 o2])
next
  assume "configured_function cfg bt = Some Build_portable
          \<or> configured_function cfg bt = Some Build_docker"
  then show "script E (Inr cfg) argv0 (raw # bt # rest) w = script E (Inr cfg) argv0 [raw, bt] w"
    by (rule script_ignores)
next
  assume h: "conf cfg ''docker'' ''archmaps'' cfg_archmaps = Inr am
        \<and> conf cfg bt ''dockerfile'' cfg_dockerfile = Inr df
        \<and> conf cfg ''docker'' ''imagename'' cfg_imagename = Inr name
        \<and> list_all (\<lambda>(arch, a). arch_complete a) am"
  then show "commands (snd (build_docker E cfg raw bt a1 o1 w)) =
        commands w
        @ concat (map (\<lambda>arch. commands (snd (build_image E cfg df (classify raw)
              (strip_version raw) (now_second E) arch []))) (keys am))
        @ ''docker login 2>&1''
        # map (\<lambda>arch. ''docker push ''
              @ image_name name (classify raw) (strip_version raw) (now_second E) arch
              @ '' 2>&1'') (keys am)"
    using build_docker_commands by blast
  show "\<forall>arch \<in> set (keys am). \<exists>P D Q I.
            commands (snd (build_image E cfg df (classify raw) (strip_version raw)
                (now_second E) arch [])) =
              [qemu_reset_cmd,
               docker_image_build_cmd (repo_root_dir E) df (strip_version raw)
                 (P, D, Q, I,
                  image_name name (classify raw) (strip_version raw) (now_second E) arch),
               ''docker image tag ''
                 @ image_name name (classify raw) (strip_version raw) (now_second E) arch
                 @ '' ghcr.io/''
                 @ image_name name (classify raw) (strip_version raw) (now_second E) arch]"
  proof
    fix arch assume "arch \<in> set (keys am)"
    with h docker_image_vars_ready [of cfg am name arch "classify raw" "strip_version raw" "now_second E"]
    obtain P D Q I where "docker_image_vars cfg (classify raw) (strip_version raw) (now_second E) arch
        = Inr (P, D, Q, I, image_name name (classify raw) (strip_version raw) (now_second E) arch)"
      by blast
    from build_image_ok [OF this, of E df "[]"]
    show "\<exists>P D Q I.
            commands (snd (build_image E cfg df (classify raw) (strip_version raw)
                (now_second E) arch [])) =
              [qemu_reset_cmd,
               docker_image_build_cmd (repo_root_dir E) df (strip_version raw)
                 (P, D, Q, I,
                  image_name name (classify raw) (strip_version raw) (now_second E) arch),
               ''docker image tag ''
                 @ image_name name (classify raw) (strip_version raw) (now_second E) arch
                 @ '' ghcr.io/''
                 @ image_name name (classify raw) (strip_version raw) (now_second E) arch]"
      by auto
  qed
qed

lemmas example_simps =
  example_configurations_def no_conf_def example_env_def conf_def getitem_def getfield_def
  keys_def arch_complete_def archmap_def configured_function_def function_definitions_def

lemmas docker_simps =
  build_image_def docker_image_vars_def image_name_def classify_def strip_version_def
  contains_char_def replace_char_def log_def qemu_reset_cmd_def docker_run_cmd_def
  docker_build_cmd_def docker_image_build_cmd_def Let_def

text \<open>
  The same on the example configuration, with and without \<^verbatim>\<open>armhf bookworm\<close> on the
  command line: both architectures of the map are built, \<^verbatim>\<open>armhf\<close> is not.
\<close>

theorem arch_and_os_version_ignored_witness:
  "build_portable (example_env failing) example_configurations ''v10.9.0'' ''docker''
       (Some ''armhf'') (Some ''bookworm'') [] =
     build_portable (example_env failing) example_configurations ''v10.9.0'' ''docker'' None None []
   \<and> build_docker (example_env failing) example_configurations ''v10.9.0'' ''docker''
       (Some ''armhf'') (Some ''bookworm'') [] =
     build_docker (example_env failing) example_configurations ''v10.9.0'' ''docker'' None None []
   \<and> script (example_env failing) (Inr example_configurations) ''build.py''
       [''v10.9.0'', ''docker'', ''armhf'', ''bookworm''] [] =
     script (example_env failing) (Inr example_configurations) ''build.py''
       [''v10.9.0'', ''docker''] []
   \<and> commands (snd (build_docker (example_env failing) example_configurations ''v10.9.0''
       ''docker'' (Some ''armhf'') (Some ''bookworm'') [])) =
     [''docker run --rm --privileged multiarch/qemu-user-static:register --reset'',
      ''docker build --progress=plain --no-cache --build-arg PACKAGE_ARCH=amd64 --build-arg DOTNET_ARCH=x64 --build-arg QEMU_ARCH=x86_64 --build-arg IMAGE_ARCH=amd64 --build-arg JELLYFIN_VERSION=10.9.0 --file /src/docker/Dockerfile --tag jellyfin/jellyfin:10.9.0-amd64.20240216-093000 /src'',
      ''docker image tag jellyfin/jellyfin:10.9.0-amd64.20240216-093000 ghcr.io/jellyfin/jellyfin:10.9.0-amd64.20240216-093000'',
      ''docker run --rm --privileged multiarch/qemu-user-static:register --reset'',
      ''docker build --progress=plain --no-cache --build-arg PACKAGE_ARCH=arm64 --build-arg DOTNET_ARCH=arm64 --build-arg QEMU_ARCH=aarch64 --build-arg IMAGE_ARCH=arm64v8 --build-arg JELLYFIN_VERSION=10.9.0 --file /src/docker/Dockerfile --tag jellyfin/jellyfin:10.9.0-arm64.20240216-093000 /src'',
      ''docker image tag jellyfin/jellyfin:10.9.0-arm64.20240216-093000 ghcr.io/jellyfin/jellyfin:10.9.0-arm64.20240216-093000'',
      ''docker login 2>&1'',
      ''docker push jellyfin/jellyfin:10.9.0-amd64.20240216-093000 2>&1'',
      ''docker push jellyfin/jellyfin:10.9.0-arm64.20240216-093000 2>&1'']"
proof -
  let ?E = "example_env failing"
  let ?am = "[(''amd64'', [(''DOTNET_ARCH'', ''x64''), (''IMAGE_ARCH'', ''amd64''),
                           (''PACKAGE_ARCH'', ''amd64''), (''QEMU_ARCH'', ''x86_64'')]),
              (''arm64'', [(''DOTNET_ARCH'', ''arm64''), (''IMAGE_ARCH'', ''arm64v8''),
                           (''PACKAGE_ARCH'', ''arm64''), (''QEMU_ARCH'', ''aarch64'')])]"
  note T = arch_and_os_version_ignored [of ?E example_configurations
      "''v10.9.0''" "''docker''" "Some ''armhf''" "Some ''bookworm''" "[]" None None
      "''build.py''" "[''armhf'', ''bookworm'']" ?am "''docker/Dockerfile''" "''jellyfin/jellyfin''"]
  have cf: "configured_function example_configurations ''docker'' = Some Build_portable
            \<or> configured_function example_configurations ''docker'' = Some Build_docker"
    by (simp add: example_simps)
  have ready: "conf example_configurations ''docker'' ''archmaps'' cfg_archmaps = Inr ?am
        \<and> conf example_configurations ''docker'' ''dockerfile'' cfg_dockerfile = Inr ''docker/Dockerfile''
        \<and> conf example_configurations ''docker'' ''imagename'' cfg_imagename = Inr ''jellyfin/jellyfin''
        \<and> list_all (\<lambda>(arch, a). arch_complete a) ?am"
    by (simp add: example_simps)
  note c = T [THEN conjunct2, THEN conjunct2, THEN conjunct2, THEN mp, OF ready, THEN conjunct1]
  have ev: "commands []
        @ concat (map (\<lambda>arch. commands (snd (build_image ?E example_configurations
              ''docker/Dockerfile'' (classify ''v10.9.0'') (strip_version ''v10.9.0'')
              (now_second ?E) arch []))) (keys ?am))
        @ ''docker login 2>&1''
        # map (\<lambda>arch. ''docker push ''
              @ image_name ''jellyfin/jellyfin'' (classify ''v10.9.0'') (strip_version ''v10.9.0'')
                  (now_second ?E) arch
              @ '' 2>&1'') (keys ?am) =
     [''docker run --rm --privileged multiarch/qemu-user-static:register --reset'',
      ''docker build --progress=plain --no-cache --build-arg PACKAGE_ARCH=amd64 --build-arg DOTNET_ARCH=x64 --build-arg QEMU_ARCH=x86_64 --build-arg IMAGE_ARCH=amd64 --build-arg JELLYFIN_VERSION=10.9.0 --file /src/docker/Dockerfile --tag jellyfin/jellyfin:10.9.0-amd64.20240216-093000 /src'',
      ''docker image tag jellyfin/jellyfin:10.9.0-amd64.20240216-093000 ghcr.io/jellyfin/jellyfin:10.9.0-amd64.20240216-093000'',
      ''docker run --rm --privileged multiarch/qemu-user-static:register --reset'',
      ''docker build --progress=plain --no-cache --build-arg PACKAGE_ARCH=arm64 --build-arg DOTNET_ARCH=arm64 --build-arg QEMU_ARCH=aarch64 --build-arg IMAGE_ARCH=arm64v8 --build-arg JELLYFIN_VERSION=10.9.0 --file /src/docker/Dockerfile --tag jellyfin/jellyfin:10.9.0-arm64.20240216-093000 /src'',
      ''docker image tag jellyfin/jellyfin:10.9.0-arm64.20240216-093000 ghcr.io/jellyfin/jellyfin:10.9.0-arm64.20240216-093000'',
      ''docker login 2>&1'',
      ''docker push jellyfin/jellyfin:10.9.0-amd64.20240216-093000 2>&1'',
      ''docker push jellyfin/jellyfin:10.9.0-arm64.20240216-093000 2>&1'']"
    by (simp add: example_simps docker_simps)
  show ?thesis
    by (intro conjI)
      (rule T [THEN conjunct1],
       rule T [THEN conjunct2, THEN conjunct1],
       rule T [THEN conjunct2, THEN conjunct2, THEN conjunct1, THEN mp, OF cf],
       rule trans [OF c ev])
qed

section \<open>build\_docker: pushes and manifests\<close>

lemmas repr_simps = repr_def repr_quote_def repr_char_def escapes_def quoted_def

lemmas script_simps =
  script_def argv_def optional_argv_def build_docker_def build_images.simps publish_raises
  push_images.simps invalid_arguments_def str_of_error.simps repr_simps dict_keys_def
  join.simps fmt_def lookup_def usage_def

lemma example_stable_docker_run:
  "script (example_env eng) (Inr example_configurations) ''build.py'' [''v10.9.0'', ''docker''] [] =
   (Inl (NameError ''ghcr_images''),
  [Log ''> Building Docker images...'', Log [],
   Log ''>> Building Docker image for amd64...'', Log [],
   Log ''>>> docker run --rm --privileged multiarch/qemu-user-static:register --reset'',
   System
    ''docker run --rm --privileged multiarch/qemu-user-static:register --reset'',
   Log [],
   Log ''>>> docker build --progress=plain --no-cache --build-arg PACKAGE_ARCH=amd64 --build-arg DOTNET_ARCH=x64 --build-arg QEMU_ARCH=x86_64 --build-arg IMAGE_ARCH=amd64 --build-arg JELLYFIN_VERSION=10.9.0 --file /src/docker/Dockerfile --tag jellyfin/jellyfin:10.9.0-amd64.20240216-093000 /src'',
   System
    ''docker build --progress=plain --no-cache --build-arg PACKAGE_ARCH=amd64 --build-arg DOTNET_ARCH=x64 --build-arg QEMU_ARCH=x86_64 --build-arg IMAGE_ARCH=amd64 --build-arg JELLYFIN_VERSION=10.9.0 --file /src/docker/Dockerfile --tag jellyfin/jellyfin:10.9.0-amd64.20240216-093000 /src'',
   System
    ''docker image tag jellyfin/jellyfin:10.9.0-amd64.20240216-093000 ghcr.io/jellyfin/jellyfin:10.9.0-amd64.20240216-093000'',
   Log [], Log ''>> Building Docker image for arm64...'', Log [],
   Log ''>>> docker run --rm --privileged multiarch/qemu-user-static:register --reset'',
   System
    ''docker run --rm --privileged multiarch/qemu-user-static:register --reset'',
   Log [],
   Log ''>>> docker build --progress=plain --no-cache --build-arg PACKAGE_ARCH=arm64 --build-arg DOTNET_ARCH=arm64 --build-arg QEMU_ARCH=aarch64 --build-arg IMAGE_ARCH=arm64v8 --build-arg JELLYFIN_VERSION=10.9.0 --file /src/docker/Dockerfile --tag jellyfin/jellyfin:10.9.0-arm64.20240216-093000 /src'',
   System
    ''docker build --progress=plain --no-cache --build-arg PACKAGE_ARCH=arm64 --build-arg DOTNET_ARCH=arm64 --build-arg QEMU_ARCH=aarch64 --build-arg IMAGE_ARCH=arm64v8 --build-arg JELLYFIN_VERSION=10.9.0 --file /src/docker/Dockerfile --tag jellyfin/jellyfin:10.9.0-arm64.20240216-093000 /src'',
   System
    ''docker image tag jellyfin/jellyfin:10.9.0-arm64.20240216-093000 ghcr.io/jellyfin/jellyfin:10.9.0-arm64.20240216-093000'',
   Log [], System ''docker login 2>&1'',
   Log ''>>> Pushing image jellyfin/jellyfin:10.9.0-amd64.20240216-093000 to DockerHub'',
   Log ''>>>> docker push jellyfin/jellyfin:10.9.0-amd64.20240216-093000 2>&1'',
   System
    ''docker push jellyfin/jellyfin:10.9.0-amd64.20240216-093000 2>&1'',
   Log ''>>> Pushing image jellyfin/jellyfin:10.9.0-arm64.20240216-093000 to DockerHub'',
   Log ''>>>> docker push jellyfin/jellyfin:10.9.0-arm64.20240216-093000 2>&1'',
   System
    ''docker push jellyfin/jellyfin:10.9.0-arm64.20240216-093000 2>&1''])"
  by (simp add: script_simps example_simps docker_simps)

lemma example_unstable_docker_run:
  "script (example_env eng) (Inr example_configurations) ''build.py'' [''master'', ''docker''] [] =
   (Inl (NameError ''ghcr_images''),
  [Log ''NOTE: Autocorrecting 'master' version to 2024021600'',
   Log ''> Building Docker images...'', Log [],
   Log ''>> Building Docker image for amd64...'', Log [],
   Log ''>>> docker run --rm --privileged multiarch/qemu-user-static:register --reset'',
   System
    ''docker run --rm --privileged multiarch/qemu-user-static:register --reset'',
   Log [],
   Log ''>>> docker build --progress=plain --no-cache --build-arg PACKAGE_ARCH=amd64 --build-arg DOTNET_ARCH=x64 --build-arg QEMU_ARCH=x86_64 --build-arg IMAGE_ARCH=amd64 --build-arg JELLYFIN_VERSION=2024021600 --file /src/docker/Dockerfile --tag jellyfin/jellyfin:2024021600-amd64 /src'',
   System
    ''docker build --progress=plain --no-cache --build-arg PACKAGE_ARCH=amd64 --build-arg DOTNET_ARCH=x64 --build-arg QEMU_ARCH=x86_64 --build-arg IMAGE_ARCH=amd64 --build-arg JELLYFIN_VERSION=2024021600 --file /src/docker/Dockerfile --tag jellyfin/jellyfin:2024021600-amd64 /src'',
   System
    ''docker image tag jellyfin/jellyfin:2024021600-amd64 ghcr.io/jellyfin/jellyfin:2024021600-amd64'',
   Log [], Log ''>> Building Docker image for arm64...'', Log [],
   Log ''>>> docker run --rm --privileged multiarch/qemu-user-static:register --reset'',
   System
    ''docker run --rm --privileged multiarch/qemu-user-static:register --reset'',
   Log [],
   Log ''>>> docker build --progress=plain --no-cache --build-arg PACKAGE_ARCH=arm64 --build-arg DOTNET_ARCH=arm64 --build-arg QEMU_ARCH=aarch64 --build-arg IMAGE_ARCH=arm64v8 --build-arg JELLYFIN_VERSION=2024021600 --file /src/docker/Dockerfile --tag jellyfin/jellyfin:2024021600-arm64 /src'',
   System
    ''docker build --progress=plain --no-cache --build-arg PACKAGE_ARCH=arm64 --build-arg DOTNET_ARCH=arm64 --build-arg QEMU_ARCH=aarch64 --build-arg IMAGE_ARCH=arm64v8 --build-arg JELLYFIN_VERSION=2024021600 --file /src/docker/Dockerfile --tag jellyfin/jellyfin:2024021600-arm64 /src'',
   System
    ''docker image tag jellyfin/jellyfin:2024021600-arm64 ghcr.io/jellyfin/jellyfin:2024021600-arm64'',
   Log [], System ''docker login 2>&1'',
   Log ''>>> Pushing image jellyfin/jellyfin:2024021600-amd64 to DockerHub'',
   Log ''>>>> docker push jellyfin/jellyfin:2024021600-amd64 2>&1'',
   System ''docker push jellyfin/jellyfin:2024021600-amd64 2>&1'',
   Log ''>>> Pushing image jellyfin/jellyfin:2024021600-arm64 to DockerHub'',
   Log ''>>>> docker push jellyfin/jellyfin:2024021600-arm64 2>&1'',
   System ''docker push jellyfin/jellyfin:2024021600-arm64 2>&1''])"
  by (simp add: script_simps example_simps docker_simps)

lemma set_push_images_mono: "set w \<subseteq> set (push_images eng r xs w)"
proof (induction xs arbitrary: w)
  case Nil
  show ?case by simp
next
  case (Cons x xs)
  have "set w \<subseteq> set (w @ [Log (''>>> Pushing image '' @ x @ '' to '' @ r),
      Log (''>>>> docker push '' @ x @ '' 2>&1''), System (''docker push '' @ x @ '' 2>&1'')])"
    by auto
  also have "\<dots> \<subseteq> set (push_images eng r (x # xs) w)"
    using Cons.IH [of "w @ [Log (''>>> Pushing image '' @ x @ '' to '' @ r),
      Log (''>>>> docker push '' @ x @ '' 2>&1''), System (''docker push '' @ x @ '' 2>&1'')]"]
    by (simp add: Let_def log_def)
  finally show ?case .
qed

lemma push_images_pushes_each:
  "img \<in> set xs \<Longrightarrow> System (''docker push '' @ img @ '' 2>&1'') \<in> set (push_images eng r xs w)"
proof (induction xs arbitrary: w)
  case Nil
  then show ?case by simp
next
  case (Cons x xs)
  let ?w = "w @ [Log (''>>> Pushing image '' @ x @ '' to '' @ r),
      Log (''>>>> docker push '' @ x @ '' 2>&1''), System (''docker push '' @ x @ '' 2>&1'')]"
  have step: "push_images eng r (x # xs) w = push_images eng r xs ?w"
    by (simp add: Let_def log_def)
  show ?case
  proof (cases "img = x")
    case True
    then have "System (''docker push '' @ img @ '' 2>&1'') \<in> set ?w" by simp
    then show ?thesis using set_push_images_mono [of ?w eng r xs] step by auto
  next
    case False
    with Cons.prems have "img \<in> set xs" by simp
    from Cons.IH [OF this, of ?w] show ?thesis using step by simp
  qed
qed

text \<open>
  C1, as stated, fails. On the example configuration, with an engine under which every
  command fails, the run is the run under which every command succeeds: it prints
  nothing about a failed push, its commands hold no push to the second registry and no
  manifest push, and it ends in \<^verbatim>\<open>NameError\<close>.
\<close>

theorem failed_push_unreported_counterexample:
  "failing [] ''docker push jellyfin/jellyfin:10.9.0-amd64.20240216-093000 2>&1'' = 1
   \<and> succeeding [] ''docker push jellyfin/jellyfin:10.9.0-amd64.20240216-093000 2>&1'' = 0
   \<and> script (example_env failing) (Inr example_configurations) ''build.py''
        [''v10.9.0'', ''docker''] [] =
       script (example_env succeeding) (Inr example_configurations) ''build.py''
        [''v10.9.0'', ''docker''] []
   \<and> fst (script (example_env failing) (Inr example_configurations) ''build.py''
        [''v10.9.0'', ''docker''] []) = Inl (NameError ''ghcr_images'')
   \<and> commands (snd (script (example_env failing) (Inr example_configurations) ''build.py''
        [''v10.9.0'', ''docker''] [])) =
     [''docker run --rm --privileged multiarch/qemu-user-static:register --reset'',
      ''docker build --progress=plain --no-cache --build-arg PACKAGE_ARCH=amd64 --build-arg DOTNET_ARCH=x64 --build-arg QEMU_ARCH=x86_64 --build-arg IMAGE_ARCH=amd64 --build-arg JELLYFIN_VERSION=10.9.0 --file /src/docker/Dockerfile --tag jellyfin/jellyfin:10.9.0-amd64.20240216-093000 /src'',
      ''docker image tag jellyfin/jellyfin:10.9.0-amd64.20240216-093000 ghcr.io/jellyfin/jellyfin:10.9.0-amd64.20240216-093000'',
      ''docker run --rm --privileged multiarch/qemu-user-static:register --reset'',
      ''docker build --progress=plain --no-cache --build-arg PACKAGE_ARCH=arm64 --build-arg DOTNET_ARCH=arm64 --build-arg QEMU_ARCH=aarch64 --build-arg IMAGE_ARCH=arm64v8 --build-arg JELLYFIN_VERSION=10.9.0 --file /src/docker/Dockerfile --tag jellyfin/jellyfin:10.9.0-arm64.20240216-093000 /src'',
      ''docker image tag jellyfin/jellyfin:10.9.0-arm64.20240216-093000 ghcr.io/jellyfin/jellyfin:10.9.0-arm64.20240216-093000'',
      ''docker login 2>&1'',
      ''docker push jellyfin/jellyfin:10.9.0-amd64.20240216-093000 2>&1'',
      ''docker push jellyfin/jellyfin:10.9.0-arm64.20240216-093000 2>&1'']"
  by (simp add: example_stable_docker_run failing_def succeeding_def)

text \<open>
  C1, amended. The exit status of no command is read: what \<^verbatim>\<open>build_docker\<close> and the
  script log, issue and return is the same under every engine, so a failed push stops
  nothing that follows it and is reported nowhere; and every image of \<^verbatim>\<open>images\<close> is
  pushed to the first registry.
\<close>

theorem push_outcomes_never_read:
  "build_docker (E\<lparr>engine := eng\<rparr>) cfg raw bt a b w =
     build_docker (E\<lparr>engine := eng'\<rparr>) cfg raw bt a b w
   \<and> script (E\<lparr>engine := eng\<rparr>) yaml argv0 args w = script (E\<lparr>engine := eng'\<rparr>) yaml argv0 args w
   \<and> (\<forall>img \<in> set images.
        System (''docker push '' @ img @ '' 2>&1'')
          \<in> set (snd (publish eng cfg fl v d images images_ghcr w)))"
proof (intro conjI ballI)
  show "build_docker (E\<lparr>engine := eng\<rparr>) cfg raw bt a b w =
     build_docker (E\<lparr>engine := eng'\<rparr>) cfg raw bt a b w"
    by (simp add: build_docker_engine [where E = E and eng = eng and eng' = eng'])
  show "script (E\<lparr>engine := eng\<rparr>) yaml argv0 args w = script (E\<lparr>engine := eng'\<rparr>) yaml argv0 args w"
    by (simp add: script_engine [where E = E and eng = eng and eng' = eng'])
next
  fix img assume "img \<in> set images"
  then show "System (''docker push '' @ img @ '' 2>&1'')
          \<in> set (snd (publish eng cfg fl v d images images_ghcr w))"
    unfolding publish_raises snd_conv by (rule push_images_pushes_each)
qed

text \<open>The same on the example configuration and two image references.\<close>

theorem push_outcomes_never_read_witness:
  "build_docker (example_env failing) example_configurations ''v10.9.0'' ''docker'' None None [] =
     build_docker (example_env succeeding) example_configurations ''v10.9.0'' ''docker'' None None []
   \<and> script (example_env failing) (Inr example_configurations) ''build.py''
        [''v10.9.0'', ''docker''] [] =
       script (example_env succeeding) (Inr example_configurations) ''build.py''
        [''v10.9.0'', ''docker''] []
   \<and> System ''docker push jellyfin/jellyfin:10.9.0-arm64 2>&1''
        \<in> set (snd (publish failing example_configurations (classify ''10.9.0'') ''10.9.0''
                 ''20240216-093000''
                 [''jellyfin/jellyfin:10.9.0-amd64'', ''jellyfin/jellyfin:10.9.0-arm64'']
                 [''ghcr.io/jellyfin/jellyfin:10.9.0-amd64'',
                  ''ghcr.io/jellyfin/jellyfin:10.9.0-arm64''] []))"
proof -
  have e: "(example_env succeeding)\<lparr>engine := failing\<rparr> = example_env failing"
    "(example_env succeeding)\<lparr>engine := succeeding\<rparr> = example_env succeeding"
    by (simp_all add: example_env_def)
  note T = push_outcomes_never_read [where E = "example_env succeeding" and eng = failing
      and eng' = succeeding and cfg = example_configurations and raw = "''v10.9.0''"
      and bt = "''docker''" and a = None and b = None and w = "[]"
      and yaml = "Inr example_configurations" and ?argv0.0 = "''build.py''"
      and args = "[''v10.9.0'', ''docker'']"
      and images = "[''jellyfin/jellyfin:10.9.0-amd64'', ''jellyfin/jellyfin:10.9.0-arm64'']"
      and fl = "classify ''10.9.0''" and v = "''10.9.0''" and d = "''20240216-093000''"
      and images_ghcr = "[''ghcr.io/jellyfin/jellyfin:10.9.0-amd64'',
                          ''ghcr.io/jellyfin/jellyfin:10.9.0-arm64'']",
      unfolded e]
  have m: "''jellyfin/jellyfin:10.9.0-arm64''
      \<in> set [''jellyfin/jellyfin:10.9.0-amd64'', ''jellyfin/jellyfin:10.9.0-arm64'']"
    by simp
  show ?thesis
    by (intro conjI)
      (rule T [THEN conjunct1],
       rule T [THEN conjunct2, THEN conjunct1],
       rule T [THEN conjunct2, THEN conjunct2, THEN bspec, OF m, simplified])
qed

lemma manifest_commands_append [simp]:
  "manifest_commands (w @ w') = manifest_commands w @ manifest_commands w'"
  by (simp add: manifest_commands_def)

lemma manifest_commands_log [simp]: "manifest_commands (log m w) = manifest_commands w"
  by (simp add: manifest_commands_def)

lemmas manifest_simps =
  manifest_commands_def is_manifest_command_def qemu_reset_cmd_def docker_run_cmd_def
  docker_image_build_cmd_def docker_build_cmd_def

lemma manifest_commands_build_image:
  "manifest_commands (snd (build_image E cfg df fl v d arch w)) = manifest_commands w"
  by (simp add: build_image_def Let_def log_def manifest_simps split: sum.splits prod.splits)

lemma manifest_commands_build_images:
  "manifest_commands (snd (build_images (build_image E cfg df fl v d) archs is ig w)) =
     manifest_commands w"
proof (induction archs arbitrary: "is" ig w)
  case Nil
  show ?case by simp
next
  case (Cons arch archs)
  obtain r w1 where step: "build_image E cfg df fl v d arch w = (r, w1)"
    by (cases "build_image E cfg df fl v d arch w")
  then have w1: "manifest_commands w1 = manifest_commands w"
    using manifest_commands_build_image [of E cfg df fl v d arch w] by simp
  show ?case
    using step w1 Cons.IH by (cases r) simp_all
qed

lemma manifest_commands_push_images:
  "manifest_commands (push_images eng r xs w) = manifest_commands w"
proof (induction xs arbitrary: w)
  case Nil
  show ?case by simp
next
  case (Cons x xs)
  have "manifest_commands [System (''docker push '' @ x @ '' 2>&1'')] = []"
    by (simp add: manifest_simps)
  with Cons.IH show ?case by (simp add: Let_def)
qed

text \<open>
  C2 on the code: no run of \<^verbatim>\<open>build_docker\<close> issues a \<^verbatim>\<open>docker manifest\<close> command, for
  a stable or an unstable version, and none returns normally. The claim's manifest
  classes are those of lines 366 to 416, which no run reaches.
\<close>

theorem build_docker_issues_no_manifest_command:
  "manifest_commands (snd (build_docker E cfg raw bt a b w)) = manifest_commands w
   \<and> fst (build_docker E cfg raw bt a b w) \<noteq> Inr ()"
proof
  show "fst (build_docker E cfg raw bt a b w) \<noteq> Inr ()"
    by (rule build_docker_never_returns)
  show "manifest_commands (snd (build_docker E cfg raw bt a b w)) = manifest_commands w"
  proof (cases "conf cfg ''docker'' ''archmaps'' cfg_archmaps")
    case (Inl e)
    then show ?thesis by (simp add: build_docker_def)
  next
    case am: (Inr am)
    show ?thesis
    proof (cases "conf cfg bt ''dockerfile'' cfg_dockerfile")
      case (Inl e)
      then show ?thesis by (simp add: build_docker_def am)
    next
      case df: (Inr df)
      obtain r w1 where loop: "build_images (build_image E cfg df (classify raw)
          (strip_version raw) (now_second E)) (keys am) [] []
          (log [] (log ''> Building Docker images...'' w)) = (r, w1)"
        by (cases "build_images (build_image E cfg df (classify raw)
          (strip_version raw) (now_second E)) (keys am) [] []
          (log [] (log ''> Building Docker images...'' w))")
      then have w1: "manifest_commands w1 = manifest_commands w"
        using manifest_commands_build_images [of E cfg df "classify raw" "strip_version raw"
            "now_second E" "keys am" "[]" "[]" "log [] (log ''> Building Docker images...'' w)"]
        by simp
      have login: "manifest_commands [System ''docker login 2>&1''] = []"
        by (simp add: manifest_simps)
      show ?thesis
        using loop w1 login
        by (cases r)
          (auto simp: build_docker_def Let_def am df publish_raises manifest_commands_push_images)
    qed
  qed
qed

text \<open>
  C4 on the code: the run for \<^verbatim>\<open>master\<close> on the example configuration. After the login
  it pushes the two images to the first registry and ends in \<^verbatim>\<open>NameError\<close>: no image is
  pushed to the second registry and no manifest is created or pushed.
\<close>

theorem unstable_run_ends_after_first_registry:
  "fst (script (example_env succeeding) (Inr example_configurations) ''build.py''
        [''master'', ''docker''] []) = Inl (NameError ''ghcr_images'')
   \<and> exit_status (fst (script (example_env succeeding) (Inr example_configurations) ''build.py''
        [''master'', ''docker''] [])) = 1
   \<and> commands (snd (script (example_env succeeding) (Inr example_configurations) ''build.py''
        [''master'', ''docker''] [])) =
     [''docker run --rm --privileged multiarch/qemu-user-static:register --reset'',
      ''docker build --progress=plain --no-cache --build-arg PACKAGE_ARCH=amd64 --build-arg DOTNET_ARCH=x64 --build-arg QEMU_ARCH=x86_64 --build-arg IMAGE_ARCH=amd64 --build-arg JELLYFIN_VERSION=2024021600 --file /src/docker/Dockerfile --tag jellyfin/jellyfin:2024021600-amd64 /src'',
      ''docker image tag jellyfin/jellyfin:2024021600-amd64 ghcr.io/jellyfin/jellyfin:2024021600-amd64'',
      ''docker run --rm --privileged multiarch/qemu-user-static:register --reset'',
      ''docker build --progress=plain --no-cache --build-arg PACKAGE_ARCH=arm64 --build-arg DOTNET_ARCH=arm64 --build-arg QEMU_ARCH=aarch64 --build-arg IMAGE_ARCH=arm64v8 --build-arg JELLYFIN_VERSION=2024021600 --file /src/docker/Dockerfile --tag jellyfin/jellyfin:2024021600-arm64 /src'',
      ''docker image tag jellyfin/jellyfin:2024021600-arm64 ghcr.io/jellyfin/jellyfin:2024021600-arm64'',
      ''docker login 2>&1'',
      ''docker push jellyfin/jellyfin:2024021600-amd64 2>&1'',
      ''docker push jellyfin/jellyfin:2024021600-arm64 2>&1'']"
  by (simp add: example_unstable_docker_run)

text \<open>
  What lines 362 to 416 do when they run, for the record: with the image name
  configured, a stable version gives the dated, the version and the \<^verbatim>\<open>latest\<close> manifest,
  an unstable one the version and the \<^verbatim>\<open>unstable\<close> manifest, each created for docker.io
  from \<^verbatim>\<open>images\<close> and for ghcr.io from \<^verbatim>\<open>images_ghcr\<close>, in this order.
\<close>

lemma create_manifest_configured:
  assumes "conf cfg ''docker'' ''imagename'' cfg_imagename = Inr name"
  shows "create_manifest eng cfg label tag images images_ghcr manifests w =
    (Inr (manifests @ [name @ '':'' @ tag]),
     w @ [Log (''>>> Building '' @ label @ '' manifest...''),
          Log (''>>>> docker manifest create '' @ name @ '':'' @ tag @ '' '' @ join '' '' images),
          System (''docker manifest create docker.io/'' @ name @ '':'' @ tag @ '' ''
                    @ join '' '' images),
          System (''docker manifest create ghcr.io/'' @ name @ '':'' @ tag @ '' ''
                    @ join '' '' images_ghcr)])"
  using assms by (simp add: create_manifest_def Let_def log_def)

lemma build_manifests_classes:
  assumes name: "conf cfg ''docker'' ''imagename'' cfg_imagename = Inr name"
  shows "fst (build_manifests eng cfg (classify raw) v d images images_ghcr w) =
           Inr (map (\<lambda>tag. name @ '':'' @ tag)
                 (if CHR ''v'' \<in> set raw then [v @ ''.'' @ d, v, ''latest'']
                  else [v, ''unstable'']))
    \<and> commands (snd (build_manifests eng cfg (classify raw) v d images images_ghcr w)) =
        commands w @
        concat (map (\<lambda>tag.
            [''docker manifest create docker.io/'' @ name @ '':'' @ tag @ '' '' @ join '' '' images,
             ''docker manifest create ghcr.io/'' @ name @ '':'' @ tag @ '' ''
               @ join '' '' images_ghcr])
          (if CHR ''v'' \<in> set raw then [v @ ''.'' @ d, v, ''latest''] else [v, ''unstable'']))"
  by (simp add: build_manifests_def create_manifest_configured [OF name] classify_def
      contains_char_def Let_def)

section \<open>Validation and the single-target builds\<close>

lemma script_invalid_build_type:
  assumes "bt \<notin> set (keys cfg)"
  shows "script E (Inr cfg) argv0 (raw # bt # rest) w =
    (Inl (SystemExit 1),
     usage argv0 cfg
       (w @ [Log (''Error: The specified build type '' @ quoted bt @ '' is not valid''), Log []]))"
  using assms by (simp add: script_def argv_def log_def)

lemma script_misconfigured:
  assumes "bt \<in> set (keys cfg)" and "configured_function cfg bt = None"
  shows "script E (Inr cfg) argv0 (raw # bt # rest) w =
    (Inl (SystemExit 1),
     w @ [Log (''Error: The specified valid build type '' @ quoted bt
                @ '' does not define a valid build function''),
          Log ''This is a misconfiguration of the YAML or the build script; please report a bug!''])"
  using assms by (simp add: script_def argv_def log_def)

lemma script_calls:
  assumes "bt \<in> set (keys cfg)" and "configured_function cfg bt = Some f" and "raw \<noteq> ''master''"
  shows "script E (Inr cfg) argv0 (raw # bt # rest) w =
    call f \<lparr>glob_build_arch = optional_argv (raw # bt # rest) 3,
            glob_build_version = optional_argv (raw # bt # rest) 4\<rparr>
      E cfg raw bt (optional_argv (raw # bt # rest) 3) (optional_argv (raw # bt # rest) 4) w"
  using assms by (simp add: script_def argv_def Let_def)

lemma script_exit_zero:
  assumes "bt \<in> set (keys cfg)" and "configured_function cfg bt = Some f"
    and "fst (call f \<lparr>glob_build_arch = optional_argv (raw # bt # rest) 3,
                      glob_build_version = optional_argv (raw # bt # rest) 4\<rparr>
                E cfg (if raw = ''master'' then now_hour E else raw) bt
                (optional_argv (raw # bt # rest) 3) (optional_argv (raw # bt # rest) 4)
                (if raw = ''master''
                 then log (''NOTE: Autocorrecting 'master' version to '' @ now_hour E) w
                 else w)) = Inr ()"
  shows "exit_status (fst (script E (Inr cfg) argv0 (raw # bt # rest) w)) = 0"
  using assms by (simp add: script_def argv_def Let_def split: if_splits)

lemma configured_function_None:
  "(configured_function cfg bt = None) =
     (case conf cfg bt ''build_function'' cfg_build_function of
        Inl e \<Rightarrow> True
      | Inr name \<Rightarrow> name \<notin> set (keys function_definitions))"
  by (simp add: configured_function_def keys_def map_of_eq_None_iff split: sum.splits)

lemma deb_invalid_version:
  assumes "bt \<in> set (keys cfg)"
    and "conf cfg bt ''releases'' cfg_releases = Inr releases"
    and "lookup releases ver = None"
  shows "build_package_deb E cfg raw bt arch ver w =
    (Inl (SystemExit 1),
     w @ [Log (''> Building an '' @ fmt arch @ '' '' @ bt @ '' .deb package...''), Log [],
          Log (''Invalid/unsupported arguments: '' @ fmt ver @ '' is not a valid '' @ bt
                 @ '' version in '' @ dict_keys (keys releases))])"
  using assms
  by (simp add: build_package_deb_def deb_arguments_def invalid_arguments_def log_def Let_def)

lemma deb_invalid_arch:
  assumes "bt \<in> set (keys cfg)"
    and "conf cfg bt ''releases'' cfg_releases = Inr releases"
    and "lookup releases ver = Some os_version"
    and "conf cfg bt ''archmaps'' cfg_archmaps = Inr archmaps"
    and "lookup archmaps arch = None"
  shows "build_package_deb E cfg raw bt arch ver w =
    (Inl (SystemExit 1),
     w @ [Log (''> Building an '' @ fmt arch @ '' '' @ bt @ '' .deb package...''), Log [],
          Log (''Invalid/unsupported arguments: '' @ fmt arch @ '' is not a valid '' @ bt
                 @ '' '' @ fmt ver @ '' architecture in '' @ dict_keys (keys archmaps))])"
  using assms
  by (simp add: build_package_deb_def deb_arguments_def invalid_arguments_def log_def Let_def)

lemma archive_invalid_arch:
  assumes "conf cfg bt ''archmaps'' cfg_archmaps = Inr archmaps"
    and "lookup archmaps arch = None"
  shows "build_archive label t E cfg raw bt arch ver w =
    (Inl (SystemExit 1),
     w @ [Log (''> Building a portable '' @ fmt arch @ '' '' @ label @ '' archive...''), Log [],
          Log (''Invalid/unsupported arguments: '' @ fmt arch @ '' is not a valid '' @ bt
                 @ '' '' @ fmt ver @ '' architecture in '' @ dict_keys (keys archmaps))])"
  using assms
  by (simp add: build_archive_def archive_arguments_def invalid_arguments_def log_def Let_def)

lemma portable_succeeds:
  assumes "conf cfg bt ''dockerfile'' cfg_dockerfile = Inr df"
    and "conf cfg bt ''imagename'' cfg_imagename = Inr name"
    and "conf cfg bt ''archivetypes'' cfg_archivetypes = Inr archivetypes"
  shows "build_portable E cfg raw bt a b w =
    (Inr (),
     w @ [Log ''> Building a portable .NET archive...'', Log [],
          System (docker_build_cmd @ '' --file '' @ repo_root_dir E @ ''/'' @ df
                    @ '' --tag '' @ name @ ''-'' @ strip_version raw @ ''_'' @ bt
                    @ '' '' @ repo_root_dir E),
          System (docker_run_cmd @ '' --volume '' @ repo_root_dir E @ '':/jellyfin''
                    @ '' --volume '' @ repo_root_dir E @ ''/out/'' @ bt @ '':/dist''
                    @ '' --env JELLYFIN_VERSION='' @ strip_version raw
                    @ '' --env BUILD_TYPE='' @ bt
                    @ '' --env ARCHIVE_TYPES='' @ archivetypes
                    @ '' --name '' @ name @ ''-'' @ strip_version raw @ ''_'' @ bt
                    @ '' '' @ name @ ''-'' @ strip_version raw @ ''_'' @ bt)])"
  using assms by (simp add: build_portable_def log_def Let_def)

lemmas build_simps =
  build_portable_def build_package_deb_def build_package_rpm_def build_archive_def build_linux_def
  build_windows_def build_macos_def deb_arguments_def deb_prepare_def archive_arguments_def
  release_comment_def

lemma example_portable_run:
  "script (example_env eng) (Inr example_configurations) ''build.py'' [''v10.9.0'', ''portable''] [] =
   (Inr (),
    [Log ''> Building a portable .NET archive...'', Log [],
     System ''docker build --progress=plain --no-cache --file /src/portable/Dockerfile --tag jellyfin-builder-portable-10.9.0_portable /src'',
     System ''docker run --rm --volume /src:/jellyfin --volume /src/out/portable:/dist --env JELLYFIN_VERSION=10.9.0 --env BUILD_TYPE=portable --env ARCHIVE_TYPES=targz,zip --name jellyfin-builder-portable-10.9.0_portable jellyfin-builder-portable-10.9.0_portable''])"
  by (simp add: script_simps example_simps docker_simps build_simps)

text \<open>
  C7, as stated, fails. Under the engine for which every command fails, the portable
  build on the example configuration issues its build step and its run step, returns
  normally, and the process ends with status 0.
\<close>

theorem failed_build_exits_zero_counterexample:
  "failing [Log ''> Building a portable .NET archive...'', Log []]
     ''docker build --progress=plain --no-cache --file /src/portable/Dockerfile --tag jellyfin-builder-portable-10.9.0_portable /src'' = 1
   \<and> script (example_env failing) (Inr example_configurations) ''build.py''
        [''v10.9.0'', ''portable''] [] =
     (Inr (),
      [Log ''> Building a portable .NET archive...'', Log [],
       System ''docker build --progress=plain --no-cache --file /src/portable/Dockerfile --tag jellyfin-builder-portable-10.9.0_portable /src'',
       System ''docker run --rm --volume /src:/jellyfin --volume /src/out/portable:/dist --env JELLYFIN_VERSION=10.9.0 --env BUILD_TYPE=portable --env ARCHIVE_TYPES=targz,zip --name jellyfin-builder-portable-10.9.0_portable jellyfin-builder-portable-10.9.0_portable''])
   \<and> exit_status (fst (script (example_env failing) (Inr example_configurations) ''build.py''
        [''v10.9.0'', ''portable''] [])) = 0"
  by (simp add: example_portable_run failing_def)

lemma example_rpm_run:
  "script (example_env eng) (Inr example_configurations) ''build.py'' [''v10.9.0'', ''fedora''] [] =
   (Inr (), [Log ''> Building an None fedora .rpm package...'', Log []])"
  by (simp add: script_simps example_simps docker_simps build_simps)

text \<open>
  C6, as stated, fails for a declared but stubbed function. The build type \<^verbatim>\<open>fedora\<close>
  of the example names \<^verbatim>\<open>build_package_rpm\<close>, whose body is \<^verbatim>\<open>pass\<close>: the script calls it,
  logs its banner and ends with status 0, with no misconfiguration message.
\<close>

theorem stubbed_function_is_dispatched_counterexample:
  "conf example_configurations ''fedora'' ''build_function'' cfg_build_function =
     Inr ''build_package_rpm''
   \<and> script (example_env succeeding) (Inr example_configurations) ''build.py''
        [''v10.9.0'', ''fedora''] [] =
     (Inr (), [Log ''> Building an None fedora .rpm package...'', Log []])
   \<and> exit_status (fst (script (example_env succeeding) (Inr example_configurations) ''build.py''
        [''v10.9.0'', ''fedora''] [])) = 0"
  by (simp add: example_rpm_run) (simp add: example_simps)

text \<open>
  C6, amended. When the entry of a valid build type has no \<^verbatim>\<open>build_function\<close> or names
  one that is not a key of \<^verbatim>\<open>function_definitions\<close>, the script logs the two lines of the
  misconfiguration message, which asks to report a bug and differs from the message for
  an invalid build type, issues no command and exits with status 1. The keys of
  \<^verbatim>\<open>function_definitions\<close> include the stubbed \<^verbatim>\<open>build_package_rpm\<close>: a build type that
  names it is dispatched, and the function logs its two lines and returns.
\<close>

theorem unknown_build_function_is_misconfiguration:
  "(bt \<in> set (keys cfg) \<and> configured_function cfg bt = None \<longrightarrow>
      script E (Inr cfg) argv0 (raw # bt # rest) w =
        (Inl (SystemExit 1),
         w @ [Log (''Error: The specified valid build type '' @ quoted bt
                    @ '' does not define a valid build function''),
              Log ''This is a misconfiguration of the YAML or the build script; please report a bug!'']))
   \<and> (configured_function cfg bt = None) =
       (case conf cfg bt ''build_function'' cfg_build_function of
          Inl e \<Rightarrow> True
        | Inr name \<Rightarrow> name \<notin> set (keys function_definitions))
   \<and> keys function_definitions =
       [''build_package_deb'', ''build_package_rpm'', ''build_portable'', ''build_linux'',
        ''build_windows'', ''build_macos'', ''build_docker'']
   \<and> (bt \<in> set (keys cfg) \<and> configured_function cfg bt = Some Build_package_rpm
        \<and> raw \<noteq> ''master'' \<longrightarrow>
      script E (Inr cfg) argv0 (raw # bt # rest) w =
        (Inr (),
         w @ [Log (''> Building an '' @ fmt (optional_argv (raw # bt # rest) 3) @ '' '' @ bt
                    @ '' .rpm package...''), Log []]))
   \<and> ''Error: The specified valid build type '' @ quoted bt
         @ '' does not define a valid build function'' \<noteq>
       ''Error: The specified build type '' @ quoted bt @ '' is not valid''"
proof (intro conjI impI)
  assume "bt \<in> set (keys cfg) \<and> configured_function cfg bt = None"
  then show "script E (Inr cfg) argv0 (raw # bt # rest) w =
        (Inl (SystemExit 1),
         w @ [Log (''Error: The specified valid build type '' @ quoted bt
                    @ '' does not define a valid build function''),
              Log ''This is a misconfiguration of the YAML or the build script; please report a bug!''])"
    using script_misconfigured by blast
next
  show "(configured_function cfg bt = None) =
       (case conf cfg bt ''build_function'' cfg_build_function of
          Inl e \<Rightarrow> True
        | Inr name \<Rightarrow> name \<notin> set (keys function_definitions))"
    by (rule configured_function_None)
  show "keys function_definitions =
       [''build_package_deb'', ''build_package_rpm'', ''build_portable'', ''build_linux'',
        ''build_windows'', ''build_macos'', ''build_docker'']"
    by (simp add: function_definitions_def keys_def)
  show "''Error: The specified valid build type '' @ quoted bt
         @ '' does not define a valid build function'' \<noteq>
       ''Error: The specified build type '' @ quoted bt @ '' is not valid''"
    by simp
next
  assume h: "bt \<in> set (keys cfg) \<and> configured_function cfg bt = Some Build_package_rpm
        \<and> raw \<noteq> ''master''"
  then have "script E (Inr cfg) argv0 (raw # bt # rest) w =
    call Build_package_rpm \<lparr>glob_build_arch = optional_argv (raw # bt # rest) 3,
            glob_build_version = optional_argv (raw # bt # rest) 4\<rparr>
      E cfg raw bt (optional_argv (raw # bt # rest) 3) (optional_argv (raw # bt # rest) 4) w"
    using script_calls by blast
  then show "script E (Inr cfg) argv0 (raw # bt # rest) w =
        (Inr (),
         w @ [Log (''> Building an '' @ fmt (optional_argv (raw # bt # rest) 3) @ '' '' @ bt
                    @ '' .rpm package...''), Log []])"
    by (simp add: build_package_rpm_def log_def)
qed

text \<open>
  The same on the example with the build type \<^verbatim>\<open>snap\<close>, bound to the unknown
  \<^verbatim>\<open>build_snap\<close>, and with \<^verbatim>\<open>fedora\<close>.
\<close>

theorem unknown_build_function_is_misconfiguration_witness:
  "script (example_env succeeding) (Inr misconfigured_configurations) ''build.py''
       [''v10.9.0'', ''snap''] [] =
     (Inl (SystemExit 1),
      [Log ''Error: The specified valid build type 'snap' does not define a valid build function'',
       Log ''This is a misconfiguration of the YAML or the build script; please report a bug!''])
   \<and> script (example_env succeeding) (Inr misconfigured_configurations) ''build.py''
       [''v10.9.0'', ''fedora'', ''amd64''] [] =
     (Inr (), [Log ''> Building an amd64 fedora .rpm package...'', Log []])"
proof -
  note S = unknown_build_function_is_misconfiguration [where bt = "''snap''"
      and cfg = misconfigured_configurations and E = "example_env succeeding"
      and ?argv0.0 = "''build.py''" and raw = "''v10.9.0''" and rest = "[]" and w = "[]"]
  note F = unknown_build_function_is_misconfiguration [where bt = "''fedora''"
      and cfg = misconfigured_configurations and E = "example_env succeeding"
      and ?argv0.0 = "''build.py''" and raw = "''v10.9.0''" and rest = "[''amd64'']" and w = "[]"]
  have hs: "''snap'' \<in> set (keys misconfigured_configurations)
      \<and> configured_function misconfigured_configurations ''snap'' = None"
    by (simp add: misconfigured_configurations_def example_simps)
  have hf: "''fedora'' \<in> set (keys misconfigured_configurations)
      \<and> configured_function misconfigured_configurations ''fedora'' = Some Build_package_rpm
      \<and> ''v10.9.0'' \<noteq> ''master''"
    by (simp add: misconfigured_configurations_def example_simps)
  have c1: "script (example_env succeeding) (Inr misconfigured_configurations) ''build.py''
       [''v10.9.0'', ''snap''] [] =
     (Inl (SystemExit 1),
      [Log ''Error: The specified valid build type 'snap' does not define a valid build function'',
       Log ''This is a misconfiguration of the YAML or the build script; please report a bug!''])"
    using S [THEN conjunct1, THEN mp, OF hs] by (simp add: quoted_def)
  have c2: "script (example_env succeeding) (Inr misconfigured_configurations) ''build.py''
       [''v10.9.0'', ''fedora'', ''amd64''] [] =
     (Inr (), [Log ''> Building an amd64 fedora .rpm package...'', Log []])"
    using F [THEN conjunct2, THEN conjunct2, THEN conjunct2, THEN conjunct1, THEN mp, OF hf]
    by (simp add: optional_argv_def argv_def fmt_def)
  show ?thesis by (intro conjI) (rule c1, rule c2)
qed

lemma example_deb_invalid_run:
  "script (example_env eng) (Inr example_configurations) ''build.py''
     [''v10.9.0'', ''debian'', ''sparc'', ''trixie''] [] =
   (Inl (SystemExit 1),
    [Log ''> Building an sparc debian .deb package...'', Log [],
     Log ''Invalid/unsupported arguments: trixie is not a valid debian version in dict_keys(['bullseye', 'bookworm'])''])"
  by (simp add: script_simps example_simps docker_simps build_simps)

text \<open>
  C8, as stated, fails. For the Debian build of the example with the architecture
  \<^verbatim>\<open>sparc\<close> and the OS version \<^verbatim>\<open>trixie\<close>, both unknown, the message reports the OS
  version, not the architecture: \<^verbatim>\<open>build_package_deb\<close> checks \<^verbatim>\<open>releases\<close> first.
\<close>

theorem os_version_checked_before_architecture_counterexample:
  "lookup [(''amd64'', [(''PACKAGE_ARCH'', ''amd64'')]), (''arm64'', [(''PACKAGE_ARCH'', ''arm64'')])]
     (Some ''sparc'') = None
   \<and> conf example_configurations ''debian'' ''archmaps'' cfg_archmaps =
       Inr [(''amd64'', [(''PACKAGE_ARCH'', ''amd64'')]), (''arm64'', [(''PACKAGE_ARCH'', ''arm64'')])]
   \<and> script (example_env succeeding) (Inr example_configurations) ''build.py''
       [''v10.9.0'', ''debian'', ''sparc'', ''trixie''] [] =
     (Inl (SystemExit 1),
      [Log ''> Building an sparc debian .deb package...'', Log [],
       Log ''Invalid/unsupported arguments: trixie is not a valid debian version in dict_keys(['bullseye', 'bookworm'])''])"
  by (simp add: example_deb_invalid_run) (simp add: example_simps lookup_def)

text \<open>
  C8, amended. Validation stops at the first failing check, in this order: the build
  type is a key of the configuration (else the message names it and \<^verbatim>\<open>usage\<close> lists the
  valid build types); the build function is known (else the misconfiguration message);
  then the build function is called and checks its own arguments. \<^verbatim>\<open>build_package_deb\<close>
  checks the OS version in \<^verbatim>\<open>releases\<close> first, whatever the architecture, and the
  architecture in \<^verbatim>\<open>archmaps\<close> second; \<^verbatim>\<open>build_linux\<close>, \<^verbatim>\<open>build_windows\<close> and
  \<^verbatim>\<open>build_macos\<close> check the architecture only. Each of these messages names the invalid
  value and the valid keys, and the run exits with status 1 without issuing a command.
\<close>

theorem validation_order:
  "(bt \<notin> set (keys cfg) \<longrightarrow>
      script E (Inr cfg) argv0 (raw # bt # rest) w =
        (Inl (SystemExit 1),
         usage argv0 cfg
           (w @ [Log (''Error: The specified build type '' @ quoted bt @ '' is not valid''),
                 Log []])))
   \<and> (bt \<in> set (keys cfg) \<and> configured_function cfg bt = None \<longrightarrow>
      script E (Inr cfg) argv0 (raw # bt # rest) w =
        (Inl (SystemExit 1),
         w @ [Log (''Error: The specified valid build type '' @ quoted bt
                    @ '' does not define a valid build function''),
              Log ''This is a misconfiguration of the YAML or the build script; please report a bug!'']))
   \<and> (bt \<in> set (keys cfg) \<and> configured_function cfg bt = Some f \<and> raw \<noteq> ''master'' \<longrightarrow>
      script E (Inr cfg) argv0 (raw # bt # rest) w =
        call f \<lparr>glob_build_arch = optional_argv (raw # bt # rest) 3,
                glob_build_version = optional_argv (raw # bt # rest) 4\<rparr>
          E cfg raw bt (optional_argv (raw # bt # rest) 3) (optional_argv (raw # bt # rest) 4) w)
   \<and> (bt \<in> set (keys cfg) \<and> conf cfg bt ''releases'' cfg_releases = Inr releases
        \<and> lookup releases ver = None \<longrightarrow>
      build_package_deb E cfg raw bt arch ver w =
        (Inl (SystemExit 1),
         w @ [Log (''> Building an '' @ fmt arch @ '' '' @ bt @ '' .deb package...''), Log [],
              Log (''Invalid/unsupported arguments: '' @ fmt ver @ '' is not a valid '' @ bt
                     @ '' version in '' @ dict_keys (keys releases))]))
   \<and> (bt \<in> set (keys cfg) \<and> conf cfg bt ''releases'' cfg_releases = Inr releases
        \<and> lookup releases ver = Some os_version
        \<and> conf cfg bt ''archmaps'' cfg_archmaps = Inr archmaps
        \<and> lookup archmaps arch = None \<longrightarrow>
      build_package_deb E cfg raw bt arch ver w =
        (Inl (SystemExit 1),
         w @ [Log (''> Building an '' @ fmt arch @ '' '' @ bt @ '' .deb package...''), Log [],
              Log (''Invalid/unsupported arguments: '' @ fmt arch @ '' is not a valid '' @ bt
                     @ '' '' @ fmt ver @ '' architecture in '' @ dict_keys (keys archmaps))]))
   \<and> (conf cfg bt ''archmaps'' cfg_archmaps = Inr archmaps \<and> lookup archmaps arch = None \<longrightarrow>
      build_archive label dotnet_type E cfg raw bt arch ver w =
        (Inl (SystemExit 1),
         w @ [Log (''> Building a portable '' @ fmt arch @ '' '' @ label @ '' archive...''),
              Log [],
              Log (''Invalid/unsupported arguments: '' @ fmt arch @ '' is not a valid '' @ bt
                     @ '' '' @ fmt ver @ '' architecture in '' @ dict_keys (keys archmaps))]))"
  using script_invalid_build_type [of bt cfg E argv0 raw rest w]
    script_misconfigured [of bt cfg E argv0 raw rest w]
    script_calls [of bt cfg f raw E argv0 rest w]
    deb_invalid_version [of bt cfg releases ver E raw arch w]
    deb_invalid_arch [of bt cfg releases ver os_version archmaps arch E raw w]
    archive_invalid_arch [of cfg bt archmaps arch label dotnet_type E raw ver w]
  by blast

text \<open>
  The same on the example: an unknown build type, the build type \<^verbatim>\<open>snap\<close> bound to an
  unknown function, a Debian build with an unknown architecture, one with an unknown OS
  version as well, and a Linux archive with no architecture.
\<close>

theorem validation_order_witness:
  "script (example_env succeeding) (Inr example_configurations) ''build.py''
       [''v10.9.0'', ''nosuch''] [] =
     (Inl (SystemExit 1),
      [Log ''Error: The specified build type 'nosuch' is not valid'',
       Log [],
       Log ''build.py JELLYFIN_VERSION BUILD_TYPE [BUILD_ARCH] [BUILD_VERSION]'',
       Log ''  JELLYFIN_VERSION: The Jellyfin version being built'',
       Log ''    * Stable releases should be tag names with a 'v' e.g. v10.9.0'',
       Log ''    * Unstable releases should be 'master' or a date-to-the-hour version e.g. 2024021600'',
       Log ''  BUILD_TYPE: The type of build to execute'',
       Log ''    * Valid options are: debian, fedora, linux, portable, docker'',
       Log ''  BUILD_ARCH: The CPU architecture of the build'',
       Log ''    * Valid options are: <empty> [portable/docker only], amd64, arm64, armhf'',
       Log ''  BUILD_VERSION: A valid OS distribution version (.deb/.rpm build types only)''])
   \<and> script (example_env succeeding) (Inr misconfigured_configurations) ''build.py''
       [''v10.9.0'', ''snap'', ''amd64''] [] =
     (Inl (SystemExit 1),
      [Log ''Error: The specified valid build type 'snap' does not define a valid build function'',
       Log ''This is a misconfiguration of the YAML or the build script; please report a bug!''])
   \<and> script (example_env succeeding) (Inr example_configurations) ''build.py''
       [''v10.9.0'', ''debian'', ''sparc'', ''bookworm''] [] =
     (Inl (SystemExit 1),
      [Log ''> Building an sparc debian .deb package...'', Log [],
       Log ''Invalid/unsupported arguments: sparc is not a valid debian bookworm architecture in dict_keys(['amd64', 'arm64'])''])
   \<and> build_package_deb (example_env succeeding) example_configurations ''v10.9.0'' ''debian''
       (Some ''sparc'') (Some ''trixie'') [] =
     (Inl (SystemExit 1),
      [Log ''> Building an sparc debian .deb package...'', Log [],
       Log ''Invalid/unsupported arguments: trixie is not a valid debian version in dict_keys(['bullseye', 'bookworm'])''])
   \<and> build_archive ''Linux'' ''linux'' (example_env succeeding) example_configurations
       ''v10.9.0'' ''linux'' None None [] =
     (Inl (SystemExit 1),
      [Log ''> Building a portable None Linux archive...'', Log [],
       Log ''Invalid/unsupported arguments: None is not a valid linux None architecture in dict_keys(['amd64'])''])"
proof -
  let ?E = "example_env succeeding"
  let ?rel = "[(''bullseye'', ''11''), (''bookworm'', ''12'')]"
  let ?deb_archs = "[(''amd64'', [(''PACKAGE_ARCH'', ''amd64'')]),
                     (''arm64'', [(''PACKAGE_ARCH'', ''arm64'')])]"
  let ?linux_archs = "[(''amd64'', [(''DOTNET_ARCH'', ''x64''), (''PACKAGE_ARCH'', ''amd64'')])]"
  note N = validation_order [where E = ?E and cfg = example_configurations
      and ?argv0.0 = "''build.py''" and raw = "''v10.9.0''" and bt = "''nosuch''"
      and rest = "[]" and w = "[]"]
  note M = validation_order [where E = ?E and cfg = misconfigured_configurations
      and ?argv0.0 = "''build.py''" and raw = "''v10.9.0''" and bt = "''snap''"
      and rest = "[''amd64'']" and w = "[]"]
  note A = validation_order [where E = ?E and cfg = example_configurations
      and ?argv0.0 = "''build.py''" and raw = "''v10.9.0''" and bt = "''debian''"
      and rest = "[''sparc'', ''bookworm'']" and w = "[]" and f = Build_package_deb
      and releases = ?rel and ver = "Some ''bookworm''" and os_version = "''12''"
      and archmaps = ?deb_archs and arch = "Some ''sparc''"]
  note V = validation_order [where E = ?E and cfg = example_configurations
      and raw = "''v10.9.0''" and bt = "''debian''" and w = "[]"
      and releases = ?rel and ver = "Some ''trixie''" and arch = "Some ''sparc''"]
  note L = validation_order [where E = ?E and cfg = example_configurations
      and raw = "''v10.9.0''" and bt = "''linux''" and w = "[]"
      and archmaps = ?linux_archs and arch = None and ver = None
      and label = "''Linux''" and dotnet_type = "''linux''"]
  have hn: "''nosuch'' \<notin> set (keys example_configurations)"
    by (simp add: example_simps)
  have hm: "''snap'' \<in> set (keys misconfigured_configurations)
      \<and> configured_function misconfigured_configurations ''snap'' = None"
    by (simp add: misconfigured_configurations_def example_simps)
  have hc: "''debian'' \<in> set (keys example_configurations)
      \<and> configured_function example_configurations ''debian'' = Some Build_package_deb
      \<and> ''v10.9.0'' \<noteq> ''master''"
    by (simp add: example_simps)
  have ha: "''debian'' \<in> set (keys example_configurations)
      \<and> conf example_configurations ''debian'' ''releases'' cfg_releases = Inr ?rel
      \<and> lookup ?rel (Some ''bookworm'') = Some ''12''
      \<and> conf example_configurations ''debian'' ''archmaps'' cfg_archmaps = Inr ?deb_archs
      \<and> lookup ?deb_archs (Some ''sparc'') = None"
    by (simp add: example_simps lookup_def)
  have hv: "''debian'' \<in> set (keys example_configurations)
      \<and> conf example_configurations ''debian'' ''releases'' cfg_releases = Inr ?rel
      \<and> lookup ?rel (Some ''trixie'') = None"
    by (simp add: example_simps lookup_def)
  have hl: "conf example_configurations ''linux'' ''archmaps'' cfg_archmaps = Inr ?linux_archs
      \<and> lookup ?linux_archs None = None"
    by (simp add: example_simps lookup_def)
  have c1: "script ?E (Inr example_configurations) ''build.py'' [''v10.9.0'', ''nosuch''] [] =
     (Inl (SystemExit 1),
      [Log ''Error: The specified build type 'nosuch' is not valid'',
       Log [],
       Log ''build.py JELLYFIN_VERSION BUILD_TYPE [BUILD_ARCH] [BUILD_VERSION]'',
       Log ''  JELLYFIN_VERSION: The Jellyfin version being built'',
       Log ''    * Stable releases should be tag names with a 'v' e.g. v10.9.0'',
       Log ''    * Unstable releases should be 'master' or a date-to-the-hour version e.g. 2024021600'',
       Log ''  BUILD_TYPE: The type of build to execute'',
       Log ''    * Valid options are: debian, fedora, linux, portable, docker'',
       Log ''  BUILD_ARCH: The CPU architecture of the build'',
       Log ''    * Valid options are: <empty> [portable/docker only], amd64, arm64, armhf'',
       Log ''  BUILD_VERSION: A valid OS distribution version (.deb/.rpm build types only)''])"
    using N [THEN conjunct1, THEN mp, OF hn]
    by (simp add: usage_def quoted_def example_configurations_def keys_def)
  have c2: "script ?E (Inr misconfigured_configurations) ''build.py''
       [''v10.9.0'', ''snap'', ''amd64''] [] =
     (Inl (SystemExit 1),
      [Log ''Error: The specified valid build type 'snap' does not define a valid build function'',
       Log ''This is a misconfiguration of the YAML or the build script; please report a bug!''])"
    using M [THEN conjunct2, THEN conjunct1, THEN mp, OF hm] by (simp add: quoted_def)
  have c3: "script ?E (Inr example_configurations) ''build.py''
       [''v10.9.0'', ''debian'', ''sparc'', ''bookworm''] [] =
     (Inl (SystemExit 1),
      [Log ''> Building an sparc debian .deb package...'', Log [],
       Log ''Invalid/unsupported arguments: sparc is not a valid debian bookworm architecture in dict_keys(['amd64', 'arm64'])''])"
    using A [THEN conjunct2, THEN conjunct2, THEN conjunct1, THEN mp, OF hc]
      A [THEN conjunct2, THEN conjunct2, THEN conjunct2, THEN conjunct2, THEN conjunct1,
         THEN mp, OF ha]
    by (simp add: optional_argv_def argv_def fmt_def dict_keys_def repr_simps Let_def keys_def)
  have c4: "build_package_deb ?E example_configurations ''v10.9.0'' ''debian''
       (Some ''sparc'') (Some ''trixie'') [] =
     (Inl (SystemExit 1),
      [Log ''> Building an sparc debian .deb package...'', Log [],
       Log ''Invalid/unsupported arguments: trixie is not a valid debian version in dict_keys(['bullseye', 'bookworm'])''])"
    using V [THEN conjunct2, THEN conjunct2, THEN conjunct2, THEN conjunct1, THEN mp, OF hv]
    by (simp add: fmt_def dict_keys_def repr_simps Let_def keys_def)
  have c5: "build_archive ''Linux'' ''linux'' ?E example_configurations
       ''v10.9.0'' ''linux'' None None [] =
     (Inl (SystemExit 1),
      [Log ''> Building a portable None Linux archive...'', Log [],
       Log ''Invalid/unsupported arguments: None is not a valid linux None architecture in dict_keys(['amd64'])''])"
    using L [THEN conjunct2, THEN conjunct2, THEN conjunct2, THEN conjunct2, THEN conjunct2,
             THEN mp, OF hl]
    by (simp add: fmt_def dict_keys_def repr_simps Let_def keys_def)
  show ?thesis by (intro conjI) (rule c1, rule c2, rule c3, rule c4, rule c5)
qed

section \<open>The version in the runs of the build functions\<close>

lemma docker_run_commands:
  assumes am: "conf cfg ''docker'' ''archmaps'' cfg_archmaps = Inr am"
    and df: "conf cfg bt ''dockerfile'' cfg_dockerfile = Inr df"
    and name: "conf cfg ''docker'' ''imagename'' cfg_imagename = Inr name"
    and vars: "\<forall>arch \<in> set (keys am).
        archmap cfg ''docker'' arch ''PACKAGE_ARCH'' = Inr (P arch)
        \<and> archmap cfg ''docker'' arch ''DOTNET_ARCH'' = Inr (D arch)
        \<and> archmap cfg ''docker'' arch ''QEMU_ARCH'' = Inr (Q arch)
        \<and> archmap cfg ''docker'' arch ''IMAGE_ARCH'' = Inr (I arch)"
  shows "commands (snd (build_docker E cfg raw bt a b w)) =
      commands w
      @ concat (map (\<lambda>arch.
          [docker_run_cmd @ '' --privileged multiarch/qemu-user-static:register --reset'',
           docker_build_cmd @ '' --build-arg PACKAGE_ARCH='' @ P arch
             @ '' --build-arg DOTNET_ARCH='' @ D arch
             @ '' --build-arg QEMU_ARCH='' @ Q arch
             @ '' --build-arg IMAGE_ARCH='' @ I arch
             @ '' --build-arg JELLYFIN_VERSION='' @ strip_version raw
             @ '' --file '' @ repo_root_dir E @ ''/'' @ df
             @ '' --tag '' @ name @ '':'' @ strip_version raw @ ''-'' @ arch
             @ (if CHR ''v'' \<in> set raw then ''.'' @ now_second E else [])
             @ '' '' @ repo_root_dir E,
           ''docker image tag '' @ name @ '':'' @ strip_version raw @ ''-'' @ arch
             @ (if CHR ''v'' \<in> set raw then ''.'' @ now_second E else [])
             @ '' ghcr.io/'' @ name @ '':'' @ strip_version raw @ ''-'' @ arch
             @ (if CHR ''v'' \<in> set raw then ''.'' @ now_second E else [])])
          (keys am))
      @ ''docker login 2>&1''
      # map (\<lambda>arch. ''docker push '' @ name @ '':'' @ strip_version raw @ ''-'' @ arch
              @ (if CHR ''v'' \<in> set raw then ''.'' @ now_second E else []) @ '' 2>&1'')
          (keys am)"
proof -
  let ?fl = "classify raw" and ?v = "strip_version raw" and ?d = "now_second E"
  have iv: "\<And>arch. arch \<in> set (keys am) \<Longrightarrow>
      docker_image_vars cfg ?fl ?v ?d arch =
        Inr (P arch, D arch, Q arch, I arch, image_name name ?fl ?v ?d arch)"
    using vars by (simp add: docker_image_vars_def name)
  then have ex: "\<forall>arch \<in> set (keys am). \<exists>P D Q I.
      docker_image_vars cfg ?fl ?v ?d arch = Inr (P, D, Q, I, image_name name ?fl ?v ?d arch)"
    by blast
  from build_images_ready [OF ex, of E df "[]" "[]" "log [] (log ''> Building Docker images...'' w)"]
  obtain w' where
    loop: "build_images (build_image E cfg df ?fl ?v ?d) (keys am) [] []
             (log [] (log ''> Building Docker images...'' w)) =
           (Inr (map (image_name name ?fl ?v ?d) (keys am),
                 map (\<lambda>arch. ''ghcr.io/'' @ image_name name ?fl ?v ?d arch) (keys am)), w')"
    and cw: "commands w' = commands w @
        concat (map (\<lambda>arch. commands (snd (build_image E cfg df ?fl ?v ?d arch []))) (keys am))"
    by auto
  have tag: "\<And>arch. image_name name ?fl ?v ?d arch =
      name @ '':'' @ strip_version raw @ ''-'' @ arch
        @ (if CHR ''v'' \<in> set raw then ''.'' @ now_second E else [])"
    by (simp add: image_name_def classify_def contains_char_def)
  have block: "\<And>arch. arch \<in> set (keys am) \<Longrightarrow>
      commands (snd (build_image E cfg df ?fl ?v ?d arch [])) =
        [docker_run_cmd @ '' --privileged multiarch/qemu-user-static:register --reset'',
           docker_build_cmd @ '' --build-arg PACKAGE_ARCH='' @ P arch
             @ '' --build-arg DOTNET_ARCH='' @ D arch
             @ '' --build-arg QEMU_ARCH='' @ Q arch
             @ '' --build-arg IMAGE_ARCH='' @ I arch
             @ '' --build-arg JELLYFIN_VERSION='' @ strip_version raw
             @ '' --file '' @ repo_root_dir E @ ''/'' @ df
             @ '' --tag '' @ name @ '':'' @ strip_version raw @ ''-'' @ arch
             @ (if CHR ''v'' \<in> set raw then ''.'' @ now_second E else [])
             @ '' '' @ repo_root_dir E,
           ''docker image tag '' @ name @ '':'' @ strip_version raw @ ''-'' @ arch
             @ (if CHR ''v'' \<in> set raw then ''.'' @ now_second E else [])
             @ '' ghcr.io/'' @ name @ '':'' @ strip_version raw @ ''-'' @ arch
             @ (if CHR ''v'' \<in> set raw then ''.'' @ now_second E else [])]"
    using build_image_ok [OF iv, of _ E df "[]"]
    by (simp add: tag qemu_reset_cmd_def docker_image_build_cmd_def)
  have blocks: "concat (map (\<lambda>arch. commands (snd (build_image E cfg df ?fl ?v ?d arch [])))
        (keys am)) =
      concat (map (\<lambda>arch.
          [docker_run_cmd @ '' --privileged multiarch/qemu-user-static:register --reset'',
           docker_build_cmd @ '' --build-arg PACKAGE_ARCH='' @ P arch
             @ '' --build-arg DOTNET_ARCH='' @ D arch
             @ '' --build-arg QEMU_ARCH='' @ Q arch
             @ '' --build-arg IMAGE_ARCH='' @ I arch
             @ '' --build-arg JELLYFIN_VERSION='' @ strip_version raw
             @ '' --file '' @ repo_root_dir E @ ''/'' @ df
             @ '' --tag '' @ name @ '':'' @ strip_version raw @ ''-'' @ arch
             @ (if CHR ''v'' \<in> set raw then ''.'' @ now_second E else [])
             @ '' '' @ repo_root_dir E,
           ''docker image tag '' @ name @ '':'' @ strip_version raw @ ''-'' @ arch
             @ (if CHR ''v'' \<in> set raw then ''.'' @ now_second E else [])
             @ '' ghcr.io/'' @ name @ '':'' @ strip_version raw @ ''-'' @ arch
             @ (if CHR ''v'' \<in> set raw then ''.'' @ now_second E else [])])
          (keys am))"
    by (rule arg_cong [where f = concat], rule map_cong [OF refl], rule block)
  have pushes: "map (\<lambda>i. ''docker push '' @ i @ '' 2>&1'')
        (map (image_name name ?fl ?v ?d) (keys am)) =
      map (\<lambda>arch. ''docker push '' @ name @ '':'' @ strip_version raw @ ''-'' @ arch
              @ (if CHR ''v'' \<in> set raw then ''.'' @ now_second E else []) @ '' 2>&1'')
          (keys am)"
    by (simp add: tag)
  have "commands (snd (build_docker E cfg raw bt a b w)) =
      commands w'
      @ ''docker login 2>&1''
      # map (\<lambda>i. ''docker push '' @ i @ '' 2>&1'') (map (image_name name ?fl ?v ?d) (keys am))"
    by (simp add: build_docker_def Let_def am df loop publish_raises commands_push_images)
  then show ?thesis
    unfolding cw blocks pushes by simp
qed

lemma deb_run:
  assumes "bt \<in> set (keys cfg)"
    and "conf cfg bt ''releases'' cfg_releases = Inr releases"
    and "lookup releases ver = Some os_version"
    and "conf cfg bt ''archmaps'' cfg_archmaps = Inr archmaps"
    and "lookup archmaps arch = Some entry"
    and "getitem entry ''PACKAGE_ARCH'' = Inr PACKAGE_ARCH"
    and "conf cfg bt ''dockerfile'' cfg_dockerfile = Inr df"
    and "conf cfg bt ''cross-gcc'' cfg_cross_gcc = Inr cross"
    and "getitem cross (fmt ver) = Inr crossgccvers"
    and "changelog_in E = Inr template"
    and "str_format E template
           [(''package_version'', strip_version raw),
            (''package_build'', take 3 bt @ replace_char CHR ''.'' os_version),
            (''release_comment'',
             if CHR ''v'' \<in> set raw
             then ''Jellyfin release '' @ raw
                    @ '', see https://github.com/jellyfin/jellyfin/releases/'' @ raw
                    @ '' for details.''
             else ''Jellyin unstable release '' @ raw @ ''.''),
            (''release_date'', now_rfc2822 E)] = Inr changelog"
    and "conf cfg bt ''imagename'' cfg_imagename = Inr name"
  shows "build_package_deb E cfg raw bt arch ver w =
    (Inr (),
     w @ [Log (''> Building an '' @ fmt arch @ '' '' @ bt @ '' .deb package...''), Log [],
          WriteFile (repo_root_dir E @ ''/debian/changelog'') changelog,
          System (docker_build_cmd @ '' --build-arg PACKAGE_TYPE='' @ bt
                    @ '' --build-arg PACKAGE_VERSION='' @ os_version
                    @ '' --build-arg PACKAGE_ARCH='' @ PACKAGE_ARCH
                    @ '' --build-arg GCC_VERSION='' @ crossgccvers
                    @ '' --file '' @ repo_root_dir E @ ''/'' @ df
                    @ '' --tag '' @ name @ ''-'' @ strip_version raw @ ''_'' @ fmt arch
                    @ ''-'' @ bt @ ''-'' @ fmt ver @ '' '' @ repo_root_dir E),
          System (docker_run_cmd @ '' --volume '' @ repo_root_dir E @ '':/jellyfin''
                    @ '' --volume '' @ repo_root_dir E @ ''/out/'' @ bt @ '':/dist''
                    @ '' --env JELLYFIN_VERSION='' @ strip_version raw
                    @ '' --name '' @ name @ ''-'' @ strip_version raw @ ''_'' @ fmt arch
                    @ ''-'' @ bt @ ''-'' @ fmt ver
                    @ '' '' @ name @ ''-'' @ strip_version raw @ ''_'' @ fmt arch
                    @ ''-'' @ bt @ ''-'' @ fmt ver)])"
  using assms
  by (simp add: build_package_deb_def deb_arguments_def deb_prepare_def release_comment_def
      contains_char_def log_def Let_def)

lemma archive_run:
  assumes "conf cfg bt ''archmaps'' cfg_archmaps = Inr archmaps"
    and "lookup archmaps arch = Some entry"
    and "getitem entry ''PACKAGE_ARCH'' = Inr PACKAGE_ARCH"
    and "getitem entry ''DOTNET_ARCH'' = Inr DOTNET_ARCH"
    and "conf cfg bt ''dockerfile'' cfg_dockerfile = Inr df"
    and "conf cfg bt ''imagename'' cfg_imagename = Inr name"
    and "conf cfg bt ''archivetypes'' cfg_archivetypes = Inr archivetypes"
  shows "build_archive label dotnet_type E cfg raw bt arch ver w =
    (Inr (),
     w @ [Log (''> Building a portable '' @ fmt arch @ '' '' @ label @ '' archive...''), Log [],
          System (docker_build_cmd @ '' --file '' @ repo_root_dir E @ ''/'' @ df
                    @ '' --tag '' @ name @ ''-'' @ strip_version raw @ ''_'' @ fmt arch
                    @ ''-'' @ bt @ '' '' @ repo_root_dir E),
          System (docker_run_cmd @ '' --volume '' @ repo_root_dir E @ '':/jellyfin''
                    @ '' --volume '' @ repo_root_dir E @ ''/out/'' @ bt @ '':/dist''
                    @ '' --env JELLYFIN_VERSION='' @ strip_version raw
                    @ '' --env BUILD_TYPE='' @ bt
                    @ '' --env PACKAGE_ARCH='' @ PACKAGE_ARCH
                    @ '' --env DOTNET_TYPE='' @ dotnet_type
                    @ '' --env DOTNET_ARCH='' @ DOTNET_ARCH
                    @ '' --env ARCHIVE_TYPES='' @ archivetypes
                    @ '' --name '' @ name @ ''-'' @ strip_version raw @ ''_'' @ fmt arch
                    @ ''-'' @ bt
                    @ '' '' @ name @ ''-'' @ strip_version raw @ ''_'' @ fmt arch
                    @ ''-'' @ bt)])"
  using assms
  by (simp add: build_archive_def archive_arguments_def log_def Let_def)

text \<open>
  C5. A version is classified stable exactly when the version as passed in contains
  the character \<open>v\<close>: the flags \<^verbatim>\<open>is_latest\<close> and \<^verbatim>\<open>version_suffix\<close> are that test and
  \<^verbatim>\<open>is_unstable\<close> is its negation. The test is made before the replacement: made after
  it, every version would be unstable. \<^verbatim>\<open>v10.9.0\<close> is stable and becomes \<^verbatim>\<open>10.9.0\<close>;
  \<^verbatim>\<open>2024021600\<close> is unstable and stays as it is; \<^verbatim>\<open>master\<close>, which the script replaces
  by a string of digits, is unstable as well. In the runs of the two functions that
  classify: \<^verbatim>\<open>build_docker\<close> tags, builds and pushes every image under the replaced
  version, with the date suffix exactly when the version as passed in holds a \<open>v\<close>;
  \<^verbatim>\<open>build_package_deb\<close> formats the changelog with the release comment chosen by the
  same test and naming the version as passed in, and names its image by the replaced
  version.
\<close>

theorem stable_iff_raw_has_release_marker:
  "is_latest (classify raw) = (CHR ''v'' \<in> set raw)
   \<and> version_suffix (classify raw) = (CHR ''v'' \<in> set raw)
   \<and> is_unstable (classify raw) = (CHR ''v'' \<notin> set raw)
   \<and> is_unstable (classify (strip_version raw))
   \<and> release_comment raw =
       (if CHR ''v'' \<in> set raw
        then ''Jellyfin release '' @ raw
               @ '', see https://github.com/jellyfin/jellyfin/releases/'' @ raw @ '' for details.''
        else ''Jellyin unstable release '' @ raw @ ''.'')
   \<and> classify ''v10.9.0'' = \<lparr>is_latest = True, is_unstable = False, version_suffix = True\<rparr>
   \<and> strip_version ''v10.9.0'' = ''10.9.0''
   \<and> classify ''2024021600'' = \<lparr>is_latest = False, is_unstable = True, version_suffix = False\<rparr>
   \<and> strip_version ''2024021600'' = ''2024021600''
   \<and> classify ''master'' = \<lparr>is_latest = False, is_unstable = True, version_suffix = False\<rparr>
   \<and> (conf cfg ''docker'' ''archmaps'' cfg_archmaps = Inr am
        \<and> conf cfg bt ''dockerfile'' cfg_dockerfile = Inr df
        \<and> conf cfg ''docker'' ''imagename'' cfg_imagename = Inr name
        \<and> (\<forall>arch \<in> set (keys am).
              archmap cfg ''docker'' arch ''PACKAGE_ARCH'' = Inr (P arch)
              \<and> archmap cfg ''docker'' arch ''DOTNET_ARCH'' = Inr (D arch)
              \<and> archmap cfg ''docker'' arch ''QEMU_ARCH'' = Inr (Q arch)
              \<and> archmap cfg ''docker'' arch ''IMAGE_ARCH'' = Inr (I arch)) \<longrightarrow>
      commands (snd (build_docker E cfg raw bt a b w)) =
        commands w
        @ concat (map (\<lambda>arch.
            [docker_run_cmd @ '' --privileged multiarch/qemu-user-static:register --reset'',
             docker_build_cmd @ '' --build-arg PACKAGE_ARCH='' @ P arch
               @ '' --build-arg DOTNET_ARCH='' @ D arch
               @ '' --build-arg QEMU_ARCH='' @ Q arch
               @ '' --build-arg IMAGE_ARCH='' @ I arch
               @ '' --build-arg JELLYFIN_VERSION='' @ strip_version raw
               @ '' --file '' @ repo_root_dir E @ ''/'' @ df
               @ '' --tag '' @ name @ '':'' @ strip_version raw @ ''-'' @ arch
               @ (if CHR ''v'' \<in> set raw then ''.'' @ now_second E else [])
               @ '' '' @ repo_root_dir E,
             ''docker image tag '' @ name @ '':'' @ strip_version raw @ ''-'' @ arch
               @ (if CHR ''v'' \<in> set raw then ''.'' @ now_second E else [])
               @ '' ghcr.io/'' @ name @ '':'' @ strip_version raw @ ''-'' @ arch
               @ (if CHR ''v'' \<in> set raw then ''.'' @ now_second E else [])])
            (keys am))
        @ ''docker login 2>&1''
        # map (\<lambda>arch. ''docker push '' @ name @ '':'' @ strip_version raw @ ''-'' @ arch
                @ (if CHR ''v'' \<in> set raw then ''.'' @ now_second E else []) @ '' 2>&1'')
            (keys am))
   \<and> (bt \<in> set (keys cfg)
        \<and> conf cfg bt ''releases'' cfg_releases = Inr releases
        \<and> lookup releases ver = Some os_version
        \<and> conf cfg bt ''archmaps'' cfg_archmaps = Inr archmaps
        \<and> lookup archmaps arch = Some entry
        \<and> getitem entry ''PACKAGE_ARCH'' = Inr PACKAGE_ARCH
        \<and> conf cfg bt ''dockerfile'' cfg_dockerfile = Inr df
        \<and> conf cfg bt ''cross-gcc'' cfg_cross_gcc = Inr cross
        \<and> getitem cross (fmt ver) = Inr crossgccvers
        \<and> changelog_in E = Inr template
        \<and> str_format E template
           [(''package_version'', strip_version raw),
            (''package_build'', take 3 bt @ replace_char CHR ''.'' os_version),
            (''release_comment'',
             if CHR ''v'' \<in> set raw
             then ''Jellyfin release '' @ raw
                    @ '', see https://github.com/jellyfin/jellyfin/releases/'' @ raw
                    @ '' for details.''
             else ''Jellyin unstable release '' @ raw @ ''.''),
            (''release_date'', now_rfc2822 E)] = Inr changelog
        \<and> conf cfg bt ''imagename'' cfg_imagename = Inr name \<longrightarrow>
      build_package_deb E cfg raw bt arch ver w =
      (Inr (),
       w @ [Log (''> Building an '' @ fmt arch @ '' '' @ bt @ '' .deb package...''), Log [],
            WriteFile (repo_root_dir E @ ''/debian/changelog'') changelog,
            System (docker_build_cmd @ '' --build-arg PACKAGE_TYPE='' @ bt
                      @ '' --build-arg PACKAGE_VERSION='' @ os_version
                      @ '' --build-arg PACKAGE_ARCH='' @ PACKAGE_ARCH
                      @ '' --build-arg GCC_VERSION='' @ crossgccvers
                      @ '' --file '' @ repo_root_dir E @ ''/'' @ df
                      @ '' --tag '' @ name @ ''-'' @ strip_version raw @ ''_'' @ fmt arch
                      @ ''-'' @ bt @ ''-'' @ fmt ver @ '' '' @ repo_root_dir E),
            System (docker_run_cmd @ '' --volume '' @ repo_root_dir E @ '':/jellyfin''
                      @ '' --volume '' @ repo_root_dir E @ ''/out/'' @ bt @ '':/dist''
                      @ '' --env JELLYFIN_VERSION='' @ strip_version raw
                      @ '' --name '' @ name @ ''-'' @ strip_version raw @ ''_'' @ fmt arch
                      @ ''-'' @ bt @ ''-'' @ fmt ver
                      @ '' '' @ name @ ''-'' @ strip_version raw @ ''_'' @ fmt arch
                      @ ''-'' @ bt @ ''-'' @ fmt ver)]))"
  by (intro conjI;
      ((intro impI, elim conjE, (rule docker_run_commands deb_run; assumption))
       | (simp add: classify_def strip_version_def contains_char_def replace_char_def
            release_comment_def)))

text \<open>
  The same on the example: the container images for \<^verbatim>\<open>v10.9.0\<close> (dated tags) and for
  \<^verbatim>\<open>2024021600\<close> (plain tags), and the Debian changelog for both.
\<close>

theorem stable_iff_raw_has_release_marker_witness:
  "commands (snd (build_docker (example_env failing) example_configurations ''v10.9.0'' ''docker''
         None None [])) =
     [''docker run --rm --privileged multiarch/qemu-user-static:register --reset'',
      ''docker build --progress=plain --no-cache --build-arg PACKAGE_ARCH=amd64 --build-arg DOTNET_ARCH=x64 --build-arg QEMU_ARCH=x86_64 --build-arg IMAGE_ARCH=amd64 --build-arg JELLYFIN_VERSION=10.9.0 --file /src/docker/Dockerfile --tag jellyfin/jellyfin:10.9.0-amd64.20240216-093000 /src'',
      ''docker image tag jellyfin/jellyfin:10.9.0-amd64.20240216-093000 ghcr.io/jellyfin/jellyfin:10.9.0-amd64.20240216-093000'',
      ''docker run --rm --privileged multiarch/qemu-user-static:register --reset'',
      ''docker build --progress=plain --no-cache --build-arg PACKAGE_ARCH=arm64 --build-arg DOTNET_ARCH=arm64 --build-arg QEMU_ARCH=aarch64 --build-arg IMAGE_ARCH=arm64v8 --build-arg JELLYFIN_VERSION=10.9.0 --file /src/docker/Dockerfile --tag jellyfin/jellyfin:10.9.0-arm64.20240216-093000 /src'',
      ''docker image tag jellyfin/jellyfin:10.9.0-arm64.20240216-093000 ghcr.io/jellyfin/jellyfin:10.9.0-arm64.20240216-093000'',
      ''docker login 2>&1'',
      ''docker push jellyfin/jellyfin:10.9.0-amd64.20240216-093000 2>&1'',
      ''docker push jellyfin/jellyfin:10.9.0-arm64.20240216-093000 2>&1'']
   \<and> commands (snd (build_docker (example_env failing) example_configurations ''2024021600'' ''docker''
         None None [])) =
     [''docker run --rm --privileged multiarch/qemu-user-static:register --reset'',
      ''docker build --progress=plain --no-cache --build-arg PACKAGE_ARCH=amd64 --build-arg DOTNET_ARCH=x64 --build-arg QEMU_ARCH=x86_64 --build-arg IMAGE_ARCH=amd64 --build-arg JELLYFIN_VERSION=2024021600 --file /src/docker/Dockerfile --tag jellyfin/jellyfin:2024021600-amd64 /src'',
      ''docker image tag jellyfin/jellyfin:2024021600-amd64 ghcr.io/jellyfin/jellyfin:2024021600-amd64'',
      ''docker run --rm --privileged multiarch/qemu-user-static:register --reset'',
      ''docker build --progress=plain --no-cache --build-arg PACKAGE_ARCH=arm64 --build-arg DOTNET_ARCH=arm64 --build-arg QEMU_ARCH=aarch64 --build-arg IMAGE_ARCH=arm64v8 --build-arg JELLYFIN_VERSION=2024021600 --file /src/docker/Dockerfile --tag jellyfin/jellyfin:2024021600-arm64 /src'',
      ''docker image tag jellyfin/jellyfin:2024021600-arm64 ghcr.io/jellyfin/jellyfin:2024021600-arm64'',
      ''docker login 2>&1'',
      ''docker push jellyfin/jellyfin:2024021600-amd64 2>&1'',
      ''docker push jellyfin/jellyfin:2024021600-arm64 2>&1'']
   \<and> build_package_deb (changelog_env failing) example_configurations ''v10.9.0'' ''debian''
         (Some ''amd64'') (Some ''bookworm'') [] =
     (Inr (),
      [Log ''> Building an amd64 debian .deb package...'', Log [],
       WriteFile ''/src/debian/changelog''
         ''Jellyfin release v10.9.0, see https://github.com/jellyfin/jellyfin/releases/v10.9.0 for details.'',
       System ''docker build --progress=plain --no-cache --build-arg PACKAGE_TYPE=debian --build-arg PACKAGE_VERSION=12 --build-arg PACKAGE_ARCH=amd64 --build-arg GCC_VERSION=12 --file /src/debian/docker/Dockerfile --tag jellyfin-builder-debian-10.9.0_amd64-debian-bookworm /src'',
       System ''docker run --rm --volume /src:/jellyfin --volume /src/out/debian:/dist --env JELLYFIN_VERSION=10.9.0 --name jellyfin-builder-debian-10.9.0_amd64-debian-bookworm jellyfin-builder-debian-10.9.0_amd64-debian-bookworm''])
   \<and> build_package_deb (changelog_env failing) example_configurations ''2024021600'' ''debian''
         (Some ''amd64'') (Some ''bookworm'') [] =
     (Inr (),
      [Log ''> Building an amd64 debian .deb package...'', Log [],
       WriteFile ''/src/debian/changelog''
         ''Jellyin unstable release 2024021600.'',
       System ''docker build --progress=plain --no-cache --build-arg PACKAGE_TYPE=debian --build-arg PACKAGE_VERSION=12 --build-arg PACKAGE_ARCH=amd64 --build-arg GCC_VERSION=12 --file /src/debian/docker/Dockerfile --tag jellyfin-builder-debian-2024021600_amd64-debian-bookworm /src'',
       System ''docker run --rm --volume /src:/jellyfin --volume /src/out/debian:/dist --env JELLYFIN_VERSION=2024021600 --name jellyfin-builder-debian-2024021600_amd64-debian-bookworm jellyfin-builder-debian-2024021600_amd64-debian-bookworm''])"
proof -
  let ?am = "[(''amd64'', [(''DOTNET_ARCH'', ''x64''), (''IMAGE_ARCH'', ''amd64''),
                           (''PACKAGE_ARCH'', ''amd64''), (''QEMU_ARCH'', ''x86_64'')]),
              (''arm64'', [(''DOTNET_ARCH'', ''arm64''), (''IMAGE_ARCH'', ''arm64v8''),
                           (''PACKAGE_ARCH'', ''arm64''), (''QEMU_ARCH'', ''aarch64'')])]"
  let ?P = "\<lambda>arch. if arch = ''amd64'' then ''amd64'' else ''arm64''"
  let ?D = "\<lambda>arch. if arch = ''amd64'' then ''x64'' else ''arm64''"
  let ?Q = "\<lambda>arch. if arch = ''amd64'' then ''x86_64'' else ''aarch64''"
  let ?I = "\<lambda>arch. if arch = ''amd64'' then ''amd64'' else ''arm64v8''"
  let ?rel = "[(''bullseye'', ''11''), (''bookworm'', ''12'')]"
  let ?gcc = "[(''bullseye'', ''10''), (''bookworm'', ''12'')]"
  let ?deb_archs = "[(''amd64'', [(''PACKAGE_ARCH'', ''amd64'')]),
                     (''arm64'', [(''PACKAGE_ARCH'', ''arm64'')])]"
  let ?linux_archs = "[(''amd64'', [(''DOTNET_ARCH'', ''x64''), (''PACKAGE_ARCH'', ''amd64'')])]"
  have docker_ready: "conf example_configurations ''docker'' ''archmaps'' cfg_archmaps = Inr ?am
      \<and> conf example_configurations ''docker'' ''dockerfile'' cfg_dockerfile = Inr ''docker/Dockerfile''
      \<and> conf example_configurations ''docker'' ''imagename'' cfg_imagename = Inr ''jellyfin/jellyfin''
      \<and> (\<forall>arch \<in> set (keys ?am).
            archmap example_configurations ''docker'' arch ''PACKAGE_ARCH'' = Inr (?P arch)
            \<and> archmap example_configurations ''docker'' arch ''DOTNET_ARCH'' = Inr (?D arch)
            \<and> archmap example_configurations ''docker'' arch ''QEMU_ARCH'' = Inr (?Q arch)
            \<and> archmap example_configurations ''docker'' arch ''IMAGE_ARCH'' = Inr (?I arch))"
    by (simp add: example_simps)
  have deb_stable: "''debian'' \<in> set (keys example_configurations)
      \<and> conf example_configurations ''debian'' ''releases'' cfg_releases = Inr ?rel
      \<and> lookup ?rel (Some ''bookworm'') = Some ''12''
      \<and> conf example_configurations ''debian'' ''archmaps'' cfg_archmaps = Inr ?deb_archs
      \<and> lookup ?deb_archs (Some ''amd64'') = Some [(''PACKAGE_ARCH'', ''amd64'')]
      \<and> getitem [(''PACKAGE_ARCH'', ''amd64'')] ''PACKAGE_ARCH'' = Inr ''amd64''
      \<and> conf example_configurations ''debian'' ''dockerfile'' cfg_dockerfile =
            Inr ''debian/docker/Dockerfile''
      \<and> conf example_configurations ''debian'' ''cross-gcc'' cfg_cross_gcc = Inr ?gcc
      \<and> getitem ?gcc (fmt (Some ''bookworm'')) = Inr ''12''
      \<and> changelog_in (changelog_env failing) = Inr ''{release_comment}''
      \<and> str_format (changelog_env failing) ''{release_comment}''
           [(''package_version'', strip_version ''v10.9.0''),
            (''package_build'', take 3 ''debian'' @ replace_char CHR ''.'' ''12''),
            (''release_comment'',
             if CHR ''v'' \<in> set ''v10.9.0''
             then ''Jellyfin release '' @ ''v10.9.0''
                    @ '', see https://github.com/jellyfin/jellyfin/releases/'' @ ''v10.9.0''
                    @ '' for details.''
             else ''Jellyin unstable release '' @ ''v10.9.0'' @ ''.''),
            (''release_date'', now_rfc2822 (changelog_env failing))] =
          Inr ''Jellyfin release v10.9.0, see https://github.com/jellyfin/jellyfin/releases/v10.9.0 for details.''
      \<and> conf example_configurations ''debian'' ''imagename'' cfg_imagename =
            Inr ''jellyfin-builder-debian''"
    by (simp add: example_simps lookup_def fmt_def changelog_env_def format_field_def)
  have deb_unstable: "''debian'' \<in> set (keys example_configurations)
      \<and> conf example_configurations ''debian'' ''releases'' cfg_releases = Inr ?rel
      \<and> lookup ?rel (Some ''bookworm'') = Some ''12''
      \<and> conf example_configurations ''debian'' ''archmaps'' cfg_archmaps = Inr ?deb_archs
      \<and> lookup ?deb_archs (Some ''amd64'') = Some [(''PACKAGE_ARCH'', ''amd64'')]
      \<and> getitem [(''PACKAGE_ARCH'', ''amd64'')] ''PACKAGE_ARCH'' = Inr ''amd64''
      \<and> conf example_configurations ''debian'' ''dockerfile'' cfg_dockerfile =
            Inr ''debian/docker/Dockerfile''
      \<and> conf example_configurations ''debian'' ''cross-gcc'' cfg_cross_gcc = Inr ?gcc
      \<and> getitem ?gcc (fmt (Some ''bookworm'')) = Inr ''12''
      \<and> changelog_in (changelog_env failing) = Inr ''{release_comment}''
      \<and> str_format (changelog_env failing) ''{release_comment}''
           [(''package_version'', strip_version ''2024021600''),
            (''package_build'', take 3 ''debian'' @ replace_char CHR ''.'' ''12''),
            (''release_comment'',
             if CHR ''v'' \<in> set ''2024021600''
             then ''Jellyfin release '' @ ''2024021600''
                    @ '', see https://github.com/jellyfin/jellyfin/releases/'' @ ''2024021600''
                    @ '' for details.''
             else ''Jellyin unstable release '' @ ''2024021600'' @ ''.''),
            (''release_date'', now_rfc2822 (changelog_env failing))] =
          Inr ''Jellyin unstable release 2024021600.''
      \<and> conf example_configurations ''debian'' ''imagename'' cfg_imagename =
            Inr ''jellyfin-builder-debian''"
    by (simp add: example_simps lookup_def fmt_def changelog_env_def format_field_def)
  have c1: "commands (snd (build_docker (example_env failing) example_configurations ''v10.9.0'' ''docker''
         None None [])) =
     [''docker run --rm --privileged multiarch/qemu-user-static:register --reset'',
      ''docker build --progress=plain --no-cache --build-arg PACKAGE_ARCH=amd64 --build-arg DOTNET_ARCH=x64 --build-arg QEMU_ARCH=x86_64 --build-arg IMAGE_ARCH=amd64 --build-arg JELLYFIN_VERSION=10.9.0 --file /src/docker/Dockerfile --tag jellyfin/jellyfin:10.9.0-amd64.20240216-093000 /src'',
      ''docker image tag jellyfin/jellyfin:10.9.0-amd64.20240216-093000 ghcr.io/jellyfin/jellyfin:10.9.0-amd64.20240216-093000'',
      ''docker run --rm --privileged multiarch/qemu-user-static:register --reset'',
      ''docker build --progress=plain --no-cache --build-arg PACKAGE_ARCH=arm64 --build-arg DOTNET_ARCH=arm64 --build-arg QEMU_ARCH=aarch64 --build-arg IMAGE_ARCH=arm64v8 --build-arg JELLYFIN_VERSION=10.9.0 --file /src/docker/Dockerfile --tag jellyfin/jellyfin:10.9.0-arm64.20240216-093000 /src'',
      ''docker image tag jellyfin/jellyfin:10.9.0-arm64.20240216-093000 ghcr.io/jellyfin/jellyfin:10.9.0-arm64.20240216-093000'',
      ''docker login 2>&1'',
      ''docker push jellyfin/jellyfin:10.9.0-amd64.20240216-093000 2>&1'',
      ''docker push jellyfin/jellyfin:10.9.0-arm64.20240216-093000 2>&1'']"
    using stable_iff_raw_has_release_marker [where E = "example_env failing" and cfg = example_configurations
      and raw = "''v10.9.0''" and bt = "''docker''" and a = None and b = None and w = "[]"
      and am = ?am and df = "''docker/Dockerfile''" and name = "''jellyfin/jellyfin''"
      and P = ?P and D = ?D and Q = ?Q and I = ?I,
      THEN conjunct2, THEN conjunct2, THEN conjunct2, THEN conjunct2, THEN conjunct2, THEN conjunct2, THEN conjunct2, THEN conjunct2, THEN conjunct2, THEN conjunct2, THEN conjunct1, THEN mp, OF docker_ready]
    by (simp add: example_env_def keys_def fmt_def strip_version_def replace_char_def docker_build_cmd_def
        docker_run_cmd_def)
  have c2: "commands (snd (build_docker (example_env failing) example_configurations ''2024021600'' ''docker''
         None None [])) =
     [''docker run --rm --privileged multiarch/qemu-user-static:register --reset'',
      ''docker build --progress=plain --no-cache --build-arg PACKAGE_ARCH=amd64 --build-arg DOTNET_ARCH=x64 --build-arg QEMU_ARCH=x86_64 --build-arg IMAGE_ARCH=amd64 --build-arg JELLYFIN_VERSION=2024021600 --file /src/docker/Dockerfile --tag jellyfin/jellyfin:2024021600-amd64 /src'',
      ''docker image tag jellyfin/jellyfin:2024021600-amd64 ghcr.io/jellyfin/jellyfin:2024021600-amd64'',
      ''docker run --rm --privileged multiarch/qemu-user-static:register --reset'',
      ''docker build --progress=plain --no-cache --build-arg PACKAGE_ARCH=arm64 --build-arg DOTNET_ARCH=arm64 --build-arg QEMU_ARCH=aarch64 --build-arg IMAGE_ARCH=arm64v8 --build-arg JELLYFIN_VERSION=2024021600 --file /src/docker/Dockerfile --tag jellyfin/jellyfin:2024021600-arm64 /src'',
      ''docker image tag jellyfin/jellyfin:2024021600-arm64 ghcr.io/jellyfin/jellyfin:2024021600-arm64'',
      ''docker login 2>&1'',
      ''docker push jellyfin/jellyfin:2024021600-amd64 2>&1'',
      ''docker push jellyfin/jellyfin:2024021600-arm64 2>&1'']"
    using stable_iff_raw_has_release_marker [where E = "example_env failing" and cfg = example_configurations
      and raw = "''2024021600''" and bt = "''docker''" and a = None and b = None and w = "[]"
      and am = ?am and df = "''docker/Dockerfile''" and name = "''jellyfin/jellyfin''"
      and P = ?P and D = ?D and Q = ?Q and I = ?I,
      THEN conjunct2, THEN conjunct2, THEN conjunct2, THEN conjunct2, THEN conjunct2, THEN conjunct2, THEN conjunct2, THEN conjunct2, THEN conjunct2, THEN conjunct2, THEN conjunct1, THEN mp, OF docker_ready]
    by (simp add: example_env_def keys_def fmt_def strip_version_def replace_char_def docker_build_cmd_def
        docker_run_cmd_def)
  have c3: "build_package_deb (changelog_env failing) example_configurations ''v10.9.0'' ''debian''
         (Some ''amd64'') (Some ''bookworm'') [] =
     (Inr (),
      [Log ''> Building an amd64 debian .deb package...'', Log [],
       WriteFile ''/src/debian/changelog''
         ''Jellyfin release v10.9.0, see https://github.com/jellyfin/jellyfin/releases/v10.9.0 for details.'',
       System ''docker build --progress=plain --no-cache --build-arg PACKAGE_TYPE=debian --build-arg PACKAGE_VERSION=12 --build-arg PACKAGE_ARCH=amd64 --build-arg GCC_VERSION=12 --file /src/debian/docker/Dockerfile --tag jellyfin-builder-debian-10.9.0_amd64-debian-bookworm /src'',
       System ''docker run --rm --volume /src:/jellyfin --volume /src/out/debian:/dist --env JELLYFIN_VERSION=10.9.0 --name jellyfin-builder-debian-10.9.0_amd64-debian-bookworm jellyfin-builder-debian-10.9.0_amd64-debian-bookworm''])"
    using stable_iff_raw_has_release_marker [where E = "changelog_env failing" and cfg = example_configurations
      and raw = "''v10.9.0''" and bt = "''debian''" and arch = "Some ''amd64''"
      and ver = "Some ''bookworm''" and w = "[]" and releases = ?rel and os_version = "''12''"
      and archmaps = ?deb_archs and entry = "[(''PACKAGE_ARCH'', ''amd64'')]"
      and PACKAGE_ARCH = "''amd64''" and df = "''debian/docker/Dockerfile''" and cross = ?gcc
      and crossgccvers = "''12''" and template = "''{release_comment}''"
      and changelog = "''Jellyfin release v10.9.0, see https://github.com/jellyfin/jellyfin/releases/v10.9.0 for details.''"
      and name = "''jellyfin-builder-debian''",
      THEN conjunct2, THEN conjunct2, THEN conjunct2, THEN conjunct2, THEN conjunct2, THEN conjunct2, THEN conjunct2, THEN conjunct2, THEN conjunct2, THEN conjunct2, THEN conjunct2, THEN mp, OF deb_stable]
    by (simp add: example_env_def keys_def fmt_def strip_version_def replace_char_def docker_build_cmd_def
        docker_run_cmd_def changelog_env_def)
  have c4: "build_package_deb (changelog_env failing) example_configurations ''2024021600'' ''debian''
         (Some ''amd64'') (Some ''bookworm'') [] =
     (Inr (),
      [Log ''> Building an amd64 debian .deb package...'', Log [],
       WriteFile ''/src/debian/changelog''
         ''Jellyin unstable release 2024021600.'',
       System ''docker build --progress=plain --no-cache --build-arg PACKAGE_TYPE=debian --build-arg PACKAGE_VERSION=12 --build-arg PACKAGE_ARCH=amd64 --build-arg GCC_VERSION=12 --file /src/debian/docker/Dockerfile --tag jellyfin-builder-debian-2024021600_amd64-debian-bookworm /src'',
       System ''docker run --rm --volume /src:/jellyfin --volume /src/out/debian:/dist --env JELLYFIN_VERSION=2024021600 --name jellyfin-builder-debian-2024021600_amd64-debian-bookworm jellyfin-builder-debian-2024021600_amd64-debian-bookworm''])"
    using stable_iff_raw_has_release_marker [where E = "changelog_env failing" and cfg = example_configurations
      and raw = "''2024021600''" and bt = "''debian''" and arch = "Some ''amd64''"
      and ver = "Some ''bookworm''" and w = "[]" and releases = ?rel and os_version = "''12''"
      and archmaps = ?deb_archs and entry = "[(''PACKAGE_ARCH'', ''amd64'')]"
      and PACKAGE_ARCH = "''amd64''" and df = "''debian/docker/Dockerfile''" and cross = ?gcc
      and crossgccvers = "''12''" and template = "''{release_comment}''"
      and changelog = "''Jellyin unstable release 2024021600.''"
      and name = "''jellyfin-builder-debian''",
      THEN conjunct2, THEN conjunct2, THEN conjunct2, THEN conjunct2, THEN conjunct2, THEN conjunct2, THEN conjunct2, THEN conjunct2, THEN conjunct2, THEN conjunct2, THEN conjunct2, THEN mp, OF deb_unstable]
    by (simp add: example_env_def keys_def fmt_def strip_version_def replace_char_def docker_build_cmd_def
        docker_run_cmd_def changelog_env_def)
  show ?thesis by (intro conjI) (rule c1, rule c2, rule c3, rule c4)
qed

text \<open>
  C9, amended. Normalization removes every occurrence of the character \<open>v\<close>, wherever
  it stands, and keeps every other character in its place: the result is the version
  read left to right with each \<open>v\<close> skipped, it holds no \<open>v\<close>, it is shorter by the
  number of \<open>v\<close>s, and normalizing twice changes nothing. Every build function uses
  the normalized version in the names it builds: \<^verbatim>\<open>build_portable\<close>, the archive builds
  (\<^verbatim>\<open>build_linux\<close>, \<^verbatim>\<open>build_windows\<close> and \<^verbatim>\<open>build_macos\<close>, which are the one body
  \<open>build_archive\<close>), \<^verbatim>\<open>build_package_deb\<close> and \<^verbatim>\<open>build_docker\<close> put it in the image
  name and in \<^verbatim>\<open>JELLYFIN_VERSION\<close>.
\<close>

theorem strip_version_removes_every_marker:
  "strip_version [] = []
   \<and> strip_version (c # raw) = (if c = CHR ''v'' then strip_version raw else c # strip_version raw)
   \<and> CHR ''v'' \<notin> set (strip_version raw)
   \<and> length (strip_version raw) + count_list raw (CHR ''v'') = length raw
   \<and> strip_version (strip_version raw) = strip_version raw
   \<and> build_portable E configurations raw build_type build_arch build_version w =
       build_portable E configurations (strip_version raw) build_type build_arch build_version w
   \<and> (conf cfg bt ''dockerfile'' cfg_dockerfile = Inr df
        \<and> conf cfg bt ''imagename'' cfg_imagename = Inr name
        \<and> conf cfg bt ''archivetypes'' cfg_archivetypes = Inr archivetypes \<longrightarrow>
      build_portable E cfg raw bt a b w =
        (Inr (),
         w @ [Log ''> Building a portable .NET archive...'', Log [],
              System (docker_build_cmd @ '' --file '' @ repo_root_dir E @ ''/'' @ df
                        @ '' --tag '' @ name @ ''-'' @ strip_version raw @ ''_'' @ bt
                        @ '' '' @ repo_root_dir E),
              System (docker_run_cmd @ '' --volume '' @ repo_root_dir E @ '':/jellyfin''
                        @ '' --volume '' @ repo_root_dir E @ ''/out/'' @ bt @ '':/dist''
                        @ '' --env JELLYFIN_VERSION='' @ strip_version raw
                        @ '' --env BUILD_TYPE='' @ bt
                        @ '' --env ARCHIVE_TYPES='' @ archivetypes
                        @ '' --name '' @ name @ ''-'' @ strip_version raw @ ''_'' @ bt
                        @ '' '' @ name @ ''-'' @ strip_version raw @ ''_'' @ bt)]))
   \<and> (conf cfg bt ''archmaps'' cfg_archmaps = Inr archmaps
        \<and> lookup archmaps arch = Some entry
        \<and> getitem entry ''PACKAGE_ARCH'' = Inr PACKAGE_ARCH
        \<and> getitem entry ''DOTNET_ARCH'' = Inr DOTNET_ARCH
        \<and> conf cfg bt ''dockerfile'' cfg_dockerfile = Inr df
        \<and> conf cfg bt ''imagename'' cfg_imagename = Inr name
        \<and> conf cfg bt ''archivetypes'' cfg_archivetypes = Inr archivetypes \<longrightarrow>
      build_archive label dotnet_type E cfg raw bt arch ver w =
      (Inr (),
       w @ [Log (''> Building a portable '' @ fmt arch @ '' '' @ label @ '' archive...''), Log [],
            System (docker_build_cmd @ '' --file '' @ repo_root_dir E @ ''/'' @ df
                      @ '' --tag '' @ name @ ''-'' @ strip_version raw @ ''_'' @ fmt arch
                      @ ''-'' @ bt @ '' '' @ repo_root_dir E),
            System (docker_run_cmd @ '' --volume '' @ repo_root_dir E @ '':/jellyfin''
                      @ '' --volume '' @ repo_root_dir E @ ''/out/'' @ bt @ '':/dist''
                      @ '' --env JELLYFIN_VERSION='' @ strip_version raw
                      @ '' --env BUILD_TYPE='' @ bt
                      @ '' --env PACKAGE_ARCH='' @ PACKAGE_ARCH
                      @ '' --env DOTNET_TYPE='' @ dotnet_type
                      @ '' --env DOTNET_ARCH='' @ DOTNET_ARCH
                      @ '' --env ARCHIVE_TYPES='' @ archivetypes
                      @ '' --name '' @ name @ ''-'' @ strip_version raw @ ''_'' @ fmt arch
                      @ ''-'' @ bt
                      @ '' '' @ name @ ''-'' @ strip_version raw @ ''_'' @ fmt arch
                      @ ''-'' @ bt)]))
   \<and> build_linux G E cfg raw bt arch ver' w =
       build_archive ''Linux'' ''linux'' E cfg raw bt arch (glob_build_version G) w
   \<and> build_windows G E cfg raw bt arch' ver' w =
       build_archive ''Windows'' ''win'' E cfg raw bt (glob_build_arch G) (glob_build_version G) w
   \<and> build_macos G E cfg raw bt arch ver' w =
       build_archive ''MacOS'' ''osx'' E cfg raw bt arch (glob_build_version G) w
   \<and> (bt \<in> set (keys cfg)
        \<and> conf cfg bt ''releases'' cfg_releases = Inr releases
        \<and> lookup releases ver = Some os_version
        \<and> conf cfg bt ''archmaps'' cfg_archmaps = Inr archmaps
        \<and> lookup archmaps arch = Some entry
        \<and> getitem entry ''PACKAGE_ARCH'' = Inr PACKAGE_ARCH
        \<and> conf cfg bt ''dockerfile'' cfg_dockerfile = Inr df
        \<and> conf cfg bt ''cross-gcc'' cfg_cross_gcc = Inr cross
        \<and> getitem cross (fmt ver) = Inr crossgccvers
        \<and> changelog_in E = Inr template
        \<and> str_format E template
           [(''package_version'', strip_version raw),
            (''package_build'', take 3 bt @ replace_char CHR ''.'' os_version),
            (''release_comment'',
             if CHR ''v'' \<in> set raw
             then ''Jellyfin release '' @ raw
                    @ '', see https://github.com/jellyfin/jellyfin/releases/'' @ raw
                    @ '' for details.''
             else ''Jellyin unstable release '' @ raw @ ''.''),
            (''release_date'', now_rfc2822 E)] = Inr changelog
        \<and> conf cfg bt ''imagename'' cfg_imagename = Inr name \<longrightarrow>
      build_package_deb E cfg raw bt arch ver w =
      (Inr (),
       w @ [Log (''> Building an '' @ fmt arch @ '' '' @ bt @ '' .deb package...''), Log [],
            WriteFile (repo_root_dir E @ ''/debian/changelog'') changelog,
            System (docker_build_cmd @ '' --build-arg PACKAGE_TYPE='' @ bt
                      @ '' --build-arg PACKAGE_VERSION='' @ os_version
                      @ '' --build-arg PACKAGE_ARCH='' @ PACKAGE_ARCH
                      @ '' --build-arg GCC_VERSION='' @ crossgccvers
                      @ '' --file '' @ repo_root_dir E @ ''/'' @ df
                      @ '' --tag '' @ name @ ''-'' @ strip_version raw @ ''_'' @ fmt arch
                      @ ''-'' @ bt @ ''-'' @ fmt ver @ '' '' @ repo_root_dir E),
            System (docker_run_cmd @ '' --volume '' @ repo_root_dir E @ '':/jellyfin''
                      @ '' --volume '' @ repo_root_dir E @ ''/out/'' @ bt @ '':/dist''
                      @ '' --env JELLYFIN_VERSION='' @ strip_version raw
                      @ '' --name '' @ name @ ''-'' @ strip_version raw @ ''_'' @ fmt arch
                      @ ''-'' @ bt @ ''-'' @ fmt ver
                      @ '' '' @ name @ ''-'' @ strip_version raw @ ''_'' @ fmt arch
                      @ ''-'' @ bt @ ''-'' @ fmt ver)]))
   \<and> (conf cfg ''docker'' ''archmaps'' cfg_archmaps = Inr am
        \<and> conf cfg bt ''dockerfile'' cfg_dockerfile = Inr df
        \<and> conf cfg ''docker'' ''imagename'' cfg_imagename = Inr name
        \<and> (\<forall>arch \<in> set (keys am).
              archmap cfg ''docker'' arch ''PACKAGE_ARCH'' = Inr (P arch)
              \<and> archmap cfg ''docker'' arch ''DOTNET_ARCH'' = Inr (D arch)
              \<and> archmap cfg ''docker'' arch ''QEMU_ARCH'' = Inr (Q arch)
              \<and> archmap cfg ''docker'' arch ''IMAGE_ARCH'' = Inr (I arch)) \<longrightarrow>
      commands (snd (build_docker E cfg raw bt a b w)) =
        commands w
        @ concat (map (\<lambda>arch.
            [docker_run_cmd @ '' --privileged multiarch/qemu-user-static:register --reset'',
             docker_build_cmd @ '' --build-arg PACKAGE_ARCH='' @ P arch
               @ '' --build-arg DOTNET_ARCH='' @ D arch
               @ '' --build-arg QEMU_ARCH='' @ Q arch
               @ '' --build-arg IMAGE_ARCH='' @ I arch
               @ '' --build-arg JELLYFIN_VERSION='' @ strip_version raw
               @ '' --file '' @ repo_root_dir E @ ''/'' @ df
               @ '' --tag '' @ name @ '':'' @ strip_version raw @ ''-'' @ arch
               @ (if CHR ''v'' \<in> set raw then ''.'' @ now_second E else [])
               @ '' '' @ repo_root_dir E,
             ''docker image tag '' @ name @ '':'' @ strip_version raw @ ''-'' @ arch
               @ (if CHR ''v'' \<in> set raw then ''.'' @ now_second E else [])
               @ '' ghcr.io/'' @ name @ '':'' @ strip_version raw @ ''-'' @ arch
               @ (if CHR ''v'' \<in> set raw then ''.'' @ now_second E else [])])
            (keys am))
        @ ''docker login 2>&1''
        # map (\<lambda>arch. ''docker push '' @ name @ '':'' @ strip_version raw @ ''-'' @ arch
                @ (if CHR ''v'' \<in> set raw then ''.'' @ now_second E else []) @ '' 2>&1'')
            (keys am))"
proof -
  have len: "length (strip_version raw) + count_list raw (CHR ''v'') = length raw"
    by (induction raw) (simp_all add: strip_version_def replace_char_def)
  have idem: "strip_version (strip_version raw) = strip_version raw"
    by (simp add: strip_version_def replace_char_def)
  show ?thesis
    by (intro conjI;
        ((intro impI, elim conjE,
          (rule docker_run_commands deb_run archive_run portable_succeeds; assumption))
         | (rule len idem)
         | (simp add: strip_version_def replace_char_def build_portable_def
              build_linux_def build_windows_def build_macos_def)))
qed

text \<open>
  The same on the example for \<^verbatim>\<open>v10.9.0-dev\<close>: every image name and every
  \<^verbatim>\<open>JELLYFIN_VERSION\<close> holds \<^verbatim>\<open>10.9.0-de\<close>.
\<close>

theorem strip_version_removes_every_marker_witness:
  "build_portable (example_env failing) example_configurations ''v10.9.0-dev'' ''portable''
         None None [] =
     (Inr (),
      [Log ''> Building a portable .NET archive...'', Log [],
       System ''docker build --progress=plain --no-cache --file /src/portable/Dockerfile --tag jellyfin-builder-portable-10.9.0-de_portable /src'',
       System ''docker run --rm --volume /src:/jellyfin --volume /src/out/portable:/dist --env JELLYFIN_VERSION=10.9.0-de --env BUILD_TYPE=portable --env ARCHIVE_TYPES=targz,zip --name jellyfin-builder-portable-10.9.0-de_portable jellyfin-builder-portable-10.9.0-de_portable''])
   \<and> build_linux \<lparr>glob_build_arch = Some ''amd64'', glob_build_version = None\<rparr>
         (example_env failing) example_configurations ''v10.9.0-dev'' ''linux'' (Some ''amd64'') None [] =
     (Inr (),
      [Log ''> Building a portable amd64 Linux archive...'', Log [],
       System ''docker build --progress=plain --no-cache --file /src/portable/Dockerfile --tag jellyfin-builder-linux-10.9.0-de_amd64-linux /src'',
       System ''docker run --rm --volume /src:/jellyfin --volume /src/out/linux:/dist --env JELLYFIN_VERSION=10.9.0-de --env BUILD_TYPE=linux --env PACKAGE_ARCH=amd64 --env DOTNET_TYPE=linux --env DOTNET_ARCH=x64 --env ARCHIVE_TYPES=targz --name jellyfin-builder-linux-10.9.0-de_amd64-linux jellyfin-builder-linux-10.9.0-de_amd64-linux''])
   \<and> build_package_deb (example_env failing) example_configurations ''v10.9.0-dev'' ''debian''
         (Some ''arm64'') (Some ''bullseye'') [] =
     (Inr (),
      [Log ''> Building an arm64 debian .deb package...'', Log [],
       WriteFile ''/src/debian/changelog''
         ''jellyfin'',
       System ''docker build --progress=plain --no-cache --build-arg PACKAGE_TYPE=debian --build-arg PACKAGE_VERSION=11 --build-arg PACKAGE_ARCH=arm64 --build-arg GCC_VERSION=10 --file /src/debian/docker/Dockerfile --tag jellyfin-builder-debian-10.9.0-de_arm64-debian-bullseye /src'',
       System ''docker run --rm --volume /src:/jellyfin --volume /src/out/debian:/dist --env JELLYFIN_VERSION=10.9.0-de --name jellyfin-builder-debian-10.9.0-de_arm64-debian-bullseye jellyfin-builder-debian-10.9.0-de_arm64-debian-bullseye''])
   \<and> commands (snd (build_docker (example_env failing) example_configurations ''v10.9.0-dev'' ''docker''
         None None [])) =
     [''docker run --rm --privileged multiarch/qemu-user-static:register --reset'',
      ''docker build --progress=plain --no-cache --build-arg PACKAGE_ARCH=amd64 --build-arg DOTNET_ARCH=x64 --build-arg QEMU_ARCH=x86_64 --build-arg IMAGE_ARCH=amd64 --build-arg JELLYFIN_VERSION=10.9.0-de --file /src/docker/Dockerfile --tag jellyfin/jellyfin:10.9.0-de-amd64.20240216-093000 /src'',
      ''docker image tag jellyfin/jellyfin:10.9.0-de-amd64.20240216-093000 ghcr.io/jellyfin/jellyfin:10.9.0-de-amd64.20240216-093000'',
      ''docker run --rm --privileged multiarch/qemu-user-static:register --reset'',
      ''docker build --progress=plain --no-cache --build-arg PACKAGE_ARCH=arm64 --build-arg DOTNET_ARCH=arm64 --build-arg QEMU_ARCH=aarch64 --build-arg IMAGE_ARCH=arm64v8 --build-arg JELLYFIN_VERSION=10.9.0-de --file /src/docker/Dockerfile --tag jellyfin/jellyfin:10.9.0-de-arm64.20240216-093000 /src'',
      ''docker image tag jellyfin/jellyfin:10.9.0-de-arm64.20240216-093000 ghcr.io/jellyfin/jellyfin:10.9.0-de-arm64.20240216-093000'',
      ''docker login 2>&1'',
      ''docker push jellyfin/jellyfin:10.9.0-de-amd64.20240216-093000 2>&1'',
      ''docker push jellyfin/jellyfin:10.9.0-de-arm64.20240216-093000 2>&1'']"
proof -
  let ?am = "[(''amd64'', [(''DOTNET_ARCH'', ''x64''), (''IMAGE_ARCH'', ''amd64''),
                           (''PACKAGE_ARCH'', ''amd64''), (''QEMU_ARCH'', ''x86_64'')]),
              (''arm64'', [(''DOTNET_ARCH'', ''arm64''), (''IMAGE_ARCH'', ''arm64v8''),
                           (''PACKAGE_ARCH'', ''arm64''), (''QEMU_ARCH'', ''aarch64'')])]"
  let ?P = "\<lambda>arch. if arch = ''amd64'' then ''amd64'' else ''arm64''"
  let ?D = "\<lambda>arch. if arch = ''amd64'' then ''x64'' else ''arm64''"
  let ?Q = "\<lambda>arch. if arch = ''amd64'' then ''x86_64'' else ''aarch64''"
  let ?I = "\<lambda>arch. if arch = ''amd64'' then ''amd64'' else ''arm64v8''"
  let ?rel = "[(''bullseye'', ''11''), (''bookworm'', ''12'')]"
  let ?gcc = "[(''bullseye'', ''10''), (''bookworm'', ''12'')]"
  let ?deb_archs = "[(''amd64'', [(''PACKAGE_ARCH'', ''amd64'')]),
                     (''arm64'', [(''PACKAGE_ARCH'', ''arm64'')])]"
  let ?linux_archs = "[(''amd64'', [(''DOTNET_ARCH'', ''x64''), (''PACKAGE_ARCH'', ''amd64'')])]"
  have docker_ready: "conf example_configurations ''docker'' ''archmaps'' cfg_archmaps = Inr ?am
      \<and> conf example_configurations ''docker'' ''dockerfile'' cfg_dockerfile = Inr ''docker/Dockerfile''
      \<and> conf example_configurations ''docker'' ''imagename'' cfg_imagename = Inr ''jellyfin/jellyfin''
      \<and> (\<forall>arch \<in> set (keys ?am).
            archmap example_configurations ''docker'' arch ''PACKAGE_ARCH'' = Inr (?P arch)
            \<and> archmap example_configurations ''docker'' arch ''DOTNET_ARCH'' = Inr (?D arch)
            \<and> archmap example_configurations ''docker'' arch ''QEMU_ARCH'' = Inr (?Q arch)
            \<and> archmap example_configurations ''docker'' arch ''IMAGE_ARCH'' = Inr (?I arch))"
    by (simp add: example_simps)
  have portable_ready: "conf example_configurations ''portable'' ''dockerfile'' cfg_dockerfile =
          Inr ''portable/Dockerfile''
      \<and> conf example_configurations ''portable'' ''imagename'' cfg_imagename =
          Inr ''jellyfin-builder-portable''
      \<and> conf example_configurations ''portable'' ''archivetypes'' cfg_archivetypes =
          Inr ''targz,zip''"
    by (simp add: example_simps)
  have linux_ready: "conf example_configurations ''linux'' ''archmaps'' cfg_archmaps = Inr ?linux_archs
      \<and> lookup ?linux_archs (Some ''amd64'') =
          Some [(''DOTNET_ARCH'', ''x64''), (''PACKAGE_ARCH'', ''amd64'')]
      \<and> getitem [(''DOTNET_ARCH'', ''x64''), (''PACKAGE_ARCH'', ''amd64'')] ''PACKAGE_ARCH'' =
          Inr ''amd64''
      \<and> getitem [(''DOTNET_ARCH'', ''x64''), (''PACKAGE_ARCH'', ''amd64'')] ''DOTNET_ARCH'' =
          Inr ''x64''
      \<and> conf example_configurations ''linux'' ''dockerfile'' cfg_dockerfile =
          Inr ''portable/Dockerfile''
      \<and> conf example_configurations ''linux'' ''imagename'' cfg_imagename =
          Inr ''jellyfin-builder-linux''
      \<and> conf example_configurations ''linux'' ''archivetypes'' cfg_archivetypes = Inr ''targz''"
    by (simp add: example_simps lookup_def)
  have deb_ready: "''debian'' \<in> set (keys example_configurations)
      \<and> conf example_configurations ''debian'' ''releases'' cfg_releases = Inr ?rel
      \<and> lookup ?rel (Some ''bullseye'') = Some ''11''
      \<and> conf example_configurations ''debian'' ''archmaps'' cfg_archmaps = Inr ?deb_archs
      \<and> lookup ?deb_archs (Some ''arm64'') = Some [(''PACKAGE_ARCH'', ''arm64'')]
      \<and> getitem [(''PACKAGE_ARCH'', ''arm64'')] ''PACKAGE_ARCH'' = Inr ''arm64''
      \<and> conf example_configurations ''debian'' ''dockerfile'' cfg_dockerfile =
            Inr ''debian/docker/Dockerfile''
      \<and> conf example_configurations ''debian'' ''cross-gcc'' cfg_cross_gcc = Inr ?gcc
      \<and> getitem ?gcc (fmt (Some ''bullseye'')) = Inr ''10''
      \<and> changelog_in (example_env failing) = Inr ''jellyfin''
      \<and> str_format (example_env failing) ''jellyfin''
           [(''package_version'', strip_version ''v10.9.0-dev''),
            (''package_build'', take 3 ''debian'' @ replace_char CHR ''.'' ''11''),
            (''release_comment'',
             if CHR ''v'' \<in> set ''v10.9.0-dev''
             then ''Jellyfin release '' @ ''v10.9.0-dev''
                    @ '', see https://github.com/jellyfin/jellyfin/releases/'' @ ''v10.9.0-dev''
                    @ '' for details.''
             else ''Jellyin unstable release '' @ ''v10.9.0-dev'' @ ''.''),
            (''release_date'', now_rfc2822 (example_env failing))] =
          Inr ''jellyfin''
      \<and> conf example_configurations ''debian'' ''imagename'' cfg_imagename =
            Inr ''jellyfin-builder-debian''"
    by (simp add: example_simps lookup_def fmt_def changelog_env_def format_field_def)
  have c1: "build_portable (example_env failing) example_configurations ''v10.9.0-dev'' ''portable''
         None None [] =
     (Inr (),
      [Log ''> Building a portable .NET archive...'', Log [],
       System ''docker build --progress=plain --no-cache --file /src/portable/Dockerfile --tag jellyfin-builder-portable-10.9.0-de_portable /src'',
       System ''docker run --rm --volume /src:/jellyfin --volume /src/out/portable:/dist --env JELLYFIN_VERSION=10.9.0-de --env BUILD_TYPE=portable --env ARCHIVE_TYPES=targz,zip --name jellyfin-builder-portable-10.9.0-de_portable jellyfin-builder-portable-10.9.0-de_portable''])"
    using strip_version_removes_every_marker [where E = "example_env failing" and cfg = example_configurations
      and raw = "''v10.9.0-dev''" and bt = "''portable''" and a = None and b = None and w = "[]"
      and df = "''portable/Dockerfile''" and name = "''jellyfin-builder-portable''"
      and archivetypes = "''targz,zip''",
      THEN conjunct2, THEN conjunct2, THEN conjunct2, THEN conjunct2, THEN conjunct2, THEN conjunct2, THEN conjunct1, THEN mp, OF portable_ready]
    by (simp add: example_env_def keys_def fmt_def strip_version_def replace_char_def docker_build_cmd_def
        docker_run_cmd_def)
  have c2: "build_linux \<lparr>glob_build_arch = Some ''amd64'', glob_build_version = None\<rparr>
         (example_env failing) example_configurations ''v10.9.0-dev'' ''linux'' (Some ''amd64'') None [] =
     (Inr (),
      [Log ''> Building a portable amd64 Linux archive...'', Log [],
       System ''docker build --progress=plain --no-cache --file /src/portable/Dockerfile --tag jellyfin-builder-linux-10.9.0-de_amd64-linux /src'',
       System ''docker run --rm --volume /src:/jellyfin --volume /src/out/linux:/dist --env JELLYFIN_VERSION=10.9.0-de --env BUILD_TYPE=linux --env PACKAGE_ARCH=amd64 --env DOTNET_TYPE=linux --env DOTNET_ARCH=x64 --env ARCHIVE_TYPES=targz --name jellyfin-builder-linux-10.9.0-de_amd64-linux jellyfin-builder-linux-10.9.0-de_amd64-linux''])"
    using strip_version_removes_every_marker [where E = "example_env failing" and cfg = example_configurations
      and raw = "''v10.9.0-dev''" and bt = "''linux''" and arch = "Some ''amd64''" and ver = None
      and ver' = None and w = "[]" and G = "\<lparr>glob_build_arch = Some ''amd64'', glob_build_version = None\<rparr>"
      and label = "''Linux''" and dotnet_type = "''linux''" and archmaps = ?linux_archs
      and entry = "[(''DOTNET_ARCH'', ''x64''), (''PACKAGE_ARCH'', ''amd64'')]"
      and PACKAGE_ARCH = "''amd64''" and DOTNET_ARCH = "''x64''"
      and df = "''portable/Dockerfile''" and name = "''jellyfin-builder-linux''"
      and archivetypes = "''targz''",
      THEN conjunct2, THEN conjunct2, THEN conjunct2, THEN conjunct2, THEN conjunct2, THEN conjunct2, THEN conjunct2, THEN conjunct2, THEN conjunct1]
      strip_version_removes_every_marker [where E = "example_env failing" and cfg = example_configurations
      and raw = "''v10.9.0-dev''" and bt = "''linux''" and arch = "Some ''amd64''" and ver = None
      and ver' = None and w = "[]" and G = "\<lparr>glob_build_arch = Some ''amd64'', glob_build_version = None\<rparr>"
      and label = "''Linux''" and dotnet_type = "''linux''" and archmaps = ?linux_archs
      and entry = "[(''DOTNET_ARCH'', ''x64''), (''PACKAGE_ARCH'', ''amd64'')]"
      and PACKAGE_ARCH = "''amd64''" and DOTNET_ARCH = "''x64''"
      and df = "''portable/Dockerfile''" and name = "''jellyfin-builder-linux''"
      and archivetypes = "''targz''",
      THEN conjunct2, THEN conjunct2, THEN conjunct2, THEN conjunct2, THEN conjunct2, THEN conjunct2, THEN conjunct2, THEN conjunct1, THEN mp, OF linux_ready]
    by (simp add: example_env_def keys_def fmt_def strip_version_def replace_char_def docker_build_cmd_def
        docker_run_cmd_def)
  have c3: "build_package_deb (example_env failing) example_configurations ''v10.9.0-dev'' ''debian''
         (Some ''arm64'') (Some ''bullseye'') [] =
     (Inr (),
      [Log ''> Building an arm64 debian .deb package...'', Log [],
       WriteFile ''/src/debian/changelog''
         ''jellyfin'',
       System ''docker build --progress=plain --no-cache --build-arg PACKAGE_TYPE=debian --build-arg PACKAGE_VERSION=11 --build-arg PACKAGE_ARCH=arm64 --build-arg GCC_VERSION=10 --file /src/debian/docker/Dockerfile --tag jellyfin-builder-debian-10.9.0-de_arm64-debian-bullseye /src'',
       System ''docker run --rm --volume /src:/jellyfin --volume /src/out/debian:/dist --env JELLYFIN_VERSION=10.9.0-de --name jellyfin-builder-debian-10.9.0-de_arm64-debian-bullseye jellyfin-builder-debian-10.9.0-de_arm64-debian-bullseye''])"
    using strip_version_removes_every_marker [where E = "example_env failing" and cfg = example_configurations
      and raw = "''v10.9.0-dev''" and bt = "''debian''" and arch = "Some ''arm64''"
      and ver = "Some ''bullseye''" and w = "[]" and releases = ?rel and os_version = "''11''"
      and archmaps = ?deb_archs and entry = "[(''PACKAGE_ARCH'', ''arm64'')]"
      and PACKAGE_ARCH = "''arm64''" and df = "''debian/docker/Dockerfile''" and cross = ?gcc
      and crossgccvers = "''10''" and template = "''jellyfin''"
      and changelog = "''jellyfin''"
      and name = "''jellyfin-builder-debian''",
      THEN conjunct2, THEN conjunct2, THEN conjunct2, THEN conjunct2, THEN conjunct2, THEN conjunct2, THEN conjunct2, THEN conjunct2, THEN conjunct2, THEN conjunct2, THEN conjunct2, THEN conjunct1, THEN mp, OF deb_ready]
    by (simp add: example_env_def keys_def fmt_def strip_version_def replace_char_def docker_build_cmd_def
        docker_run_cmd_def)
  have c4: "commands (snd (build_docker (example_env failing) example_configurations ''v10.9.0-dev'' ''docker''
         None None [])) =
     [''docker run --rm --privileged multiarch/qemu-user-static:register --reset'',
      ''docker build --progress=plain --no-cache --build-arg PACKAGE_ARCH=amd64 --build-arg DOTNET_ARCH=x64 --build-arg QEMU_ARCH=x86_64 --build-arg IMAGE_ARCH=amd64 --build-arg JELLYFIN_VERSION=10.9.0-de --file /src/docker/Dockerfile --tag jellyfin/jellyfin:10.9.0-de-amd64.20240216-093000 /src'',
      ''docker image tag jellyfin/jellyfin:10.9.0-de-amd64.20240216-093000 ghcr.io/jellyfin/jellyfin:10.9.0-de-amd64.20240216-093000'',
      ''docker run --rm --privileged multiarch/qemu-user-static:register --reset'',
      ''docker build --progress=plain --no-cache --build-arg PACKAGE_ARCH=arm64 --build-arg DOTNET_ARCH=arm64 --build-arg QEMU_ARCH=aarch64 --build-arg IMAGE_ARCH=arm64v8 --build-arg JELLYFIN_VERSION=10.9.0-de --file /src/docker/Dockerfile --tag jellyfin/jellyfin:10.9.0-de-arm64.20240216-093000 /src'',
      ''docker image tag jellyfin/jellyfin:10.9.0-de-arm64.20240216-093000 ghcr.io/jellyfin/jellyfin:10.9.0-de-arm64.20240216-093000'',
      ''docker login 2>&1'',
      ''docker push jellyfin/jellyfin:10.9.0-de-amd64.20240216-093000 2>&1'',
      ''docker push jellyfin/jellyfin:10.9.0-de-arm64.20240216-093000 2>&1'']"
    using strip_version_removes_every_marker [where E = "example_env failing" and cfg = example_configurations
      and raw = "''v10.9.0-dev''" and bt = "''docker''" and a = None and b = None and w = "[]"
      and am = ?am and df = "''docker/Dockerfile''" and name = "''jellyfin/jellyfin''"
      and P = ?P and D = ?D and Q = ?Q and I = ?I,
      THEN conjunct2, THEN conjunct2, THEN conjunct2, THEN conjunct2, THEN conjunct2, THEN conjunct2, THEN conjunct2, THEN conjunct2, THEN conjunct2, THEN conjunct2, THEN conjunct2, THEN conjunct2, THEN mp, OF docker_ready]
    by (simp add: example_env_def keys_def fmt_def strip_version_def replace_char_def docker_build_cmd_def
        docker_run_cmd_def)
  show ?thesis by (intro conjI) (rule c1, rule c2, rule c3, rule c4)
qed

section \<open>The build step and the run step\<close>

text \<open>
  C7, amended. The exit status of the build step and of the run step is never read:
  every build function does the same under every engine, and so the status the process
  ends with does not depend on what the two steps return. Each single-target build
  function, once its arguments are valid and what it reads before the build step is
  there (the configuration keys and, for \<^verbatim>\<open>build_package_deb\<close>, the changelog read and
  formatted), issues the build step, then the run step, and returns normally,
  whatever the two steps returned; and a run of the script whose build function
  returns normally ends with status 0.
\<close>

theorem build_and_run_outcomes_never_read:
  "call f G (E\<lparr>engine := eng\<rparr>) cfg raw bt a b w = call f G (E\<lparr>engine := eng'\<rparr>) cfg raw bt a b w
   \<and> exit_status (fst (script (E\<lparr>engine := eng\<rparr>) yaml argv0 args w)) =
       exit_status (fst (script (E\<lparr>engine := eng'\<rparr>) yaml argv0 args w))
   \<and> (conf cfg bt ''dockerfile'' cfg_dockerfile = Inr df
        \<and> conf cfg bt ''imagename'' cfg_imagename = Inr name
        \<and> conf cfg bt ''archivetypes'' cfg_archivetypes = Inr archivetypes \<longrightarrow>
      build_portable E cfg raw bt a b w =
        (Inr (),
         w @ [Log ''> Building a portable .NET archive...'', Log [],
              System (docker_build_cmd @ '' --file '' @ repo_root_dir E @ ''/'' @ df
                        @ '' --tag '' @ name @ ''-'' @ strip_version raw @ ''_'' @ bt
                        @ '' '' @ repo_root_dir E),
              System (docker_run_cmd @ '' --volume '' @ repo_root_dir E @ '':/jellyfin''
                        @ '' --volume '' @ repo_root_dir E @ ''/out/'' @ bt @ '':/dist''
                        @ '' --env JELLYFIN_VERSION='' @ strip_version raw
                        @ '' --env BUILD_TYPE='' @ bt
                        @ '' --env ARCHIVE_TYPES='' @ archivetypes
                        @ '' --name '' @ name @ ''-'' @ strip_version raw @ ''_'' @ bt
                        @ '' '' @ name @ ''-'' @ strip_version raw @ ''_'' @ bt)]))
   \<and> (bt \<in> set (keys cfg)
        \<and> conf cfg bt ''releases'' cfg_releases = Inr releases
        \<and> lookup releases ver = Some os_version
        \<and> conf cfg bt ''archmaps'' cfg_archmaps = Inr archmaps
        \<and> lookup archmaps arch = Some entry
        \<and> getitem entry ''PACKAGE_ARCH'' = Inr PACKAGE_ARCH
        \<and> conf cfg bt ''dockerfile'' cfg_dockerfile = Inr df
        \<and> conf cfg bt ''cross-gcc'' cfg_cross_gcc = Inr cross
        \<and> getitem cross (fmt ver) = Inr crossgccvers
        \<and> changelog_in E = Inr template
        \<and> str_format E template
           [(''package_version'', strip_version raw),
            (''package_build'', take 3 bt @ replace_char CHR ''.'' os_version),
            (''release_comment'',
             if CHR ''v'' \<in> set raw
             then ''Jellyfin release '' @ raw
                    @ '', see https://github.com/jellyfin/jellyfin/releases/'' @ raw
                    @ '' for details.''
             else ''Jellyin unstable release '' @ raw @ ''.''),
            (''release_date'', now_rfc2822 E)] = Inr changelog
        \<and> conf cfg bt ''imagename'' cfg_imagename = Inr name \<longrightarrow>
      build_package_deb E cfg raw bt arch ver w =
      (Inr (),
       w @ [Log (''> Building an '' @ fmt arch @ '' '' @ bt @ '' .deb package...''), Log [],
            WriteFile (repo_root_dir E @ ''/debian/changelog'') changelog,
            System (docker_build_cmd @ '' --build-arg PACKAGE_TYPE='' @ bt
                      @ '' --build-arg PACKAGE_VERSION='' @ os_version
                      @ '' --build-arg PACKAGE_ARCH='' @ PACKAGE_ARCH
                      @ '' --build-arg GCC_VERSION='' @ crossgccvers
                      @ '' --file '' @ repo_root_dir E @ ''/'' @ df
                      @ '' --tag '' @ name @ ''-'' @ strip_version raw @ ''_'' @ fmt arch
                      @ ''-'' @ bt @ ''-'' @ fmt ver @ '' '' @ repo_root_dir E),
            System (docker_run_cmd @ '' --volume '' @ repo_root_dir E @ '':/jellyfin''
                      @ '' --volume '' @ repo_root_dir E @ ''/out/'' @ bt @ '':/dist''
                      @ '' --env JELLYFIN_VERSION='' @ strip_version raw
                      @ '' --name '' @ name @ ''-'' @ strip_version raw @ ''_'' @ fmt arch
                      @ ''-'' @ bt @ ''-'' @ fmt ver
                      @ '' '' @ name @ ''-'' @ strip_version raw @ ''_'' @ fmt arch
                      @ ''-'' @ bt @ ''-'' @ fmt ver)]))
   \<and> (conf cfg bt ''archmaps'' cfg_archmaps = Inr archmaps
        \<and> lookup archmaps arch = Some entry
        \<and> getitem entry ''PACKAGE_ARCH'' = Inr PACKAGE_ARCH
        \<and> getitem entry ''DOTNET_ARCH'' = Inr DOTNET_ARCH
        \<and> conf cfg bt ''dockerfile'' cfg_dockerfile = Inr df
        \<and> conf cfg bt ''imagename'' cfg_imagename = Inr name
        \<and> conf cfg bt ''archivetypes'' cfg_archivetypes = Inr archivetypes \<longrightarrow>
      build_archive label dotnet_type E cfg raw bt arch ver w =
      (Inr (),
       w @ [Log (''> Building a portable '' @ fmt arch @ '' '' @ label @ '' archive...''), Log [],
            System (docker_build_cmd @ '' --file '' @ repo_root_dir E @ ''/'' @ df
                      @ '' --tag '' @ name @ ''-'' @ strip_version raw @ ''_'' @ fmt arch
                      @ ''-'' @ bt @ '' '' @ repo_root_dir E),
            System (docker_run_cmd @ '' --volume '' @ repo_root_dir E @ '':/jellyfin''
                      @ '' --volume '' @ repo_root_dir E @ ''/out/'' @ bt @ '':/dist''
                      @ '' --env JELLYFIN_VERSION='' @ strip_version raw
                      @ '' --env BUILD_TYPE='' @ bt
                      @ '' --env PACKAGE_ARCH='' @ PACKAGE_ARCH
                      @ '' --env DOTNET_TYPE='' @ dotnet_type
                      @ '' --env DOTNET_ARCH='' @ DOTNET_ARCH
                      @ '' --env ARCHIVE_TYPES='' @ archivetypes
                      @ '' --name '' @ name @ ''-'' @ strip_version raw @ ''_'' @ fmt arch
                      @ ''-'' @ bt
                      @ '' '' @ name @ ''-'' @ strip_version raw @ ''_'' @ fmt arch
                      @ ''-'' @ bt)]))
   \<and> build_linux G E cfg raw bt arch ver' w =
       build_archive ''Linux'' ''linux'' E cfg raw bt arch (glob_build_version G) w
   \<and> build_windows G E cfg raw bt arch' ver' w =
       build_archive ''Windows'' ''win'' E cfg raw bt (glob_build_arch G) (glob_build_version G) w
   \<and> build_macos G E cfg raw bt arch ver' w =
       build_archive ''MacOS'' ''osx'' E cfg raw bt arch (glob_build_version G) w
   \<and> (bt \<in> set (keys cfg)
        \<and> configured_function cfg bt = Some f
        \<and> fst (call f \<lparr>glob_build_arch = optional_argv (raw # bt # rest) 3,
                          glob_build_version = optional_argv (raw # bt # rest) 4\<rparr>
                    E cfg (if raw = ''master'' then now_hour E else raw) bt
                    (optional_argv (raw # bt # rest) 3) (optional_argv (raw # bt # rest) 4)
                    (if raw = ''master''
                     then log (''NOTE: Autocorrecting 'master' version to '' @ now_hour E) w
                     else w)) = Inr () \<longrightarrow>
      exit_status (fst (script E (Inr cfg) argv0 (raw # bt # rest) w)) = 0)"
  by (intro conjI;
      ((intro impI, elim conjE,
        (rule deb_run archive_run portable_succeeds script_exit_zero; assumption))
       | (simp add: call_engine [where E = E and eng = eng and eng' = eng']
            script_engine [where E = E and eng = eng and eng' = eng']
            build_linux_def build_windows_def build_macos_def)))

text \<open>
  The same on the example, under the engine for which every command fails: the
  portable build, the Debian build for \<^verbatim>\<open>amd64 bookworm\<close> and the Linux archive for
  \<^verbatim>\<open>amd64\<close>.
  The run of the script for the Debian build ends with status 0.
\<close>

theorem build_and_run_outcomes_never_read_witness:
  "call Build_linux \<lparr>glob_build_arch = Some ''amd64'', glob_build_version = None\<rparr>
       (example_env failing) example_configurations ''v10.9.0'' ''linux'' (Some ''amd64'') None [] =
     call Build_linux \<lparr>glob_build_arch = Some ''amd64'', glob_build_version = None\<rparr>
       (example_env succeeding) example_configurations ''v10.9.0'' ''linux'' (Some ''amd64'') None []
   \<and> exit_status (fst (script (example_env failing) (Inr example_configurations) ''build.py''
         [''v10.9.0'', ''debian'', ''amd64'', ''bookworm''] [])) =
       exit_status (fst (script (example_env succeeding) (Inr example_configurations) ''build.py''
         [''v10.9.0'', ''debian'', ''amd64'', ''bookworm''] []))
   \<and> build_portable (example_env failing) example_configurations ''v10.9.0'' ''portable''
         None None [] =
     (Inr (),
      [Log ''> Building a portable .NET archive...'', Log [],
       System ''docker build --progress=plain --no-cache --file /src/portable/Dockerfile --tag jellyfin-builder-portable-10.9.0_portable /src'',
       System ''docker run --rm --volume /src:/jellyfin --volume /src/out/portable:/dist --env JELLYFIN_VERSION=10.9.0 --env BUILD_TYPE=portable --env ARCHIVE_TYPES=targz,zip --name jellyfin-builder-portable-10.9.0_portable jellyfin-builder-portable-10.9.0_portable''])
   \<and> build_package_deb (example_env failing) example_configurations ''v10.9.0'' ''debian''
         (Some ''amd64'') (Some ''bookworm'') [] =
     (Inr (),
      [Log ''> Building an amd64 debian .deb package...'', Log [],
       WriteFile ''/src/debian/changelog''
         ''jellyfin'',
       System ''docker build --progress=plain --no-cache --build-arg PACKAGE_TYPE=debian --build-arg PACKAGE_VERSION=12 --build-arg PACKAGE_ARCH=amd64 --build-arg GCC_VERSION=12 --file /src/debian/docker/Dockerfile --tag jellyfin-builder-debian-10.9.0_amd64-debian-bookworm /src'',
       System ''docker run --rm --volume /src:/jellyfin --volume /src/out/debian:/dist --env JELLYFIN_VERSION=10.9.0 --name jellyfin-builder-debian-10.9.0_amd64-debian-bookworm jellyfin-builder-debian-10.9.0_amd64-debian-bookworm''])
   \<and> build_linux \<lparr>glob_build_arch = Some ''amd64'', glob_build_version = None\<rparr>
         (example_env failing) example_configurations ''v10.9.0'' ''linux'' (Some ''amd64'') None [] =
     (Inr (),
      [Log ''> Building a portable amd64 Linux archive...'', Log [],
       System ''docker build --progress=plain --no-cache --file /src/portable/Dockerfile --tag jellyfin-builder-linux-10.9.0_amd64-linux /src'',
       System ''docker run --rm --volume /src:/jellyfin --volume /src/out/linux:/dist --env JELLYFIN_VERSION=10.9.0 --env BUILD_TYPE=linux --env PACKAGE_ARCH=amd64 --env DOTNET_TYPE=linux --env DOTNET_ARCH=x64 --env ARCHIVE_TYPES=targz --name jellyfin-builder-linux-10.9.0_amd64-linux jellyfin-builder-linux-10.9.0_amd64-linux''])
   \<and> exit_status (fst (script (example_env failing) (Inr example_configurations) ''build.py''
         [''v10.9.0'', ''debian'', ''amd64'', ''bookworm''] [])) = 0"
proof -
  let ?am = "[(''amd64'', [(''DOTNET_ARCH'', ''x64''), (''IMAGE_ARCH'', ''amd64''),
                           (''PACKAGE_ARCH'', ''amd64''), (''QEMU_ARCH'', ''x86_64'')]),
              (''arm64'', [(''DOTNET_ARCH'', ''arm64''), (''IMAGE_ARCH'', ''arm64v8''),
                           (''PACKAGE_ARCH'', ''arm64''), (''QEMU_ARCH'', ''aarch64'')])]"
  let ?P = "\<lambda>arch. if arch = ''amd64'' then ''amd64'' else ''arm64''"
  let ?D = "\<lambda>arch. if arch = ''amd64'' then ''x64'' else ''arm64''"
  let ?Q = "\<lambda>arch. if arch = ''amd64'' then ''x86_64'' else ''aarch64''"
  let ?I = "\<lambda>arch. if arch = ''amd64'' then ''amd64'' else ''arm64v8''"
  let ?rel = "[(''bullseye'', ''11''), (''bookworm'', ''12'')]"
  let ?gcc = "[(''bullseye'', ''10''), (''bookworm'', ''12'')]"
  let ?deb_archs = "[(''amd64'', [(''PACKAGE_ARCH'', ''amd64'')]),
                     (''arm64'', [(''PACKAGE_ARCH'', ''arm64'')])]"
  let ?linux_archs = "[(''amd64'', [(''DOTNET_ARCH'', ''x64''), (''PACKAGE_ARCH'', ''amd64'')])]"
  have docker_ready: "conf example_configurations ''docker'' ''archmaps'' cfg_archmaps = Inr ?am
      \<and> conf example_configurations ''docker'' ''dockerfile'' cfg_dockerfile = Inr ''docker/Dockerfile''
      \<and> conf example_configurations ''docker'' ''imagename'' cfg_imagename = Inr ''jellyfin/jellyfin''
      \<and> (\<forall>arch \<in> set (keys ?am).
            archmap example_configurations ''docker'' arch ''PACKAGE_ARCH'' = Inr (?P arch)
            \<and> archmap example_configurations ''docker'' arch ''DOTNET_ARCH'' = Inr (?D arch)
            \<and> archmap example_configurations ''docker'' arch ''QEMU_ARCH'' = Inr (?Q arch)
            \<and> archmap example_configurations ''docker'' arch ''IMAGE_ARCH'' = Inr (?I arch))"
    by (simp add: example_simps)
  have portable_ready: "conf example_configurations ''portable'' ''dockerfile'' cfg_dockerfile =
          Inr ''portable/Dockerfile''
      \<and> conf example_configurations ''portable'' ''imagename'' cfg_imagename =
          Inr ''jellyfin-builder-portable''
      \<and> conf example_configurations ''portable'' ''archivetypes'' cfg_archivetypes =
          Inr ''targz,zip''"
    by (simp add: example_simps)
  have linux_ready: "conf example_configurations ''linux'' ''archmaps'' cfg_archmaps = Inr ?linux_archs
      \<and> lookup ?linux_archs (Some ''amd64'') =
          Some [(''DOTNET_ARCH'', ''x64''), (''PACKAGE_ARCH'', ''amd64'')]
      \<and> getitem [(''DOTNET_ARCH'', ''x64''), (''PACKAGE_ARCH'', ''amd64'')] ''PACKAGE_ARCH'' =
          Inr ''amd64''
      \<and> getitem [(''DOTNET_ARCH'', ''x64''), (''PACKAGE_ARCH'', ''amd64'')] ''DOTNET_ARCH'' =
          Inr ''x64''
      \<and> conf example_configurations ''linux'' ''dockerfile'' cfg_dockerfile =
          Inr ''portable/Dockerfile''
      \<and> conf example_configurations ''linux'' ''imagename'' cfg_imagename =
          Inr ''jellyfin-builder-linux''
      \<and> conf example_configurations ''linux'' ''archivetypes'' cfg_archivetypes = Inr ''targz''"
    by (simp add: example_simps lookup_def)
  have deb_ready: "''debian'' \<in> set (keys example_configurations)
      \<and> conf example_configurations ''debian'' ''releases'' cfg_releases = Inr ?rel
      \<and> lookup ?rel (Some ''bookworm'') = Some ''12''
      \<and> conf example_configurations ''debian'' ''archmaps'' cfg_archmaps = Inr ?deb_archs
      \<and> lookup ?deb_archs (Some ''amd64'') = Some [(''PACKAGE_ARCH'', ''amd64'')]
      \<and> getitem [(''PACKAGE_ARCH'', ''amd64'')] ''PACKAGE_ARCH'' = Inr ''amd64''
      \<and> conf example_configurations ''debian'' ''dockerfile'' cfg_dockerfile =
            Inr ''debian/docker/Dockerfile''
      \<and> conf example_configurations ''debian'' ''cross-gcc'' cfg_cross_gcc = Inr ?gcc
      \<and> getitem ?gcc (fmt (Some ''bookworm'')) = Inr ''12''
      \<and> changelog_in (example_env failing) = Inr ''jellyfin''
      \<and> str_format (example_env failing) ''jellyfin''
           [(''package_version'', strip_version ''v10.9.0''),
            (''package_build'', take 3 ''debian'' @ replace_char CHR ''.'' ''12''),
            (''release_comment'',
             if CHR ''v'' \<in> set ''v10.9.0''
             then ''Jellyfin release '' @ ''v10.9.0''
                    @ '', see https://github.com/jellyfin/jellyfin/releases/'' @ ''v10.9.0''
                    @ '' for details.''
             else ''Jellyin unstable release '' @ ''v10.9.0'' @ ''.''),
            (''release_date'', now_rfc2822 (example_env failing))] =
          Inr ''jellyfin''
      \<and> conf example_configurations ''debian'' ''imagename'' cfg_imagename =
            Inr ''jellyfin-builder-debian''"
    by (simp add: example_simps lookup_def fmt_def changelog_env_def format_field_def)
  have e: "(example_env succeeding)\<lparr>engine := failing\<rparr> = example_env failing"
    "(example_env succeeding)\<lparr>engine := succeeding\<rparr> = example_env succeeding"
    by (simp_all add: example_env_def)
  note N = build_and_run_outcomes_never_read [where E = "example_env succeeding"
      and eng = failing and eng' = succeeding and cfg = example_configurations
      and raw = "''v10.9.0''" and bt = "''linux''" and a = "Some ''amd64''" and b = None
      and w = "[]" and f = Build_linux
      and G = "\<lparr>glob_build_arch = Some ''amd64'', glob_build_version = None\<rparr>"
      and yaml = "Inr example_configurations" and ?argv0.0 = "''build.py''"
      and args = "[''v10.9.0'', ''debian'', ''amd64'', ''bookworm'']", unfolded e]
  have c3: "build_portable (example_env failing) example_configurations ''v10.9.0'' ''portable''
         None None [] =
     (Inr (),
      [Log ''> Building a portable .NET archive...'', Log [],
       System ''docker build --progress=plain --no-cache --file /src/portable/Dockerfile --tag jellyfin-builder-portable-10.9.0_portable /src'',
       System ''docker run --rm --volume /src:/jellyfin --volume /src/out/portable:/dist --env JELLYFIN_VERSION=10.9.0 --env BUILD_TYPE=portable --env ARCHIVE_TYPES=targz,zip --name jellyfin-builder-portable-10.9.0_portable jellyfin-builder-portable-10.9.0_portable''])"
    using build_and_run_outcomes_never_read [where E = "example_env failing" and cfg = example_configurations
      and raw = "''v10.9.0''" and bt = "''portable''" and a = None and b = None and w = "[]"
      and df = "''portable/Dockerfile''" and name = "''jellyfin-builder-portable''"
      and archivetypes = "''targz,zip''",
      THEN conjunct2, THEN conjunct2, THEN conjunct1, THEN mp, OF portable_ready]
    by (simp add: example_env_def keys_def fmt_def strip_version_def replace_char_def docker_build_cmd_def
        docker_run_cmd_def)
  have c4: "build_package_deb (example_env failing) example_configurations ''v10.9.0'' ''debian''
         (Some ''amd64'') (Some ''bookworm'') [] =
     (Inr (),
      [Log ''> Building an amd64 debian .deb package...'', Log [],
       WriteFile ''/src/debian/changelog''
         ''jellyfin'',
       System ''docker build --progress=plain --no-cache --build-arg PACKAGE_TYPE=debian --build-arg PACKAGE_VERSION=12 --build-arg PACKAGE_ARCH=amd64 --build-arg GCC_VERSION=12 --file /src/debian/docker/Dockerfile --tag jellyfin-builder-debian-10.9.0_amd64-debian-bookworm /src'',
       System ''docker run --rm --volume /src:/jellyfin --volume /src/out/debian:/dist --env JELLYFIN_VERSION=10.9.0 --name jellyfin-builder-debian-10.9.0_amd64-debian-bookworm jellyfin-builder-debian-10.9.0_amd64-debian-bookworm''])"
    using build_and_run_outcomes_never_read [where E = "example_env failing" and cfg = example_configurations
      and raw = "''v10.9.0''" and bt = "''debian''" and arch = "Some ''amd64''"
      and ver = "Some ''bookworm''" and w = "[]" and releases = ?rel and os_version = "''12''"
      and archmaps = ?deb_archs and entry = "[(''PACKAGE_ARCH'', ''amd64'')]"
      and PACKAGE_ARCH = "''amd64''" and df = "''debian/docker/Dockerfile''" and cross = ?gcc
      and crossgccvers = "''12''" and template = "''jellyfin''"
      and changelog = "''jellyfin''"
      and name = "''jellyfin-builder-debian''",
      THEN conjunct2, THEN conjunct2, THEN conjunct2, THEN conjunct1, THEN mp, OF deb_ready]
    by (simp add: example_env_def keys_def fmt_def strip_version_def replace_char_def docker_build_cmd_def
        docker_run_cmd_def)
  have c5: "build_linux \<lparr>glob_build_arch = Some ''amd64'', glob_build_version = None\<rparr>
         (example_env failing) example_configurations ''v10.9.0'' ''linux'' (Some ''amd64'') None [] =
     (Inr (),
      [Log ''> Building a portable amd64 Linux archive...'', Log [],
       System ''docker build --progress=plain --no-cache --file /src/portable/Dockerfile --tag jellyfin-builder-linux-10.9.0_amd64-linux /src'',
       System ''docker run --rm --volume /src:/jellyfin --volume /src/out/linux:/dist --env JELLYFIN_VERSION=10.9.0 --env BUILD_TYPE=linux --env PACKAGE_ARCH=amd64 --env DOTNET_TYPE=linux --env DOTNET_ARCH=x64 --env ARCHIVE_TYPES=targz --name jellyfin-builder-linux-10.9.0_amd64-linux jellyfin-builder-linux-10.9.0_amd64-linux''])"
    using build_and_run_outcomes_never_read [where E = "example_env failing" and cfg = example_configurations
      and raw = "''v10.9.0''" and bt = "''linux''" and arch = "Some ''amd64''" and ver = None
      and ver' = None and w = "[]" and G = "\<lparr>glob_build_arch = Some ''amd64'', glob_build_version = None\<rparr>"
      and label = "''Linux''" and dotnet_type = "''linux''" and archmaps = ?linux_archs
      and entry = "[(''DOTNET_ARCH'', ''x64''), (''PACKAGE_ARCH'', ''amd64'')]"
      and PACKAGE_ARCH = "''amd64''" and DOTNET_ARCH = "''x64''"
      and df = "''portable/Dockerfile''" and name = "''jellyfin-builder-linux''"
      and archivetypes = "''targz''",
      THEN conjunct2, THEN conjunct2, THEN conjunct2, THEN conjunct2, THEN conjunct2, THEN conjunct1]
      build_and_run_outcomes_never_read [where E = "example_env failing" and cfg = example_configurations
      and raw = "''v10.9.0''" and bt = "''linux''" and arch = "Some ''amd64''" and ver = None
      and ver' = None and w = "[]" and G = "\<lparr>glob_build_arch = Some ''amd64'', glob_build_version = None\<rparr>"
      and label = "''Linux''" and dotnet_type = "''linux''" and archmaps = ?linux_archs
      and entry = "[(''DOTNET_ARCH'', ''x64''), (''PACKAGE_ARCH'', ''amd64'')]"
      and PACKAGE_ARCH = "''amd64''" and DOTNET_ARCH = "''x64''"
      and df = "''portable/Dockerfile''" and name = "''jellyfin-builder-linux''"
      and archivetypes = "''targz''",
      THEN conjunct2, THEN conjunct2, THEN conjunct2, THEN conjunct2, THEN conjunct1, THEN mp, OF linux_ready]
    by (simp add: example_env_def keys_def fmt_def strip_version_def replace_char_def docker_build_cmd_def
        docker_run_cmd_def)
  have known: "''debian'' \<in> set (keys example_configurations)
      \<and> configured_function example_configurations ''debian'' = Some Build_package_deb"
    by (simp add: example_simps)
  have returned: "fst (call Build_package_deb
                \<lparr>glob_build_arch = optional_argv (''v10.9.0'' # ''debian'' # [''amd64'', ''bookworm'']) 3,
                 glob_build_version =
                   optional_argv (''v10.9.0'' # ''debian'' # [''amd64'', ''bookworm'']) 4\<rparr>
                (example_env failing) example_configurations
                (if ''v10.9.0'' = ''master'' then now_hour (example_env failing) else ''v10.9.0'')
                ''debian''
                (optional_argv (''v10.9.0'' # ''debian'' # [''amd64'', ''bookworm'']) 3)
                (optional_argv (''v10.9.0'' # ''debian'' # [''amd64'', ''bookworm'']) 4)
                (if ''v10.9.0'' = ''master''
                 then log (''NOTE: Autocorrecting 'master' version to ''
                             @ now_hour (example_env failing)) []
                 else [])) = Inr ()"
    by (simp add: optional_argv_def argv_def c4)
  have c6: "exit_status (fst (script (example_env failing) (Inr example_configurations) ''build.py''
         [''v10.9.0'', ''debian'', ''amd64'', ''bookworm''] [])) = 0"
    by (rule build_and_run_outcomes_never_read [where E = "example_env failing"
      and cfg = example_configurations and raw = "''v10.9.0''" and bt = "''debian''"
      and rest = "[''amd64'', ''bookworm'']" and w = "[]" and f = Build_package_deb
      and ?argv0.0 = "''build.py''",
      THEN conjunct2, THEN conjunct2, THEN conjunct2, THEN conjunct2, THEN conjunct2, THEN conjunct2,
      THEN conjunct2, THEN conjunct2, THEN mp, OF conjI [OF known [THEN conjunct1]
        conjI [OF known [THEN conjunct2] returned]]])
  show ?thesis
    by (intro conjI)
      (rule N [THEN conjunct1], rule N [THEN conjunct2, THEN conjunct1], rule c3, rule c4, rule c5,
       rule c6)
qed

end
